theory Spec2Isabelle
  imports Main "HOL-Library.AList" "HOL-Library.Sublist"
begin

section \<open>The model: the orchestration core as HOL definitions\<close>

subsection \<open>Tool contract: parameter validation (app/agent/tools/base.py)\<close>

text \<open>
  Values that reach a tool as keyword arguments are what \<^verbatim>\<open>json.loads\<close> produces:
  strings, integers, floats, booleans, \<^verbatim>\<open>None\<close>, lists and dictionaries. Only the
  run-time type of a float matters to the validation, so a float is carried as its
  \<^verbatim>\<open>repr\<close> (the text Python prints for it), which identifies it.
\<close>

datatype pyval =
    PStr string
  | PInt int
  | PFloat string
  | PBool bool
  | PNone
  | PList "pyval list"
  | PDict "(string \<times> pyval) list"

datatype pytype = TStr | TInt | TFloat | TBool | TNoneType | TList | TDict

fun type_of :: "pyval \<Rightarrow> pytype" where
  "type_of (PStr _) = TStr"
| "type_of (PInt _) = TInt"
| "type_of (PFloat _) = TFloat"
| "type_of (PBool _) = TBool"
| "type_of PNone = TNoneType"
| "type_of (PList _) = TList"
| "type_of (PDict _) = TDict"

text \<open>\<^verbatim>\<open>type(value).__name__\<close>, used in the type-error message.\<close>

fun type_name :: "pytype \<Rightarrow> string" where
  "type_name TStr = ''str''"
| "type_name TInt = ''int''"
| "type_name TFloat = ''float''"
| "type_name TBool = ''bool''"
| "type_name TNoneType = ''NoneType''"
| "type_name TList = ''list''"
| "type_name TDict = ''dict''"

text \<open>
  \<^verbatim>\<open>isinstance(value, cls)\<close> for the built-in classes: \<^verbatim>\<open>bool\<close> is a subclass of
  \<^verbatim>\<open>int\<close>, every other class here has no subclass among the others. The second
  argument is a tuple of classes, as in \<^verbatim>\<open>(int, float)\<close>.
\<close>

definition issubclass :: "pytype \<Rightarrow> pytype \<Rightarrow> bool" where
  "issubclass c d \<longleftrightarrow> c = d \<or> (c = TBool \<and> d = TInt)"

definition isinstance :: "pyval \<Rightarrow> pytype list \<Rightarrow> bool" where
  "isinstance v cs \<longleftrightarrow> (\<exists>c \<in> set cs. issubclass (type_of v) c)"

text \<open>The dictionary \<^verbatim>\<open>type_mapping\<close> of \<^verbatim>\<open>_check_type\<close>, with \<^verbatim>\<open>.get\<close> as the lookup.\<close>

definition type_mapping :: "(string \<times> pytype list) list" where
  "type_mapping =
     [(''string'', [TStr]),
      (''number'', [TInt, TFloat]),
      (''integer'', [TInt]),
      (''boolean'', [TBool])]"

definition check_type :: "pyval \<Rightarrow> string \<Rightarrow> bool" where
  "check_type v expected_type =
     (case map_of type_mapping expected_type of
        None \<Rightarrow> True
      | Some expected \<Rightarrow> isinstance v expected)"

text \<open>
  \<^verbatim>\<open>ToolParameter\<close>; the field \<^verbatim>\<open>type\<close> is called \<open>ptype\<close> and \<^verbatim>\<open>enum\<close> is
  \<open>penum\<close> here. The description does not take part in validation.
\<close>

record tool_parameter =
  pname :: string
  ptype :: string
  required :: bool
  penum :: "string list option"

text \<open>
  The three \<^verbatim>\<open>ValueError\<close>s of \<^verbatim>\<open>validate_params\<close>, with the data their messages are
  formatted from: the parameter name; the name, the expected type and the actual type
  name; the name, the value and the allowed values.
\<close>

datatype validation_error =
    MissingRequired string
  | TypeMismatch string string string
  | EnumViolation string pyval "string list"

text \<open>
  \<^verbatim>\<open>value not in param.enum\<close> compares with \<^verbatim>\<open>==\<close>; the enum holds strings, and a
  string equals no value of another type.
\<close>

fun in_enum :: "pyval \<Rightarrow> string list \<Rightarrow> bool" where
  "in_enum (PStr s) allowed = (s \<in> set allowed)"
| "in_enum _ allowed = False"

text \<open>
  The body of the loop for one parameter: \<open>None\<close> when nothing is raised. An empty
  enum list is falsy, so \<^verbatim>\<open>param.enum and ...\<close> skips it like a missing one.
\<close>

definition validate_param :: "tool_parameter \<Rightarrow> (string \<rightharpoonup> pyval) \<Rightarrow> validation_error option" where
  "validate_param p kwargs =
     (if required p \<and> kwargs (pname p) = None then Some (MissingRequired (pname p))
      else case kwargs (pname p) of
        None \<Rightarrow> None
      | Some v \<Rightarrow>
          if \<not> check_type v (ptype p)
          then Some (TypeMismatch (pname p) (ptype p) (type_name (type_of v)))
          else (case penum p of
                  None \<Rightarrow> None
                | Some allowed \<Rightarrow>
                    if allowed \<noteq> [] \<and> \<not> in_enum v allowed
                    then Some (EnumViolation (pname p) v allowed)
                    else None))"

fun validate_params :: "tool_parameter list \<Rightarrow> (string \<rightharpoonup> pyval) \<Rightarrow> validation_error + unit" where
  "validate_params [] kwargs = Inr ()"
| "validate_params (p # ps) kwargs =
     (case validate_param p kwargs of
        Some e \<Rightarrow> Inl e
      | None \<Rightarrow> validate_params ps kwargs)"

text \<open>
  What a parameter contributes to a failed validation: the error it raises, with the
  reason. The three disjuncts are the three \<^verbatim>\<open>raise\<close> statements of the loop body.
\<close>

definition param_violation :: "tool_parameter \<Rightarrow> (string \<rightharpoonup> pyval) \<Rightarrow> validation_error \<Rightarrow> bool" where
  "param_violation p kwargs e \<longleftrightarrow>
     (required p \<and> kwargs (pname p) = None \<and> e = MissingRequired (pname p))
   \<or> (\<exists>v. kwargs (pname p) = Some v \<and> \<not> check_type v (ptype p)
          \<and> e = TypeMismatch (pname p) (ptype p) (type_name (type_of v)))
   \<or> (\<exists>v allowed. kwargs (pname p) = Some v \<and> check_type v (ptype p)
          \<and> penum p = Some allowed \<and> allowed \<noteq> [] \<and> \<not> in_enum v allowed
          \<and> e = EnumViolation (pname p) v allowed)"

text \<open>A small parameter declaration to run the validation on.\<close>

definition demo_params :: "tool_parameter list" where
  "demo_params =
     [\<lparr>pname = ''years'', ptype = ''integer'', required = True, penum = None\<rparr>,
      \<lparr>pname = ''rate'', ptype = ''number'', required = True, penum = None\<rparr>,
      \<lparr>pname = ''extra'', ptype = ''array'', required = False, penum = None\<rparr>,
      \<lparr>pname = ''method'', ptype = ''string'', required = False, penum = Some [''equal'', ''fixed'']\<rparr>]"


subsection \<open>Streamed result accumulator (app/llm/client.py, StreamResultCollector)\<close>

text \<open>
  A tool-call delta of the provider is a JSON object read with \<^verbatim>\<open>.get\<close>: every key
  may be missing. \<open>d_function\<close> is the nested object under the key \<^verbatim>\<open>function\<close>,
  with its optional keys \<^verbatim>\<open>name\<close> and \<^verbatim>\<open>arguments\<close>. Values that are present are
  taken to have the provider's types (an integer index, strings elsewhere).
\<close>

record function_delta =
  f_name :: "string option"
  f_arguments :: "string option"

record tool_call_delta =
  d_index :: "int option"
  d_id :: "string option"
  d_type :: "string option"
  d_function :: "function_delta option"

text \<open>The record the collector keeps per index, and hands on as one tool call.\<close>

record tool_call =
  tc_id :: string
  tc_type :: string
  tc_name :: string
  tc_arguments :: string

record stream_chunk =
  chunk_content :: string
  chunk_tool_calls :: "tool_call_delta list option"
  chunk_finish_reason :: "string option"

text \<open>
  The collector's \<^verbatim>\<open>tool_calls\<close> is a dictionary from index to record. Python
  dictionaries keep insertion order, and \<^verbatim>\<open>get_result\<close> lists the values in that
  order, so it is an association list: \<^const>\<open>AList.update\<close> replaces the value of a
  key that is present where it stands, and appends a new key at the end.
\<close>

record collector =
  content :: string
  tool_calls :: "(int \<times> tool_call) list"
  finish_reason :: string

record stream_result =
  r_content :: string
  r_tool_calls :: "tool_call list"
  r_finish_reason :: string

definition collector_init :: collector where
  "collector_init = \<lparr>content = [], tool_calls = [], finish_reason = []\<rparr>"

text \<open>\<^verbatim>\<open>d.get(key, default)\<close>.\<close>

definition get_or :: "'a option \<Rightarrow> 'a \<Rightarrow> 'a" where
  "get_or x dflt = (case x of None \<Rightarrow> dflt | Some v \<Rightarrow> v)"

text \<open>\<^verbatim>\<open>tc.get("function", {}).get(key, "")\<close>.\<close>

definition function_field :: "tool_call_delta \<Rightarrow> (function_delta \<Rightarrow> string option) \<Rightarrow> string" where
  "function_field tc field =
     (case d_function tc of None \<Rightarrow> [] | Some f \<Rightarrow> get_or (field f) [])"

definition new_tool_call :: "tool_call_delta \<Rightarrow> tool_call" where
  "new_tool_call tc =
     \<lparr>tc_id = get_or (d_id tc) [],
      tc_type = get_or (d_type tc) ''function'',
      tc_name = function_field tc f_name,
      tc_arguments = function_field tc f_arguments\<rparr>"

text \<open>
  \<^verbatim>\<open>"function" in tc and "arguments" in tc["function"]\<close>: the fragment to append,
  when the delta carries one.
\<close>

definition arguments_fragment :: "tool_call_delta \<Rightarrow> string option" where
  "arguments_fragment tc = (case d_function tc of None \<Rightarrow> None | Some f \<Rightarrow> f_arguments f)"

text \<open>The body of the loop over \<^verbatim>\<open>chunk.tool_calls\<close>, for one delta.\<close>

definition add_delta :: "(int \<times> tool_call) list \<Rightarrow> tool_call_delta \<Rightarrow> (int \<times> tool_call) list" where
  "add_delta tcs tc =
     (let index = get_or (d_index tc) 0 in
      case map_of tcs index of
        None \<Rightarrow> AList.update index (new_tool_call tc) tcs
      | Some r \<Rightarrow>
          (case arguments_fragment tc of
             None \<Rightarrow> tcs
           | Some a \<Rightarrow> AList.update index (r\<lparr>tc_arguments := tc_arguments r @ a\<rparr>) tcs))"

text \<open>
  \<^verbatim>\<open>add_chunk\<close>: the three \<^verbatim>\<open>if\<close>s test truthiness, so an empty text, an empty or
  missing delta list and an empty or missing finish reason change nothing.
\<close>

definition add_chunk :: "collector \<Rightarrow> stream_chunk \<Rightarrow> collector" where
  "add_chunk c chunk =
     (let c1 = (if chunk_content chunk \<noteq> [] then c\<lparr>content := content c @ chunk_content chunk\<rparr> else c);
          c2 = (case chunk_tool_calls chunk of
                  None \<Rightarrow> c1
                | Some tcs \<Rightarrow> c1\<lparr>tool_calls := foldl add_delta (tool_calls c1) tcs\<rparr>)
      in case chunk_finish_reason chunk of
           None \<Rightarrow> c2
         | Some fr \<Rightarrow> if fr \<noteq> [] then c2\<lparr>finish_reason := fr\<rparr> else c2)"

definition get_result :: "collector \<Rightarrow> stream_result" where
  "get_result c =
     \<lparr>r_content = content c, r_tool_calls = map snd (tool_calls c), r_finish_reason = finish_reason c\<rparr>"

text \<open>Draining a stream of chunks into a fresh collector, as \<^verbatim>\<open>chat_stream_complete\<close> does.\<close>

definition collect :: "stream_chunk list \<Rightarrow> stream_result" where
  "collect chunks = get_result (foldl add_chunk collector_init chunks)"

text \<open>
  The two deltas of the reassembly example: the first names the function \<^verbatim>\<open>f\<close> and
  carries the argument fragment \<^verbatim>\<open>{"a":\<close>, the second carries \<^verbatim>\<open>1}\<close>; both at index 0.
\<close>

definition example_delta1 :: tool_call_delta where
  "example_delta1 =
     \<lparr>d_index = Some 0, d_id = None, d_type = None,
      d_function = Some \<lparr>f_name = Some ''f'', f_arguments = Some (''{'' @ [CHR 0x22] @ ''a'' @ [CHR 0x22] @ '':'')\<rparr>\<rparr>"

definition example_delta2 :: tool_call_delta where
  "example_delta2 =
     \<lparr>d_index = Some 0, d_id = None, d_type = None,
      d_function = Some \<lparr>f_name = None, f_arguments = Some ''1}''\<rparr>\<rparr>"

definition example_chunks :: "stream_chunk list" where
  "example_chunks =
     [\<lparr>chunk_content = [], chunk_tool_calls = Some [example_delta1], chunk_finish_reason = None\<rparr>,
      \<lparr>chunk_content = [], chunk_tool_calls = Some [example_delta2], chunk_finish_reason = None\<rparr>]"

subsection \<open>Model client: the failure taxonomy (app/llm/client.py)\<close>

text \<open>
  The messages of the client are Chinese text. A \<open>string\<close> is a list of bytes here, so
  each fixed message is the list of its UTF-8 bytes; the text block before a constant
  gives its meaning.
\<close>

text \<open>Default message of \<^verbatim>\<open>LLMTimeoutError\<close>: the service timed out, retry later.\<close>

definition msg_timeout :: string where
  "msg_timeout =
     [CHR 0xE6, CHR 0x9C, CHR 0x8D, CHR 0xE5, CHR 0x8A, CHR 0xA1, CHR 0xE5, CHR 0x93,
     CHR 0x8D, CHR 0xE5, CHR 0xBA, CHR 0x94, CHR 0xE8, CHR 0xB6, CHR 0x85, CHR 0xE6,
     CHR 0x97, CHR 0xB6, CHR 0xEF, CHR 0xBC, CHR 0x8C, CHR 0xE8, CHR 0xAF, CHR 0xB7,
     CHR 0xE7, CHR 0xA8, CHR 0x8D, CHR 0xE5, CHR 0x90, CHR 0x8E, CHR 0xE9, CHR 0x87,
     CHR 0x8D, CHR 0xE8, CHR 0xAF, CHR 0x95]"

text \<open>Default message of \<^verbatim>\<open>LLMAuthError\<close>: the service is misconfigured, contact the administrator.\<close>

definition msg_auth :: string where
  "msg_auth =
     [CHR 0xE6, CHR 0x9C, CHR 0x8D, CHR 0xE5, CHR 0x8A, CHR 0xA1, CHR 0xE9, CHR 0x85,
     CHR 0x8D, CHR 0xE7, CHR 0xBD, CHR 0xAE, CHR 0xE9, CHR 0x94, CHR 0x99, CHR 0xE8,
     CHR 0xAF, CHR 0xAF, CHR 0xEF, CHR 0xBC, CHR 0x8C, CHR 0xE8, CHR 0xAF, CHR 0xB7,
     CHR 0xE8, CHR 0x81, CHR 0x94, CHR 0xE7, CHR 0xB3, CHR 0xBB, CHR 0xE7, CHR 0xAE,
     CHR 0xA1, CHR 0xE7, CHR 0x90, CHR 0x86, CHR 0xE5, CHR 0x91, CHR 0x98]"

text \<open>Default message of \<^verbatim>\<open>LLMRateLimitError\<close>: too many requests, retry later.\<close>

definition msg_rate_limit :: string where
  "msg_rate_limit =
     [CHR 0xE8, CHR 0xAF, CHR 0xB7, CHR 0xE6, CHR 0xB1, CHR 0x82, CHR 0xE8, CHR 0xBF,
     CHR 0x87, CHR 0xE4, CHR 0xBA, CHR 0x8E, CHR 0xE9, CHR 0xA2, CHR 0x91, CHR 0xE7,
     CHR 0xB9, CHR 0x81, CHR 0xEF, CHR 0xBC, CHR 0x8C, CHR 0xE8, CHR 0xAF, CHR 0xB7,
     CHR 0xE7, CHR 0xA8, CHR 0x8D, CHR 0xE5, CHR 0x90, CHR 0x8E, CHR 0xE9, CHR 0x87,
     CHR 0x8D, CHR 0xE8, CHR 0xAF, CHR 0x95]"

text \<open>Message for a connection failure: cannot connect to the DeepSeek service, check the network.\<close>

definition msg_connect :: string where
  "msg_connect =
     [CHR 0xE6, CHR 0x97, CHR 0xA0, CHR 0xE6, CHR 0xB3, CHR 0x95, CHR 0xE8, CHR 0xBF,
     CHR 0x9E, CHR 0xE6, CHR 0x8E, CHR 0xA5, CHR 0xE5, CHR 0x88, CHR 0xB0] @ '' DeepSeek '' @
     [CHR 0xE6, CHR 0x9C, CHR 0x8D, CHR 0xE5, CHR 0x8A, CHR 0xA1, CHR 0xEF, CHR 0xBC,
     CHR 0x8C, CHR 0xE8, CHR 0xAF, CHR 0xB7, CHR 0xE6, CHR 0xA3, CHR 0x80, CHR 0xE6,
     CHR 0x9F, CHR 0xA5, CHR 0xE7, CHR 0xBD, CHR 0x91, CHR 0xE7, CHR 0xBB, CHR 0x9C]"

text \<open>Message of \<^verbatim>\<open>_check_response_status\<close> for a status of 500 or more: the DeepSeek service is unavailable for the moment, retry later.\<close>

definition msg_5xx :: string where
  "msg_5xx =
     ''DeepSeek '' @ [CHR 0xE6, CHR 0x9C, CHR 0x8D, CHR 0xE5, CHR 0x8A, CHR 0xA1, CHR 0xE6,
     CHR 0x9A, CHR 0x82, CHR 0xE6, CHR 0x97, CHR 0xB6, CHR 0xE4, CHR 0xB8, CHR 0x8D,
     CHR 0xE5, CHR 0x8F, CHR 0xAF, CHR 0xE7, CHR 0x94, CHR 0xA8, CHR 0xEF, CHR 0xBC,
     CHR 0x8C, CHR 0xE8, CHR 0xAF, CHR 0xB7, CHR 0xE7, CHR 0xA8, CHR 0x8D, CHR 0xE5,
     CHR 0x90, CHR 0x8E, CHR 0xE9, CHR 0x87, CHR 0x8D, CHR 0xE8, CHR 0xAF, CHR 0x95]"

text \<open>The same for the streaming call: the DeepSeek service is unavailable for the moment.\<close>

definition msg_5xx_stream :: string where
  "msg_5xx_stream =
     ''DeepSeek '' @ [CHR 0xE6, CHR 0x9C, CHR 0x8D, CHR 0xE5, CHR 0x8A, CHR 0xA1, CHR 0xE6,
     CHR 0x9A, CHR 0x82, CHR 0xE6, CHR 0x97, CHR 0xB6, CHR 0xE4, CHR 0xB8, CHR 0x8D,
     CHR 0xE5, CHR 0x8F, CHR 0xAF, CHR 0xE7, CHR 0x94, CHR 0xA8]"

text \<open>Prefix for any other status: the API call failed, followed by a colon and a space.\<close>

definition prefix_api_failed :: string where
  "prefix_api_failed =
     ''API '' @ [CHR 0xE8, CHR 0xB0, CHR 0x83, CHR 0xE7, CHR 0x94, CHR 0xA8, CHR 0xE5,
     CHR 0xA4, CHR 0xB1, CHR 0xE8, CHR 0xB4, CHR 0xA5] @ '': ''"

text \<open>Prefix for any other exception of the one-shot call: an error occurred while calling the DeepSeek API.\<close>

definition prefix_call_error :: string where
  "prefix_call_error =
     [CHR 0xE8, CHR 0xB0, CHR 0x83, CHR 0xE7, CHR 0x94, CHR 0xA8] @ '' DeepSeek API '' @
     [CHR 0xE6, CHR 0x97, CHR 0xB6, CHR 0xE5, CHR 0x8F, CHR 0x91, CHR 0xE7, CHR 0x94,
     CHR 0x9F, CHR 0xE9, CHR 0x94, CHR 0x99, CHR 0xE8, CHR 0xAF, CHR 0xAF] @ '': ''"

text \<open>Prefix for any other exception of the streaming call.\<close>

definition prefix_stream_error :: string where
  "prefix_stream_error =
     [CHR 0xE6, CHR 0xB5, CHR 0x81, CHR 0xE5, CHR 0xBC, CHR 0x8F, CHR 0xE8, CHR 0xB0,
     CHR 0x83, CHR 0xE7, CHR 0x94, CHR 0xA8] @ '' DeepSeek API '' @ [CHR 0xE6, CHR 0x97,
     CHR 0xB6, CHR 0xE5, CHR 0x8F, CHR 0x91, CHR 0xE7, CHR 0x94, CHR 0x9F, CHR 0xE9,
     CHR 0x94, CHR 0x99, CHR 0xE8, CHR 0xAF, CHR 0xAF] @ '': ''"

text \<open>Default for a missing \<^verbatim>\<open>message\<close> key in the provider's error object: unknown error.\<close>

definition unknown_error_text :: string where
  "unknown_error_text =
     [CHR 0xE6, CHR 0x9C, CHR 0xAA, CHR 0xE7, CHR 0x9F, CHR 0xA5, CHR 0xE9, CHR 0x94,
     CHR 0x99, CHR 0xE8, CHR 0xAF, CHR 0xAF]"

text \<open>
  \<^verbatim>\<open>LLMError\<close> and its four subclasses. Each subclass fixes the code; the message is
  the constructor's argument, with the default above. The client only ever passes a
  message to \<^verbatim>\<open>LLMUnknownError\<close>.
\<close>

datatype llm_error_class = Timeout | Auth | RateLimit | Unknown

record llm_error =
  err_class :: llm_error_class
  code :: int
  message :: string

definition LLMTimeoutError :: llm_error where
  "LLMTimeoutError = \<lparr>err_class = Timeout, code = 1001, message = msg_timeout\<rparr>"

definition LLMAuthError :: llm_error where
  "LLMAuthError = \<lparr>err_class = Auth, code = 1002, message = msg_auth\<rparr>"

definition LLMRateLimitError :: llm_error where
  "LLMRateLimitError = \<lparr>err_class = RateLimit, code = 1003, message = msg_rate_limit\<rparr>"

definition LLMUnknownError :: "string \<Rightarrow> llm_error" where
  "LLMUnknownError msg = \<lparr>err_class = Unknown, code = 1099, message = msg\<rparr>"

text \<open>
  Formatting a value in an f-string is \<^verbatim>\<open>str(value)\<close>. For an integer that is its
  decimal digits; for a string, the string itself; for a list or a dictionary, the
  \<^verbatim>\<open>repr\<close> of its elements. \<open>repr_str\<close> follows Python's choice of quotes and its
  escapes for the backslash, the quote, newline, carriage return and tab; other
  control characters (which Python writes as hexadecimal escapes) are left as they are.
\<close>

fun show_nat :: "nat \<Rightarrow> string" where
  "show_nat n =
     (if n < 10 then [''0123456789'' ! n]
      else show_nat (n div 10) @ [''0123456789'' ! (n mod 10)])"

definition show_int :: "int \<Rightarrow> string" where
  "show_int i = (if i < 0 then ''-'' @ show_nat (nat (- i)) else show_nat (nat i))"

definition escape_char :: "char \<Rightarrow> char \<Rightarrow> string" where
  "escape_char q c =
     (if c = CHR 0x5C then [CHR 0x5C, CHR 0x5C]
      else if c = q then [CHR 0x5C, q]
      else if c = CHR 0x0A then [CHR 0x5C, CHR ''n'']
      else if c = CHR 0x0D then [CHR 0x5C, CHR ''r'']
      else if c = CHR 0x09 then [CHR 0x5C, CHR ''t'']
      else [c])"

definition repr_str :: "string \<Rightarrow> string" where
  "repr_str s =
     (let q = (if CHR 0x27 \<in> set s \<and> CHR 0x22 \<notin> set s then CHR 0x22 else CHR 0x27)
      in [q] @ concat (map (escape_char q) s) @ [q])"

fun join :: "string \<Rightarrow> string list \<Rightarrow> string" where
  "join sep [] = []"
| "join sep [x] = x"
| "join sep (x # y # ys) = x @ sep @ join sep (y # ys)"

fun py_repr :: "pyval \<Rightarrow> string" where
  "py_repr (PStr s) = repr_str s"
| "py_repr (PInt i) = show_int i"
| "py_repr (PFloat r) = r"
| "py_repr (PBool b) = (if b then ''True'' else ''False'')"
| "py_repr PNone = ''None''"
| "py_repr (PList xs) = ''['' @ join '', '' (map py_repr xs) @ '']''"
| "py_repr (PDict kvs) =
     ''{'' @ join '', '' (map (\<lambda>(k, v). repr_str k @ '': '' @ py_repr v) kvs) @ ''}''"

definition py_str :: "pyval \<Rightarrow> string" where
  "py_str v = (case v of PStr s \<Rightarrow> s | _ \<Rightarrow> py_repr v)"

text \<open>
  What the HTTP layer hands to the client. A request either fails in transport, by a
  timeout, a failed connection or any other exception (carried as its \<^verbatim>\<open>str\<close>), or
  yields a response: a status code and a body. \<open>json_body\<close> is what
  \<^verbatim>\<open>response.json()\<close> does with the body: \<open>Inl\<close> the text of the exception it raises
  on a malformed payload, \<open>Inr\<close> the decoded value. A decoded dictionary holds each
  key once, so \<^const>\<open>map_of\<close> is its lookup.
\<close>

datatype transport_failure = TimeoutException | ConnectError | OtherException string

record response =
  status_code :: int
  json_body :: "string + pyval"

datatype transport = Failed transport_failure | Responded response

text \<open>
  \<^verbatim>\<open>error_data.get("error", {}).get("message", <unknown error>)\<close>: \<open>None\<close> when the
  expression raises, because the body or the value under \<^verbatim>\<open>error\<close> is not a
  dictionary and has no \<^verbatim>\<open>get\<close>.
\<close>

definition provider_error_message :: "pyval \<Rightarrow> pyval option" where
  "provider_error_message error_data =
     (case error_data of
        PDict kvs \<Rightarrow>
          (case map_of kvs ''error'' of
             None \<Rightarrow> Some (PStr unknown_error_text)
           | Some (PDict err) \<Rightarrow> Some (get_or (map_of err ''message'') (PStr unknown_error_text))
           | Some _ \<Rightarrow> None)
      | _ \<Rightarrow> None)"

text \<open>The \<^verbatim>\<open>try\<close> of the last branch of \<^verbatim>\<open>_check_response_status\<close>: the text \<^verbatim>\<open>error_msg\<close>.\<close>

definition error_msg :: "response \<Rightarrow> string" where
  "error_msg r =
     (case json_body r of
        Inl _ \<Rightarrow> ''HTTP '' @ show_int (status_code r)
      | Inr error_data \<Rightarrow>
          (case provider_error_message error_data of
             None \<Rightarrow> ''HTTP '' @ show_int (status_code r)
           | Some m \<Rightarrow> py_str m))"

text \<open>\<^verbatim>\<open>_check_response_status\<close>: \<open>None\<close> when it returns, \<open>Some\<close> the error it raises.\<close>

definition check_response_status :: "response \<Rightarrow> llm_error option" where
  "check_response_status r =
     (if status_code r = 401 then Some LLMAuthError
      else if status_code r = 429 then Some LLMRateLimitError
      else if status_code r \<ge> 500 then Some (LLMUnknownError msg_5xx)
      else if status_code r \<noteq> 200 then Some (LLMUnknownError (prefix_api_failed @ error_msg r))
      else None)"

text \<open>
  \<^verbatim>\<open>chat\<close>: the response's decoded body, or the error raised. The handlers are tried
  in the order of the source: timeout, connection failure, an \<^verbatim>\<open>LLMError\<close> raised by
  the status check (passed on as it is), any other exception, which includes the one
  \<^verbatim>\<open>response.json()\<close> raises on a malformed payload.
\<close>

definition chat :: "transport \<Rightarrow> llm_error + pyval" where
  "chat t =
     (case t of
        Failed TimeoutException \<Rightarrow> Inl LLMTimeoutError
      | Failed ConnectError \<Rightarrow> Inl (LLMUnknownError msg_connect)
      | Failed (OtherException e) \<Rightarrow> Inl (LLMUnknownError (prefix_call_error @ e))
      | Responded r \<Rightarrow>
          (case check_response_status r of
             Some err \<Rightarrow> Inl err
           | None \<Rightarrow>
               (case json_body r of
                  Inl e \<Rightarrow> Inl (LLMUnknownError (prefix_call_error @ e))
                | Inr v \<Rightarrow> Inr v)))"

text \<open>
  The streaming call checks the status itself, before it reads the first line; what
  it raises instead of streaming, if anything. A failure while the lines are read is
  a transport failure as well and goes through the same handlers.
\<close>

definition chat_stream_status :: "int \<Rightarrow> llm_error option" where
  "chat_stream_status status =
     (if status = 401 then Some LLMAuthError
      else if status = 429 then Some LLMRateLimitError
      else if status \<ge> 500 then Some (LLMUnknownError msg_5xx_stream)
      else if status \<noteq> 200 then Some (LLMUnknownError (prefix_api_failed @ ''HTTP '' @ show_int status))
      else None)"

definition chat_stream_failure :: "transport_failure \<Rightarrow> llm_error" where
  "chat_stream_failure f =
     (case f of
        TimeoutException \<Rightarrow> LLMTimeoutError
      | ConnectError \<Rightarrow> LLMUnknownError msg_connect
      | OtherException e \<Rightarrow> LLMUnknownError (prefix_stream_error @ e))"

text \<open>
  The lines of the streamed body. What \<^verbatim>\<open>json.loads\<close> and \<^verbatim>\<open>_parse_stream_chunk\<close>
  make of the text after \<^verbatim>\<open>data: \<close> is given with the response: the text does not
  decode (\<^verbatim>\<open>json.JSONDecodeError\<close>), one of the two calls raises another exception
  (carried as its \<^verbatim>\<open>str\<close>), the frame yields no chunk, or it yields one.
\<close>

datatype frame = Undecodable | ParseRaises string | NoChunk | Chunk stream_chunk

text \<open>
  The loop \<^verbatim>\<open>async for line in response.aiter_lines()\<close>: the chunks it yields and the
  error that ends it, if one does. \<open>broken\<close> is the exception with which the
  transport ends the lines, if it does. A line that is empty or does not start with
  \<^verbatim>\<open>data: \<close> is passed over, \<^verbatim>\<open>[DONE]\<close> ends the loop, a line that does not decode
  is passed over by the inner handler; any other exception reaches the handlers of
  \<^verbatim>\<open>chat_stream\<close>.
\<close>

fun read_lines ::
  "(string \<Rightarrow> frame) \<Rightarrow> string list \<Rightarrow> transport_failure option \<Rightarrow> stream_chunk list \<times> llm_error option" where
  "read_lines decode [] broken = ([], map_option chat_stream_failure broken)"
| "read_lines decode (line # rest) broken =
     (if line = [] \<or> \<not> prefix ''data: '' line then read_lines decode rest broken
      else
        (let data_str = drop 6 line
         in if data_str = ''[DONE]'' then ([], None)
            else
              (case decode data_str of
                 Undecodable \<Rightarrow> read_lines decode rest broken
               | ParseRaises x \<Rightarrow> ([], Some (LLMUnknownError (prefix_stream_error @ x)))
               | NoChunk \<Rightarrow> read_lines decode rest broken
               | Chunk c \<Rightarrow>
                   (let (chunks, err) = read_lines decode rest broken
                    in (c # chunks, err)))))"

text \<open>
  \<^verbatim>\<open>chat_stream\<close>: the request fails in transport, or there is a response, with its
  status, its lines and the way they end. The result is the chunks yielded and the
  error raised, if any.
\<close>

record stream_response =
  stream_status :: int
  stream_lines :: "string list"
  stream_broken :: "transport_failure option"

datatype stream_transport = StreamFailed transport_failure | StreamResponded stream_response

definition chat_stream ::
  "(string \<Rightarrow> frame) \<Rightarrow> stream_transport \<Rightarrow> stream_chunk list \<times> llm_error option" where
  "chat_stream decode t =
     (case t of
        StreamFailed f \<Rightarrow> ([], Some (chat_stream_failure f))
      | StreamResponded r \<Rightarrow>
          (case chat_stream_status (stream_status r) of
             Some err \<Rightarrow> ([], Some err)
           | None \<Rightarrow> read_lines decode (stream_lines r) (stream_broken r)))"

text \<open>
  A response of the provider that refuses a request with status 400 and says why in
  its error object.
\<close>

definition provider_text :: string where
  "provider_text = ''Model ds-internal-7 does not exist for org 4411''"

definition response_400 :: response where
  "response_400 =
     \<lparr>status_code = 400,
      json_body = Inr (PDict [(''error'', PDict [(''message'', PStr provider_text), (''type'', PStr ''invalid_request_error'')])])\<rparr>"

text \<open>
  Two more refusals with status 400: a body that is a JSON object without an error
  object, and a body that is not JSON.
\<close>

definition response_400_bare :: response where
  "response_400_bare = \<lparr>status_code = 400, json_body = Inr (PDict [(''detail'', PStr provider_text)])\<rparr>"

definition response_400_html :: response where
  "response_400_html = \<lparr>status_code = 400, json_body = Inl ''Expecting value''\<rparr>"

text \<open>
  Frames of a stream: \<^verbatim>\<open>{"choices": [{"delta": {"content": "t"}}]}\<close> yields a chunk
  with the text \<^verbatim>\<open>t\<close>; \<^verbatim>\<open>{}\<close> has no choice and yields none; on \<^verbatim>\<open>1\<close> the parser
  raises, an integer has no \<^verbatim>\<open>get\<close>; the sample decoder takes any other text not to
  decode.
\<close>

definition frame_t :: string where
  "frame_t =
     ''{'' @ [CHR 0x22] @ ''choices'' @ [CHR 0x22] @ '': [{'' @ [CHR 0x22] @ ''delta'' @
     [CHR 0x22] @ '': {'' @ [CHR 0x22] @ ''content'' @ [CHR 0x22] @ '': '' @ [CHR 0x22] @
     ''t'' @ [CHR 0x22] @ ''}}]}''"

definition sample_decode :: "string \<Rightarrow> frame" where
  "sample_decode s =
     (if s = frame_t
      then Chunk \<lparr>chunk_content = ''t'', chunk_tool_calls = None, chunk_finish_reason = None\<rparr>
      else if s = ''{}'' then NoChunk
      else if s = ''1''
      then ParseRaises
         ([CHR 0x27] @ ''int'' @ [CHR 0x27] @ '' object has no attribute '' @ [CHR 0x27] @ ''get''
          @ [CHR 0x27])
      else Undecodable)"

subsection \<open>Specialists (app/agent/roles.py)\<close>

text \<open>
  Modelled from the spec: \<^verbatim>\<open>app/agent/roles.py\<close> is not among the sources. The spec
  describes a specialist as a static profile with an id and a display name, one of
  them the synthesizer; the planner's prompt and the tests of the role table
  (\<^verbatim>\<open>tests/test_roles.py\<close>) name the four specialists and say that \<^verbatim>\<open>get_role\<close> looks
  an id up in a dictionary of them and returns \<^verbatim>\<open>None\<close> for any other id. Only the
  id and the display name are used here.
\<close>

record role =
  r_id :: string
  r_name :: string

text \<open>Display name of \<^verbatim>\<open>financial_advisor\<close>: financial advisor.\<close>

definition name_financial_advisor :: string where
  "name_financial_advisor =
     [CHR 0xE8, CHR 0xB4, CHR 0xA2, CHR 0xE5, CHR 0x8A, CHR 0xA1, CHR 0xE9, CHR 0xA1,
     CHR 0xBE, CHR 0xE9, CHR 0x97, CHR 0xAE]"

text \<open>Display name of \<^verbatim>\<open>policy_expert\<close>: policy expert.\<close>

definition name_policy_expert :: string where
  "name_policy_expert =
     [CHR 0xE6, CHR 0x94, CHR 0xBF, CHR 0xE7, CHR 0xAD, CHR 0x96, CHR 0xE4, CHR 0xB8,
     CHR 0x93, CHR 0xE5, CHR 0xAE, CHR 0xB6]"

text \<open>Display name of \<^verbatim>\<open>market_analyst\<close>: market analyst.\<close>

definition name_market_analyst :: string where
  "name_market_analyst =
     [CHR 0xE5, CHR 0xB8, CHR 0x82, CHR 0xE5, CHR 0x9C, CHR 0xBA, CHR 0xE5, CHR 0x88,
     CHR 0x86, CHR 0xE6, CHR 0x9E, CHR 0x90, CHR 0xE5, CHR 0xB8, CHR 0x88]"

text \<open>Display name of \<^verbatim>\<open>purchase_consultant\<close>, the synthesizer: home-purchase consultant.\<close>

definition name_purchase_consultant :: string where
  "name_purchase_consultant =
     [CHR 0xE8, CHR 0xB4, CHR 0xAD, CHR 0xE6, CHR 0x88, CHR 0xBF, CHR 0xE9, CHR 0xA1,
     CHR 0xBE, CHR 0xE9, CHR 0x97, CHR 0xAE]"

definition ROLE_MAP :: "(string \<times> role) list" where
  "ROLE_MAP =
     [(''financial_advisor'', \<lparr>r_id = ''financial_advisor'', r_name = name_financial_advisor\<rparr>),
      (''policy_expert'', \<lparr>r_id = ''policy_expert'', r_name = name_policy_expert\<rparr>),
      (''market_analyst'', \<lparr>r_id = ''market_analyst'', r_name = name_market_analyst\<rparr>),
      (''purchase_consultant'', \<lparr>r_id = ''purchase_consultant'', r_name = name_purchase_consultant\<rparr>)]"

definition get_role :: "string \<Rightarrow> role option" where
  "get_role rid = map_of ROLE_MAP rid"

subsection \<open>Python exceptions and dynamic access\<close>

text \<open>
  The exceptions the planner and the engine can meet, each with the text \<^verbatim>\<open>str(e)\<close>
  gives. \<open>ExcOther\<close> stands for an exception of any other class.
\<close>

datatype py_exception =
    ExcLLM llm_error
  | ExcValue string
  | ExcJSONDecode string
  | ExcType string
  | ExcAttribute string
  | ExcKey string
  | ExcOther string

fun exc_str :: "py_exception \<Rightarrow> string" where
  "exc_str (ExcLLM e) = message e"
| "exc_str (ExcValue m) = m"
| "exc_str (ExcJSONDecode m) = m"
| "exc_str (ExcType m) = m"
| "exc_str (ExcAttribute m) = m"
| "exc_str (ExcKey k) = repr_str k"
| "exc_str (ExcOther m) = m"

text \<open>\<^verbatim>\<open>d[k]\<close> on a dictionary with string keys: \<^verbatim>\<open>KeyError\<close> when the key is missing.\<close>

definition dict_get :: "(string \<times> 'v) list \<Rightarrow> string \<Rightarrow> py_exception + 'v" where
  "dict_get d k = (case map_of d k of None \<Rightarrow> Inl (ExcKey k) | Some v \<Rightarrow> Inr v)"

text \<open>
  \<^verbatim>\<open>obj.get(key, default)\<close> on a decoded JSON value: only a dictionary has \<^verbatim>\<open>get\<close>.
\<close>

definition py_get :: "pyval \<Rightarrow> string \<Rightarrow> pyval \<Rightarrow> py_exception + pyval" where
  "py_get obj key dflt =
     (case obj of
        PDict kvs \<Rightarrow> Inr (get_or (map_of kvs key) dflt)
      | _ \<Rightarrow> Inl (ExcAttribute ([CHR 0x27] @ type_name (type_of obj) @ [CHR 0x27] @ '' object has no attribute '' @ [CHR 0x27] @ ''get'' @ [CHR 0x27])))"

text \<open>
  \<^verbatim>\<open>for x in obj\<close> on a decoded JSON value: a list gives its elements, a dictionary
  its keys, a string its characters as one-character strings (one per byte here, one
  per code point in Python: no statement depends on their number), anything else is
  not iterable.
\<close>

definition py_iter :: "pyval \<Rightarrow> py_exception + pyval list" where
  "py_iter obj =
     (case obj of
        PList xs \<Rightarrow> Inr xs
      | PDict kvs \<Rightarrow> Inr (map (\<lambda>kv. PStr (fst kv)) kvs)
      | PStr s \<Rightarrow> Inr (map (\<lambda>c. PStr [c]) s)
      | _ \<Rightarrow> Inl (ExcType ([CHR 0x27] @ type_name (type_of obj) @ [CHR 0x27] @ '' object is not iterable'')))"

text \<open>
  \<^verbatim>\<open>get_role(x)\<close> on a decoded JSON value, as a truth value: a list or a dictionary
  cannot be hashed for the lookup, and only a string can be a key of the role table.
\<close>

definition known_role :: "pyval \<Rightarrow> py_exception + bool" where
  "known_role x =
     (case x of
        PStr s \<Rightarrow> Inr (get_role s \<noteq> None)
      | PList _ \<Rightarrow> Inl (ExcType (''unhashable type: '' @ [CHR 0x27] @ ''list'' @ [CHR 0x27]))
      | PDict _ \<Rightarrow> Inl (ExcType (''unhashable type: '' @ [CHR 0x27] @ ''dict'' @ [CHR 0x27]))
      | _ \<Rightarrow> Inr False)"

subsection \<open>Execution plan (app/agent/intent.py)\<close>

record execution_node =
  role_id :: string
  depends_on :: "string list"

text \<open>
  The rationale is whatever the reply holds under \<^verbatim>\<open>reason\<close>: the dataclass does not
  check that it is a string.
\<close>

record execution_plan =
  nodes :: "execution_node list"
  reason :: pyval

text \<open>\<^verbatim>\<open>ExecutionPlan.get_ready_nodes\<close>.\<close>

definition get_ready_nodes :: "execution_plan \<Rightarrow> string set \<Rightarrow> execution_node list" where
  "get_ready_nodes plan completed =
     filter (\<lambda>node. role_id node \<notin> completed \<and> list_all (\<lambda>dep. dep \<in> completed) (depends_on node))
       (nodes plan)"

text \<open>Rationale of the plan for an empty input: empty input, the default role is used.\<close>

definition reason_empty_input :: string where
  "reason_empty_input =
     [CHR 0xE7, CHR 0xA9, CHR 0xBA, CHR 0xE8, CHR 0xBE, CHR 0x93, CHR 0xE5, CHR 0x85,
     CHR 0xA5, CHR 0xEF, CHR 0xBC, CHR 0x8C, CHR 0xE4, CHR 0xBD, CHR 0xBF, CHR 0xE7,
     CHR 0x94, CHR 0xA8, CHR 0xE9, CHR 0xBB, CHR 0x98, CHR 0xE8, CHR 0xAE, CHR 0xA4,
     CHR 0xE8, CHR 0xA7, CHR 0x92, CHR 0xE8, CHR 0x89, CHR 0xB2]"

text \<open>Rationale when no node survives parsing: the parsed result is empty, the default role is used.\<close>

definition reason_empty_result :: string where
  "reason_empty_result =
     [CHR 0xE8, CHR 0xA7, CHR 0xA3, CHR 0xE6, CHR 0x9E, CHR 0x90, CHR 0xE7, CHR 0xBB,
     CHR 0x93, CHR 0xE6, CHR 0x9E, CHR 0x9C, CHR 0xE4, CHR 0xB8, CHR 0xBA, CHR 0xE7,
     CHR 0xA9, CHR 0xBA, CHR 0xEF, CHR 0xBC, CHR 0x8C, CHR 0xE4, CHR 0xBD, CHR 0xBF,
     CHR 0xE7, CHR 0x94, CHR 0xA8, CHR 0xE9, CHR 0xBB, CHR 0x98, CHR 0xE8, CHR 0xAE,
     CHR 0xA4, CHR 0xE8, CHR 0xA7, CHR 0x92, CHR 0xE8, CHR 0x89, CHR 0xB2]"

text \<open>Prefix of the rationale after a parse failure: parsing failed, the default role is used.\<close>

definition prefix_parse_failed :: string where
  "prefix_parse_failed =
     [CHR 0xE8, CHR 0xA7, CHR 0xA3, CHR 0xE6, CHR 0x9E, CHR 0x90, CHR 0xE5, CHR 0xA4,
     CHR 0xB1, CHR 0xE8, CHR 0xB4, CHR 0xA5, CHR 0xEF, CHR 0xBC, CHR 0x8C, CHR 0xE4,
     CHR 0xBD, CHR 0xBF, CHR 0xE7, CHR 0x94, CHR 0xA8, CHR 0xE9, CHR 0xBB, CHR 0x98,
     CHR 0xE8, CHR 0xAE, CHR 0xA4, CHR 0xE8, CHR 0xA7, CHR 0x92, CHR 0xE8, CHR 0x89,
     CHR 0xB2] @ '': ''"

text \<open>Prefix of the rationale after a failed model call: the LLM call failed, the default role is used.\<close>

definition prefix_llm_failed :: string where
  "prefix_llm_failed =
     ''LLM '' @ [CHR 0xE8, CHR 0xB0, CHR 0x83, CHR 0xE7, CHR 0x94, CHR 0xA8, CHR 0xE5,
     CHR 0xA4, CHR 0xB1, CHR 0xE8, CHR 0xB4, CHR 0xA5, CHR 0xEF, CHR 0xBC, CHR 0x8C,
     CHR 0xE4, CHR 0xBD, CHR 0xBF, CHR 0xE7, CHR 0x94, CHR 0xA8, CHR 0xE9, CHR 0xBB,
     CHR 0x98, CHR 0xE8, CHR 0xAE, CHR 0xA4, CHR 0xE8, CHR 0xA7, CHR 0x92, CHR 0xE8,
     CHR 0x89, CHR 0xB2] @ '': ''"

text \<open>Prefix of the rationale after any other exception: planning failed, the default role is used.\<close>

definition prefix_planning_failed :: string where
  "prefix_planning_failed =
     [CHR 0xE8, CHR 0xA7, CHR 0x84, CHR 0xE5, CHR 0x88, CHR 0x92, CHR 0xE5, CHR 0xA4,
     CHR 0xB1, CHR 0xE8, CHR 0xB4, CHR 0xA5, CHR 0xEF, CHR 0xBC, CHR 0x8C, CHR 0xE4,
     CHR 0xBD, CHR 0xBF, CHR 0xE7, CHR 0x94, CHR 0xA8, CHR 0xE9, CHR 0xBB, CHR 0x98,
     CHR 0xE8, CHR 0xAE, CHR 0xA4, CHR 0xE8, CHR 0xA7, CHR 0x92, CHR 0xE8, CHR 0x89,
     CHR 0xB2] @ '': ''"

text \<open>The single-node plan pinned to the synthesizer, with a rationale.\<close>

definition default_plan :: "string \<Rightarrow> execution_plan" where
  "default_plan why =
     \<lparr>nodes = [\<lparr>role_id = ''purchase_consultant'', depends_on = []\<rparr>], reason = PStr why\<rparr>"

subsubsection \<open>Cycle check: \<^verbatim>\<open>_validate_dag\<close>\<close>

text \<open>
  \<^verbatim>\<open>in_degree\<close> and \<open>graph\<close> are dictionaries keyed by role id, built by a dictionary
  comprehension over the nodes: association lists in the order of first occurrence.
\<close>

definition init_in_degree :: "execution_node list \<Rightarrow> (string \<times> int) list" where
  "init_in_degree ns = foldl (\<lambda>d node. AList.update (role_id node) 0 d) [] ns"

definition init_graph :: "execution_node list \<Rightarrow> (string \<times> string list) list" where
  "init_graph ns = foldl (\<lambda>d node. AList.update (role_id node) [] d) [] ns"

text \<open>
  The inner loop \<^verbatim>\<open>for dep in node.depends_on\<close> for the node with id \<open>rid\<close>, and the
  outer loop over the nodes.
\<close>

fun add_deps ::
  "string set \<Rightarrow> string \<Rightarrow> (string \<times> string list) list \<times> (string \<times> int) list \<Rightarrow> string list
     \<Rightarrow> py_exception + (string \<times> string list) list \<times> (string \<times> int) list" where
  "add_deps ids rid (graph, in_degree) [] = Inr (graph, in_degree)"
| "add_deps ids rid (graph, in_degree) (dep # deps) =
     (if dep \<in> ids then
        (case dict_get graph dep of
           Inl e \<Rightarrow> Inl e
         | Inr out \<Rightarrow>
             (case dict_get in_degree rid of
                Inl e \<Rightarrow> Inl e
              | Inr deg \<Rightarrow>
                  add_deps ids rid
                    (AList.update dep (out @ [rid]) graph, AList.update rid (deg + 1) in_degree) deps))
      else add_deps ids rid (graph, in_degree) deps)"

fun build_edges ::
  "string set \<Rightarrow> (string \<times> string list) list \<times> (string \<times> int) list \<Rightarrow> execution_node list
     \<Rightarrow> py_exception + (string \<times> string list) list \<times> (string \<times> int) list" where
  "build_edges ids st [] = Inr st"
| "build_edges ids st (node # rest) =
     (case add_deps ids (role_id node) st (depends_on node) of
        Inl e \<Rightarrow> Inl e
      | Inr st' \<Rightarrow> build_edges ids st' rest)"

text \<open>
  The loop \<^verbatim>\<open>for neighbor in graph[current]\<close>: each neighbour's in-degree goes down by
  one, and a neighbour whose in-degree reaches zero joins the queue.
\<close>

fun relax ::
  "(string \<times> int) list \<times> string list \<Rightarrow> string list \<Rightarrow> py_exception + (string \<times> int) list \<times> string list" where
  "relax (in_degree, queue) [] = Inr (in_degree, queue)"
| "relax (in_degree, queue) (neighbor # rest) =
     (case dict_get in_degree neighbor of
        Inl e \<Rightarrow> Inl e
      | Inr deg \<Rightarrow>
          relax (AList.update neighbor (deg - 1) in_degree,
                 if deg - 1 = 0 then queue @ [neighbor] else queue) rest)"

text \<open>
  The size the \<^verbatim>\<open>while queue\<close> loop shrinks: the queue's length plus the positive
  in-degrees.
\<close>

definition loop_size :: "(string \<times> int) list \<times> string list \<Rightarrow> nat" where
  "loop_size st = length (snd st) + sum_list (map (\<lambda>kv. nat (snd kv)) (fst st))"


text \<open>
  The loop \<^verbatim>\<open>while queue\<close>, returning \<open>visited\<close>. It terminates because every round
  takes one node off the queue, and a node joins the queue only when a positive
  in-degree drops to zero.
\<close>

function topo_loop ::
  "(string \<times> string list) list \<Rightarrow> (string \<times> int) list \<Rightarrow> string list \<Rightarrow> nat \<Rightarrow> py_exception + nat" where
  "topo_loop graph in_degree [] visited = Inr visited"
| "topo_loop graph in_degree (current # queue) visited =
     (case dict_get graph current of
        Inl e \<Rightarrow> Inl e
      | Inr out \<Rightarrow>
          (case relax (in_degree, queue) out of
             Inl e \<Rightarrow> Inl e
           | Inr st \<Rightarrow> topo_loop graph (fst st) (snd st) (visited + 1)))"
  by pat_completeness auto
termination
proof (relation "measure (\<lambda>(graph, in_degree, queue, visited). loop_size (in_degree, queue))")
  show "wf (measure (\<lambda>(graph, in_degree, queue, visited). loop_size (in_degree, queue)))"
    by simp
next
  fix graph :: "(string \<times> string list) list" and in_degree :: "(string \<times> int) list"
    and current :: string and queue :: "string list" and visited :: nat
    and out :: "string list" and st :: "(string \<times> int) list \<times> string list"
  assume "relax (in_degree, queue) out = Inr st"
  have upd: "sum_list (map (\<lambda>kv. nat (snd kv)) (AList.update k w d)) + nat v
        = sum_list (map (\<lambda>kv. nat (snd kv)) d) + nat w"
    if "map_of d k = Some v" for d :: "(string \<times> int) list" and k v w
    using that by (induction d) (auto split: if_splits)
  have mono: "loop_size s' \<le> loop_size s" if "relax s nbs = Inr s'" for s s' nbs
    using that
  proof (induction nbs arbitrary: s)
    case Nil
    then show ?case by (cases s) simp
  next
    case (Cons nb nbs)
    obtain d q where s: "s = (d, q)" by (cases s)
    from Cons.prems s obtain deg where deg: "map_of d nb = Some deg"
      by (auto simp: dict_get_def split: option.splits)
    let ?s1 = "(AList.update nb (deg - 1) d, if deg - 1 = 0 then q @ [nb] else q)"
    from Cons.prems s deg have "relax ?s1 nbs = Inr s'"
      by (simp add: dict_get_def)
    then have "loop_size s' \<le> loop_size ?s1" by (rule Cons.IH)
    also have "loop_size ?s1 \<le> loop_size s"
      using upd [OF deg, of "deg - 1"] by (auto simp: loop_size_def s)
    finally show ?case .
  qed
  from mono [OF \<open>relax (in_degree, queue) out = Inr st\<close>]
  show "((graph, fst st, snd st, visited + 1), (graph, in_degree, current # queue, visited))
      \<in> measure (\<lambda>(graph, in_degree, queue, visited). loop_size (in_degree, queue))"
    by (simp add: loop_size_def)
qed

text \<open>
  \<^verbatim>\<open>_validate_dag\<close>. The initial queue lists the keys of \<^verbatim>\<open>in_degree\<close> whose value
  is zero, in the dictionary's order; the result compares the number of nodes taken
  off the queue with \<^verbatim>\<open>len(nodes)\<close>.
\<close>

definition role_ids_of :: "execution_node list \<Rightarrow> string set" where
  "role_ids_of ns = set (map role_id ns)"

definition zero_in_degree :: "(string \<times> int) list \<Rightarrow> string list" where
  "zero_in_degree in_degree = map fst (filter (\<lambda>kv. snd kv = 0) in_degree)"

definition visited_count :: "execution_node list \<Rightarrow> py_exception + nat" where
  "visited_count ns =
     (case build_edges (role_ids_of ns) (init_graph ns, init_in_degree ns) ns of
        Inl e \<Rightarrow> Inl e
      | Inr st \<Rightarrow> topo_loop (fst st) (snd st) (zero_in_degree (snd st)) 0)"

definition validate_dag :: "execution_node list \<Rightarrow> py_exception + bool" where
  "validate_dag ns =
     (case visited_count ns of
        Inl e \<Rightarrow> Inl e
      | Inr visited \<Rightarrow> Inr (visited = length ns))"

subsubsection \<open>Parsing the planner's reply: \<^verbatim>\<open>_parse_plan_response\<close>\<close>

text \<open>
  What \<^verbatim>\<open>re.search\<close> and \<^verbatim>\<open>json.loads\<close> make of the reply's text: no brace-delimited
  part at all, a part that does not decode (with the decoder's message), or the
  decoded value.
\<close>

datatype json_outcome = NoJson | BadJson string | Json pyval

text \<open>
  The list comprehension \<^verbatim>\<open>[d for d in depends_on if get_role(d)]\<close>. A value that
  passes is a string, the id of a specialist.
\<close>

fun valid_depends :: "pyval list \<Rightarrow> py_exception + string list" where
  "valid_depends [] = Inr []"
| "valid_depends (d # ds) =
     (case known_role d of
        Inl e \<Rightarrow> Inl e
      | Inr ok \<Rightarrow>
          (case valid_depends ds of
             Inl e \<Rightarrow> Inl e
           | Inr rest \<Rightarrow> Inr (case d of PStr s \<Rightarrow> if ok then s # rest else rest | _ \<Rightarrow> rest)))"

text \<open>
  The body of the loop over \<^verbatim>\<open>nodes_data\<close> for one element: \<open>None\<close> when the node is
  dropped, \<open>Some\<close> the node that is appended.
\<close>

definition parse_node :: "pyval \<Rightarrow> py_exception + execution_node option" where
  "parse_node node_data =
     (case py_get node_data ''role_id'' (PStr []) of
        Inl e \<Rightarrow> Inl e
      | Inr rid \<Rightarrow>
          (case known_role rid of
             Inl e \<Rightarrow> Inl e
           | Inr ok \<Rightarrow>
               (case rid of
                  PStr s \<Rightarrow>
                    if ok then
                      (case py_get node_data ''depends_on'' (PList []) of
                         Inl e \<Rightarrow> Inl e
                       | Inr deps \<Rightarrow>
                           (case py_iter deps of
                              Inl e \<Rightarrow> Inl e
                            | Inr ds \<Rightarrow>
                                (case valid_depends ds of
                                   Inl e \<Rightarrow> Inl e
                                 | Inr valid \<Rightarrow> Inr (Some \<lparr>role_id = s, depends_on = valid\<rparr>))))
                    else Inr None
                | _ \<Rightarrow> Inr None)))"

fun parse_nodes :: "pyval list \<Rightarrow> py_exception + execution_node list" where
  "parse_nodes [] = Inr []"
| "parse_nodes (node_data # rest) =
     (case parse_node node_data of
        Inl e \<Rightarrow> Inl e
      | Inr parsed \<Rightarrow>
          (case parse_nodes rest of
             Inl e \<Rightarrow> Inl e
           | Inr ns \<Rightarrow> Inr (case parsed of None \<Rightarrow> ns | Some node \<Rightarrow> node # ns)))"

text \<open>\<^verbatim>\<open>node.depends_on = []\<close> for every node.\<close>

definition clear_depends :: "execution_node list \<Rightarrow> execution_node list" where
  "clear_depends ns = map (\<lambda>node. node\<lparr>depends_on := []\<rparr>) ns"

text \<open>
  The nodes the reply's data yield, before the cycle check: the first loop of the
  \<^verbatim>\<open>try\<close> block.
\<close>

definition parsed_nodes :: "pyval \<Rightarrow> py_exception + execution_node list" where
  "parsed_nodes data =
     (case py_get data ''nodes'' (PList []) of
        Inl e \<Rightarrow> Inl e
      | Inr nodes_data \<Rightarrow>
          (case py_iter nodes_data of
             Inl e \<Rightarrow> Inl e
           | Inr nds \<Rightarrow> parse_nodes nds))"

text \<open>The \<^verbatim>\<open>try\<close> block, with what it raises.\<close>

definition parse_plan_body :: "json_outcome \<Rightarrow> py_exception + execution_plan" where
  "parse_plan_body outcome =
     (case outcome of
        NoJson \<Rightarrow> Inl (ExcValue ''No JSON found in response'')
      | BadJson m \<Rightarrow> Inl (ExcJSONDecode m)
      | Json data \<Rightarrow>
          (case parsed_nodes data of
             Inl e \<Rightarrow> Inl e
           | Inr ns \<Rightarrow>
               if ns = [] then Inr (default_plan reason_empty_result)
               else
                 (case validate_dag ns of
                    Inl e \<Rightarrow> Inl e
                  | Inr valid \<Rightarrow>
                      (case py_get data ''reason'' (PStr []) of
                         Inl e \<Rightarrow> Inl e
                       | Inr why \<Rightarrow>
                           Inr \<lparr>nodes = (if \<not> valid then clear_depends ns else ns), reason = why\<rparr>))))"

text \<open>
  \<^verbatim>\<open>_parse_plan_response\<close>: the handler catches \<^verbatim>\<open>json.JSONDecodeError\<close> and
  \<^verbatim>\<open>ValueError\<close>; every other exception leaves the function.
\<close>

definition parse_plan_response :: "json_outcome \<Rightarrow> py_exception + execution_plan" where
  "parse_plan_response outcome =
     (case parse_plan_body outcome of
        Inl (ExcValue m) \<Rightarrow> Inr (default_plan (prefix_parse_failed @ m))
      | Inl (ExcJSONDecode m) \<Rightarrow> Inr (default_plan (prefix_parse_failed @ m))
      | Inl e \<Rightarrow> Inl e
      | Inr plan \<Rightarrow> Inr plan)"

subsubsection \<open>\<^verbatim>\<open>plan_execution\<close>\<close>

text \<open>
  The user's text is a Python string: a list of code points. \<^verbatim>\<open>str.strip()\<close> removes
  the code points for which \<^verbatim>\<open>str.isspace\<close> holds from both ends.
\<close>

definition py_isspace :: "nat \<Rightarrow> bool" where
  "py_isspace c \<longleftrightarrow>
     c \<in> {9, 10, 11, 12, 13, 28, 29, 30, 31, 32, 133, 160, 5760, 8232, 8233, 8239, 8287, 12288}
     \<or> (8192 \<le> c \<and> c \<le> 8202)"

definition py_strip :: "nat list \<Rightarrow> nat list" where
  "py_strip s = rev (dropWhile py_isspace (rev (dropWhile py_isspace s)))"

text \<open>
  What the model call of \<^verbatim>\<open>_plan_with_llm\<close> comes to: the client raises an
  \<^verbatim>\<open>LLMError\<close>; or some other exception is raised before the reply's text reaches the
  parser (the response has not the expected shape, say), carried as its \<^verbatim>\<open>str\<close>; or
  the reply's text reaches the parser.
\<close>

datatype planner_reply = CallFailed llm_error | CallRaised string | Content json_outcome

definition plan_with_llm :: "planner_reply \<Rightarrow> py_exception + execution_plan" where
  "plan_with_llm reply =
     (case reply of
        CallFailed e \<Rightarrow> Inl (ExcLLM e)
      | CallRaised m \<Rightarrow> Inl (ExcOther m)
      | Content outcome \<Rightarrow> parse_plan_response outcome)"

text \<open>
  \<^verbatim>\<open>plan_execution\<close>, with its two handlers: \<^verbatim>\<open>LLMError\<close> first, then
  \<^verbatim>\<open>Exception\<close>. The result is a sum like that of the functions it calls, so that
  "it never raises" is a statement about it and not a matter of its type.
\<close>

definition plan_execution :: "nat list \<Rightarrow> planner_reply \<Rightarrow> py_exception + execution_plan" where
  "plan_execution user_input reply =
     (if py_strip user_input = [] then Inr (default_plan reason_empty_input)
      else
        (case plan_with_llm reply of
           Inl (ExcLLM e) \<Rightarrow> Inr (default_plan (prefix_llm_failed @ message e))
         | Inl e \<Rightarrow> Inr (default_plan (prefix_planning_failed @ exc_str e))
         | Inr plan \<Rightarrow> Inr plan))"


subsubsection \<open>Notions for the statements about the cycle check\<close>

text \<open>
  The value of \<open>graph[k]\<close> as a total function, for the statements about the check: the
  list under a key, and the empty list for a key that is missing.
\<close>

definition out_edges :: "(string \<times> string list) list \<Rightarrow> string \<Rightarrow> string list" where
  "out_edges g k = (case map_of g k of None \<Rightarrow> [] | Some l \<Rightarrow> l)"

text \<open>
  Likewise \<open>in_degree[k]\<close>, with 0 for a missing key.
\<close>

definition degree :: "(string \<times> int) list \<Rightarrow> string \<Rightarrow> int" where
  "degree d k = (case map_of d k of None \<Rightarrow> 0 | Some v \<Rightarrow> v)"

text \<open>
  The number of occurrences of \<open>r\<close> in the adjacency lists of the nodes in \<open>A\<close>: the
  decrements that processing all of \<open>A\<close> applies to the in-degree of \<open>r\<close>.
\<close>

definition pending :: "(string \<times> string list) list \<Rightarrow> string set \<Rightarrow> string \<Rightarrow> int" where
  "pending g A r = (\<Sum>k\<in>A. int (count_list (out_edges g k) r))"

text \<open>
  What the two construction loops keep true of \<open>graph\<close> and \<open>in_degree\<close>: both have
  exactly the role ids as keys, adjacency lists hold role ids only, and the in-degree of
  a node counts its occurrences in the adjacency lists.
\<close>

definition wf_build :: "string set \<Rightarrow> (string \<times> string list) list \<times> (string \<times> int) list \<Rightarrow> bool" where
  "wf_build ids st \<longleftrightarrow>
     finite ids \<and> fst ` set (fst st) = ids \<and> fst ` set (snd st) = ids
     \<and> distinct (map fst (snd st))
     \<and> (\<forall>k. set (out_edges (fst st) k) \<subseteq> ids)
     \<and> (\<forall>r\<in>ids. degree (snd st) r = pending (fst st) ids r)"

text \<open>
  The dependency graph of a node list: an edge from \<open>r\<close> to \<open>d\<close> when a node with
  id \<open>r\<close> lists \<open>d\<close> in \<^verbatim>\<open>depends_on\<close> and \<open>d\<close> is the id of a node of the list
  (the test \<^verbatim>\<open>dep in role_ids\<close>).
\<close>

definition dep_edge :: "execution_node list \<Rightarrow> (string \<times> string) set" where
  "dep_edge ns =
     {(r, d). (\<exists>node \<in> set ns. role_id node = r \<and> d \<in> set (depends_on node)) \<and> d \<in> role_ids_of ns}"

text \<open>
  The invariant of the \<^verbatim>\<open>while\<close> loop. \<open>P\<close> lists the nodes taken off the queue so
  far, \<open>rest\<close> the neighbours the inner loop has still to visit, \<open>S\<close> is a set of nodes
  that each depend on a node of \<open>S\<close> (the nodes on cycles): no node of \<open>S\<close> is ever
  queued; a node is queued or processed exactly when its in-degree is zero; and the
  in-degree of a node counts its occurrences in the adjacency lists not yet processed.
\<close>

definition kahn_inv ::
  "(string \<times> string list) list \<Rightarrow> string set \<Rightarrow> string set \<Rightarrow> (string \<times> int) list \<Rightarrow> string list
     \<Rightarrow> string list \<Rightarrow> string list \<Rightarrow> bool" where
  "kahn_inv g ids S ind queue P rest \<longleftrightarrow>
     fst ` set ind = ids \<and> set rest \<subseteq> ids
     \<and> distinct (P @ queue) \<and> set (P @ queue) \<subseteq> ids \<and> set (P @ queue) \<inter> S = {}
     \<and> (\<forall>r\<in>ids. degree ind r = pending g (ids - set P) r + int (count_list rest r))
     \<and> (\<forall>r\<in>ids. r \<in> set (P @ queue) \<longleftrightarrow> degree ind r = 0)"

text \<open>
  A plan's dependency graph contains a cycle when some node reaches itself along one
  or more dependency edges.
\<close>

definition has_cycle :: "execution_node list \<Rightarrow> bool" where
  "has_cycle ns \<longleftrightarrow> (\<exists>r. (r, r) \<in> (dep_edge ns)\<^sup>+)"


subsubsection \<open>Sample replies of the planner's model\<close>

text \<open>
  A reply in which two specialists depend on each other:
  \<^verbatim>\<open>{"nodes": [{"role_id": "policy_expert", "depends_on": ["financial_advisor"]},
  {"role_id": "financial_advisor", "depends_on": ["policy_expert"]}], "reason": "mutual"}\<close>,
  and the nodes it parses to.
\<close>

definition cyclic_reply :: pyval where
  "cyclic_reply =
     PDict [(''nodes'', PList
               [PDict [(''role_id'', PStr ''policy_expert''), (''depends_on'', PList [PStr ''financial_advisor''])],
                PDict [(''role_id'', PStr ''financial_advisor''), (''depends_on'', PList [PStr ''policy_expert''])]]),
            (''reason'', PStr ''mutual'')]"

definition cyclic_nodes :: "execution_node list" where
  "cyclic_nodes =
     [\<lparr>role_id = ''policy_expert'', depends_on = [''financial_advisor'']\<rparr>,
      \<lparr>role_id = ''financial_advisor'', depends_on = [''policy_expert'']\<rparr>]"

text \<open>
  A reply with a single node that depends on a specialist the plan does not contain:
  \<^verbatim>\<open>{"nodes": [{"role_id": "financial_advisor", "depends_on": ["policy_expert"]}],
  "reason": "loan"}\<close>.
\<close>

definition dangling_reply :: pyval where
  "dangling_reply =
     PDict [(''nodes'', PList
               [PDict [(''role_id'', PStr ''financial_advisor''), (''depends_on'', PList [PStr ''policy_expert''])]]),
            (''reason'', PStr ''loan'')]"

text \<open>A reply that decodes, but whose \<^verbatim>\<open>nodes\<close> is a number: \<^verbatim>\<open>{"nodes": 3}\<close>.\<close>

definition ill_shaped_reply :: pyval where
  "ill_shaped_reply = PDict [(''nodes'', PInt 3)]"


text \<open>
  A reply whose only node names no specialist:
  \<^verbatim>\<open>{"nodes": [{"role_id": "tax_lawyer", "depends_on": []}], "reason": "tax"}\<close>.
\<close>

definition unknown_only_reply :: pyval where
  "unknown_only_reply =
     PDict [(''nodes'', PList [PDict [(''role_id'', PStr ''tax_lawyer''), (''depends_on'', PList [])]]),
            (''reason'', PStr ''tax'')]"

text \<open>
  A reply without a cycle in which a role id occurs twice:
  \<^verbatim>\<open>{"nodes": [{"role_id": "policy_expert", "depends_on": []},
  {"role_id": "financial_advisor", "depends_on": ["policy_expert"]},
  {"role_id": "policy_expert", "depends_on": []}], "reason": "twice"}\<close>,
  and the nodes it parses to.
\<close>

definition duplicate_reply :: pyval where
  "duplicate_reply =
     PDict [(''nodes'', PList
               [PDict [(''role_id'', PStr ''policy_expert''), (''depends_on'', PList [])],
                PDict [(''role_id'', PStr ''financial_advisor''), (''depends_on'', PList [PStr ''policy_expert''])],
                PDict [(''role_id'', PStr ''policy_expert''), (''depends_on'', PList [])]]),
            (''reason'', PStr ''twice'')]"

definition duplicate_nodes :: "execution_node list" where
  "duplicate_nodes =
     [\<lparr>role_id = ''policy_expert'', depends_on = []\<rparr>,
      \<lparr>role_id = ''financial_advisor'', depends_on = [''policy_expert'']\<rparr>,
      \<lparr>role_id = ''policy_expert'', depends_on = []\<rparr>]"

subsection \<open>Tool execution at the call boundary (app/agent/engine.py)\<close>

text \<open>Message of the first \<^verbatim>\<open>ValueError\<close> of \<^verbatim>\<open>validate_params\<close>: a required parameter is missing, followed by its name.\<close>

definition msg_missing_param :: string where
  "msg_missing_param =
     [CHR 0xE7, CHR 0xBC, CHR 0xBA, CHR 0xE5, CHR 0xB0, CHR 0x91, CHR 0xE5, CHR 0xBF,
     CHR 0x85, CHR 0xE9, CHR 0x9C, CHR 0x80, CHR 0xE5, CHR 0x8F, CHR 0x82, CHR 0xE6,
     CHR 0x95, CHR 0xB0] @ '': ''"

text \<open>The word that opens the other two messages: parameter.\<close>

definition msg_param :: string where
  "msg_param =
     [CHR 0xE5, CHR 0x8F, CHR 0x82, CHR 0xE6, CHR 0x95, CHR 0xB0] @ '' ''"

text \<open>Wrong type: expected.\<close>

definition msg_type_expected :: string where
  "msg_type_expected =
     '' '' @ [CHR 0xE7, CHR 0xB1, CHR 0xBB, CHR 0xE5, CHR 0x9E, CHR 0x8B, CHR 0xE9, CHR 0x94,
     CHR 0x99, CHR 0xE8, CHR 0xAF, CHR 0xAF] @ '': '' @ [CHR 0xE6, CHR 0x9C, CHR 0x9F,
     CHR 0xE6, CHR 0x9C, CHR 0x9B] @ '' ''"

text \<open>Actual.\<close>

definition msg_type_actual :: string where
  "msg_type_actual =
     '', '' @ [CHR 0xE5, CHR 0xAE, CHR 0x9E, CHR 0xE9, CHR 0x99, CHR 0x85] @ '' ''"

text \<open>Invalid value.\<close>

definition msg_value_invalid :: string where
  "msg_value_invalid =
     '' '' @ [CHR 0xE5, CHR 0x80, CHR 0xBC, CHR 0xE6, CHR 0x97, CHR 0xA0, CHR 0xE6, CHR 0x95,
     CHR 0x88] @ '': ''"

text \<open>Allowed values.\<close>

definition msg_allowed :: string where
  "msg_allowed =
     '', '' @ [CHR 0xE5, CHR 0x85, CHR 0x81, CHR 0xE8, CHR 0xAE, CHR 0xB8, CHR 0xE5,
     CHR 0x80, CHR 0xBC] @ '': ''"

text \<open>The word tool, with a space.\<close>

definition msg_tool :: string where
  "msg_tool =
     [CHR 0xE5, CHR 0xB7, CHR 0xA5, CHR 0xE5, CHR 0x85, CHR 0xB7] @ '' ''"

text \<open>Does not exist.\<close>

definition msg_not_exist :: string where
  "msg_not_exist =
     '' '' @ [CHR 0xE4, CHR 0xB8, CHR 0x8D, CHR 0xE5, CHR 0xAD, CHR 0x98, CHR 0xE5, CHR 0x9C,
     CHR 0xA8]"

text \<open>Prefix of the rendered failure of a node: execution failed.\<close>

definition prefix_execution_failed :: string where
  "prefix_execution_failed =
     [CHR 0xE6, CHR 0x89, CHR 0xA7, CHR 0xE8, CHR 0xA1, CHR 0x8C, CHR 0xE5, CHR 0x87,
     CHR 0xBA, CHR 0xE9, CHR 0x94, CHR 0x99] @ '': ''"

text \<open>The role does not exist.\<close>

definition msg_role_not_exist :: string where
  "msg_role_not_exist =
     [CHR 0xE8, CHR 0xA7, CHR 0x92, CHR 0xE8, CHR 0x89, CHR 0xB2, CHR 0xE4, CHR 0xB8,
     CHR 0x8D, CHR 0xE5, CHR 0xAD, CHR 0x98, CHR 0xE5, CHR 0x9C, CHR 0xA8]"

text \<open>\<^verbatim>\<open>str(e)\<close> of the \<^verbatim>\<open>ValueError\<close> that \<^verbatim>\<open>validate_params\<close> raises.\<close>

fun validation_message :: "validation_error \<Rightarrow> string" where
  "validation_message (MissingRequired n) = msg_missing_param @ n"
| "validation_message (TypeMismatch n expected actual) =
     msg_param @ n @ msg_type_expected @ expected @ msg_type_actual @ actual"
| "validation_message (EnumViolation n v allowed) =
     msg_param @ n @ msg_value_invalid @ py_str v @ msg_allowed @ py_repr (PList (map PStr allowed))"

text \<open>
  A registered tool: the module and the qualified name of its \<^verbatim>\<open>execute\<close> method
  (Python names them in the errors for a bad argument list), its declared parameters,
  and what the body of \<^verbatim>\<open>execute\<close> does after validation: raise, or return a
  result. Every tool of the repository declares \<^verbatim>\<open>execute(self, **kwargs)\<close> and begins
  it with \<^verbatim>\<open>self.validate_params(**kwargs)\<close>.
\<close>

record tool =
  t_module :: string
  t_qualname :: string
  t_parameters :: "tool_parameter list"
  t_body :: "(string \<rightharpoonup> pyval) \<Rightarrow> py_exception + pyval"

text \<open>
  \<^verbatim>\<open>await tool.execute(**tool_args)\<close>. The call binds the arguments before the body
  runs: the decoded value must be a dictionary to be unpacked, and a key \<^verbatim>\<open>self\<close>
  collides with the method's first parameter; both raise \<^verbatim>\<open>TypeError\<close> (the texts are
  CPython's). Then comes the validation, then the rest of the body.
\<close>

definition execute :: "tool \<Rightarrow> pyval \<Rightarrow> py_exception + pyval" where
  "execute t tool_args =
     (case tool_args of
        PDict kvs \<Rightarrow>
          if map_of kvs ''self'' \<noteq> None
          then Inl (ExcType (t_qualname t @ ''() got multiple values for argument ''
                             @ [CHR 0x27] @ ''self'' @ [CHR 0x27]))
          else
            (case validate_params (t_parameters t) (map_of kvs) of
               Inl err \<Rightarrow> Inl (ExcValue (validation_message err))
             | Inr _ \<Rightarrow> t_body t (map_of kvs))
      | _ \<Rightarrow>
          Inl (ExcType (t_module t @ ''.'' @ t_qualname t
                        @ ''() argument after ** must be a mapping, not ''
                        @ type_name (type_of tool_args))))"

text \<open>
  The messages of a model call. Their texts are built from templates and prompts; a
  message keeps the data its text is built from. \<open>SystemMessage\<close> is the system
  prompt of a specialist (by id) extended with the results of other specialists (display
  name and result, in the order of the result map) and the fixed format instructions;
  \<open>PlainMessage\<close> is a role and a content, as the history holds them;
  \<open>AssistantToolMessage\<close> is the assistant's message that requests tool calls;
  \<open>ToolMessage\<close> is a tool's result, with the id of the call it answers;
  \<open>SynthesisSystemMessage\<close> and \<open>SynthesisUserMessage\<close> are the two messages of the
  synthesis call, the latter built from the user's text and every result.
\<close>

datatype message =
    SystemMessage string "(string \<times> string) list"
  | PlainMessage string string
  | AssistantToolMessage "string option" "tool_call list"
  | ToolMessage string string
  | SynthesisSystemMessage
  | SynthesisUserMessage string "(string \<times> string) list"

text \<open>
  The events of the stream. A thinking step keeps its kind and the data of its text:
  for \<open>Planning\<close> the text sent so far (shown stripped and cut to 100 characters), for
  \<open>StepError\<close> the exception's text. Events carry the role id; the display name and
  the icon that accompany it in \<^verbatim>\<open>role_start\<close> are left out, as is the fixed text of a
  \<^verbatim>\<open>tool_result\<close> event. The boolean of \<open>ContentDelta\<close> is \<^verbatim>\<open>after_tool\<close>, those of
  \<open>RoleStart\<close> and \<open>RoleResult\<close> are \<^verbatim>\<open>is_summary\<close>.
\<close>

datatype step = Planning string | RoleDispatch | RoleComplete | StepError string | Synthesizing

datatype event =
    RoleStart string bool
  | ThinkingStep step "string option"
  | ContentDelta string string bool
  | ContentComplete string string
  | ToolCallEvent string string string
  | ToolResultEvent string string
  | ToolContentComplete string string
  | RoleResult string string bool

text \<open>
  What the engine does not compute itself: the model's answer to a list of messages,
  streamed (the chunks, and the error that ends the stream if one does) or in one piece
  (the error raised, or the content and the tool calls of the first choice's message,
  taken to have the provider's shape); the JSON decoder (\<open>None\<close> when it raises
  \<^verbatim>\<open>JSONDecodeError\<close>) and encoder; and the tool registry's lookup.
\<close>

record env =
  llm_stream :: "message list \<Rightarrow> stream_chunk list \<times> llm_error option"
  llm_chat :: "message list \<Rightarrow> llm_error + string \<times> tool_call list"
  json_loads :: "string \<Rightarrow> pyval option"
  json_dumps :: "pyval \<Rightarrow> string"
  registry :: "string \<Rightarrow> tool option"

text \<open>
  How a call, a generator or a coroutine ends: it returns, it raises, or it is still
  running when the bound on the number of model rounds is used up. The source puts no
  bound on the rounds of tool calls a model may ask for; \<open>Unfinished\<close> marks a run cut
  at the bound, and the events listed with it are those emitted up to there.
\<close>

datatype 'a outcome = Returns 'a | Raises py_exception | Unfinished

text \<open>
  The body of the loop \<^verbatim>\<open>for tool_call in tool_calls\<close>, common to
  \<^verbatim>\<open>_handle_tool_calls_stream\<close> and \<^verbatim>\<open>_handle_tool_calls\<close>: the events it emits (the
  latter only collects them when \<^verbatim>\<open>emit_events\<close> is set) and the tool message it
  appends. \<open>tool_args_of\<close> is the \<^verbatim>\<open>try\<close> around \<^verbatim>\<open>json.loads\<close>; the payload of a
  failure is the dictionary \<^verbatim>\<open>{"error": <message>}\<close>, encoded like a result.
\<close>

definition tool_args_of :: "env \<Rightarrow> string \<Rightarrow> pyval" where
  "tool_args_of e tool_args_str =
     (case json_loads e tool_args_str of None \<Rightarrow> PDict [] | Some v \<Rightarrow> v)"

definition run_tool_call :: "env \<Rightarrow> string \<Rightarrow> tool_call \<Rightarrow> event list \<times> message" where
  "run_tool_call e rid tc =
     (let tool_name = tc_name tc;
          tool_args_str = tc_arguments tc;
          tool_call_id = tc_id tc;
          call_event = ToolCallEvent tool_name tool_args_str rid;
          tool_args = tool_args_of e tool_args_str
      in case registry e tool_name of
           Some t \<Rightarrow>
             (case execute t tool_args of
                Inr result \<Rightarrow>
                  ([call_event, ToolResultEvent tool_name rid],
                   ToolMessage tool_call_id (json_dumps e result))
              | Inl exc \<Rightarrow>
                  ([call_event],
                   ToolMessage tool_call_id (json_dumps e (PDict [(''error'', PStr (exc_str exc))]))))
         | None \<Rightarrow>
             ([call_event],
              ToolMessage tool_call_id
                (json_dumps e (PDict [(''error'', PStr (msg_tool @ tool_name @ msg_not_exist))]))))"

fun run_tool_calls :: "env \<Rightarrow> string \<Rightarrow> tool_call list \<Rightarrow> message list \<Rightarrow> event list \<times> message list" where
  "run_tool_calls e rid [] messages = ([], messages)"
| "run_tool_calls e rid (tc # tcs) messages =
     (let (evs, m) = run_tool_call e rid tc;
          (evs', messages') = run_tool_calls e rid tcs (messages @ [m])
      in (evs @ evs', messages'))"

subsection \<open>Orchestration engine: running one specialist (app/agent/engine.py)\<close>

text \<open>
  \<^verbatim>\<open>ConversationContext\<close>: the message history (role and content) and the result map,
  a dictionary in insertion order. The session id and the user-profile map take no part
  in a turn's scheduling.
\<close>

record conversation_context =
  history :: "(string \<times> string) list"
  role_results :: "(string \<times> string) list"


definition get_recent_history :: "conversation_context \<Rightarrow> nat \<Rightarrow> (string \<times> string) list" where
  "get_recent_history ctx max_turns =
     (let max_messages = max_turns * 2
      in if length (history ctx) > max_messages
         then drop (length (history ctx) - max_messages) (history ctx)
         else history ctx)"

text \<open>
  \<^verbatim>\<open>text.strip()\<close> as a truth value, on UTF-8 text: \<open>blank\<close> holds when the text
  consists of white space only. \<open>ws_codes\<close> lists the encodings of the code points for
  which \<^verbatim>\<open>str.isspace\<close> holds.
\<close>

definition ws_codes :: "string list" where
  "ws_codes =
     [[CHR 0x09], [CHR 0x0A], [CHR 0x0B], [CHR 0x0C], [CHR 0x0D],
      [CHR 0x1C], [CHR 0x1D], [CHR 0x1E], [CHR 0x1F], [CHR 0x20],
      [CHR 0xC2, CHR 0x85], [CHR 0xC2, CHR 0xA0], [CHR 0xE1, CHR 0x9A, CHR 0x80],
      [CHR 0xE2, CHR 0x80, CHR 0x80], [CHR 0xE2, CHR 0x80, CHR 0x81], [CHR 0xE2, CHR 0x80, CHR 0x82],
      [CHR 0xE2, CHR 0x80, CHR 0x83], [CHR 0xE2, CHR 0x80, CHR 0x84], [CHR 0xE2, CHR 0x80, CHR 0x85],
      [CHR 0xE2, CHR 0x80, CHR 0x86], [CHR 0xE2, CHR 0x80, CHR 0x87], [CHR 0xE2, CHR 0x80, CHR 0x88],
      [CHR 0xE2, CHR 0x80, CHR 0x89], [CHR 0xE2, CHR 0x80, CHR 0x8A], [CHR 0xE2, CHR 0x80, CHR 0xA8],
      [CHR 0xE2, CHR 0x80, CHR 0xA9], [CHR 0xE2, CHR 0x80, CHR 0xAF], [CHR 0xE2, CHR 0x81, CHR 0x9F],
      [CHR 0xE3, CHR 0x80, CHR 0x80]]"

fun drop_ws :: "string list \<Rightarrow> string \<Rightarrow> string option" where
  "drop_ws [] s = None"
| "drop_ws (p # ps) s =
     (if p \<noteq> [] \<and> take (length p) s = p then Some (drop (length p) s) else drop_ws ps s)"

function blank :: "string \<Rightarrow> bool" where
  "blank s =
     (if s = [] then True
      else case drop_ws ws_codes s of None \<Rightarrow> False | Some s' \<Rightarrow> blank s')"
  by pat_completeness auto
termination
proof (relation "measure length")
  show "wf (measure length)" by simp
next
  fix s s' :: string
  assume "drop_ws ws_codes s = Some s'"
  moreover have "drop_ws ps t = Some t' \<Longrightarrow> length t' < length t" for ps t t'
  proof (induction ps)
    case Nil
    then show ?case by simp
  next
    case (Cons p ps)
    show ?case
    proof (cases "p \<noteq> [] \<and> take (length p) t = p")
      case True
      then have "t \<noteq> []" by auto
      with True Cons.prems show ?thesis by auto
    next
      case False
      with Cons show ?thesis by auto
    qed
  qed
  ultimately show "(s', s) \<in> measure length" by simp
qed

declare blank.simps [simp del]

text \<open>
  The part of \<^verbatim>\<open>_build_role_messages\<close> that reads the result map: display name and
  result of every entry whose key is a specialist's id, in the map's order.
\<close>

definition rendered_results :: "(string \<times> string) list \<Rightarrow> (string \<times> string) list" where
  "rendered_results rr =
     List.map_filter (\<lambda>kv. map_option (\<lambda>other. (r_name other, snd kv)) (get_role (fst kv))) rr"

definition build_role_messages :: "role \<Rightarrow> string \<Rightarrow> conversation_context \<Rightarrow> message list" where
  "build_role_messages r user_input ctx =
     (let recent_history = get_recent_history ctx 5
      in [SystemMessage (r_id r) (rendered_results (role_results ctx))]
         @ map (\<lambda>m. PlainMessage (fst m) (snd m)) recent_history
         @ (if recent_history = [] \<or> snd (last recent_history) \<noteq> user_input
            then [PlainMessage ''user'' user_input] else []))"

text \<open>
  A drained stream: one \<^verbatim>\<open>content_delta\<close> event per chunk with a non-empty text, and
  the text accumulated from them.
\<close>

definition delta_events :: "string \<Rightarrow> bool \<Rightarrow> stream_chunk list \<Rightarrow> event list" where
  "delta_events rid after_tool chunks =
     map (\<lambda>c. ContentDelta rid (chunk_content c) after_tool) (filter (\<lambda>c. chunk_content c \<noteq> []) chunks)"

definition text_of :: "stream_chunk list \<Rightarrow> string" where
  "text_of chunks = concat (map chunk_content chunks)"

text \<open>The thinking step that replaces text sent before a round of tool calls.\<close>

definition planning_notice :: "string \<Rightarrow> string \<Rightarrow> event list" where
  "planning_notice rid sent = (if \<not> blank sent then [ThinkingStep (Planning sent) (Some rid)] else [])"

text \<open>
  \<^verbatim>\<open>_handle_tool_calls_stream\<close>, a generator: the events it yields and how it ends.
  The first argument after the environment bounds the model rounds still allowed; the
  tools of a round run before its model call.
\<close>

fun handle_tool_calls_stream ::
  "env \<Rightarrow> nat \<Rightarrow> string \<Rightarrow> tool_call list \<Rightarrow> message list \<Rightarrow> string \<Rightarrow> event list \<times> unit outcome" where
  "handle_tool_calls_stream e 0 rid tcs messages assistant_content =
     (let assistant_message =
            AssistantToolMessage (if assistant_content = [] then None else Some assistant_content) tcs;
          (tool_events, messages') = run_tool_calls e rid tcs (messages @ [assistant_message])
      in (tool_events, Unfinished))"
| "handle_tool_calls_stream e (Suc n) rid tcs messages assistant_content =
     (let assistant_message =
            AssistantToolMessage (if assistant_content = [] then None else Some assistant_content) tcs;
          (tool_events, messages') = run_tool_calls e rid tcs (messages @ [assistant_message]);
          (chunks, failure) = llm_stream e messages';
          deltas = delta_events rid True chunks;
          full_content = text_of chunks
      in case failure of
           Some err \<Rightarrow> (tool_events @ deltas, Raises (ExcLLM err))
         | None \<Rightarrow>
             (let result = collect chunks
              in if r_tool_calls result \<noteq> [] then
                   (let (evs, out) = handle_tool_calls_stream e n rid (r_tool_calls result) messages' (r_content result)
                    in (tool_events @ deltas @ planning_notice rid full_content @ evs, out))
                 else (tool_events @ deltas @ [ToolContentComplete rid full_content], Returns ())))"

definition is_tool_content_complete :: "event \<Rightarrow> bool" where
  "is_tool_content_complete ev = (case ev of ToolContentComplete _ _ \<Rightarrow> True | _ \<Rightarrow> False)"

definition tool_content_of :: "event list \<Rightarrow> string" where
  "tool_content_of evs = foldl (\<lambda>acc ev. case ev of ToolContentComplete _ c \<Rightarrow> c | _ \<Rightarrow> acc) [] evs"

text \<open>\<^verbatim>\<open>_execute_role_stream\<close>, a generator as well.\<close>

definition execute_role_stream ::
  "env \<Rightarrow> nat \<Rightarrow> role \<Rightarrow> string \<Rightarrow> conversation_context \<Rightarrow> event list \<times> unit outcome" where
  "execute_role_stream e fuel r user_input ctx =
     (let messages = build_role_messages r user_input ctx;
          (chunks, failure) = llm_stream e messages;
          deltas = delta_events (r_id r) False chunks;
          sent_content = text_of chunks
      in case failure of
           Some err \<Rightarrow> (deltas, Raises (ExcLLM err))
         | None \<Rightarrow>
             (let result = collect chunks
              in if r_tool_calls result \<noteq> [] then
                   (let (evs, out) = handle_tool_calls_stream e fuel (r_id r) (r_tool_calls result) messages (r_content result);
                        relayed = filter (\<lambda>ev. \<not> is_tool_content_complete ev) evs;
                        before = deltas @ planning_notice (r_id r) sent_content @ relayed
                    in case out of
                         Returns _ \<Rightarrow> (before @ [ContentComplete (r_id r) (tool_content_of evs)], Returns ())
                       | Raises x \<Rightarrow> (before, Raises x)
                       | Unfinished \<Rightarrow> (before, Unfinished))
                 else (deltas @ [ContentComplete (r_id r) sent_content], Returns ())))"

text \<open>
  What \<^verbatim>\<open>_execute_node\<close> (\<open>live = True\<close>) and \<^verbatim>\<open>_execute_node_silent\<close> (\<open>live = False\<close>)
  do with an event of the specialist's stream: relay a text delta only when live, relay
  tool events always, write a completed text to the result map, drop the rest.
\<close>

definition relay_event :: "bool \<Rightarrow> event \<Rightarrow> event list" where
  "relay_event live ev =
     (case ev of
        ContentDelta _ _ _ \<Rightarrow> if live then [ev] else []
      | ToolCallEvent _ _ _ \<Rightarrow> [ev]
      | ToolResultEvent _ _ \<Rightarrow> [ev]
      | _ \<Rightarrow> [])"

definition store_event :: "string \<Rightarrow> conversation_context \<Rightarrow> event \<Rightarrow> conversation_context" where
  "store_event rid ctx ev =
     (case ev of
        ContentComplete _ c \<Rightarrow> ctx\<lparr>role_results := AList.update rid c (role_results ctx)\<rparr>
      | _ \<Rightarrow> ctx)"

definition full_content_of :: "event list \<Rightarrow> string" where
  "full_content_of evs = foldl (\<lambda>acc ev. case ev of ContentComplete _ c \<Rightarrow> c | _ \<Rightarrow> acc) [] evs"

definition execute_node ::
  "env \<Rightarrow> nat \<Rightarrow> execution_node \<Rightarrow> string \<Rightarrow> conversation_context
     \<Rightarrow> event list \<times> conversation_context \<times> unit outcome" where
  "execute_node e fuel node user_input ctx =
     (case get_role (role_id node) of
        None \<Rightarrow> ([], ctx, Returns ())
      | Some r \<Rightarrow>
          (let (evs, out) = execute_role_stream e fuel r user_input ctx;
               ctx' = foldl (store_event (r_id r)) ctx evs;
               before = [RoleStart (r_id r) False, ThinkingStep RoleDispatch (Some (r_id r))]
                        @ concat (map (relay_event True) evs)
           in case out of
                Returns _ \<Rightarrow> (before @ [RoleResult (r_id r) (full_content_of evs) False], ctx', Returns ())
              | Raises x \<Rightarrow>
                  (before @ [RoleResult (r_id r) (prefix_execution_failed @ exc_str x) False], ctx', Returns ())
              | Unfinished \<Rightarrow> (before, ctx', Unfinished)))"

definition execute_node_silent ::
  "env \<Rightarrow> nat \<Rightarrow> execution_node \<Rightarrow> string \<Rightarrow> conversation_context
     \<Rightarrow> event list \<times> conversation_context \<times> unit outcome" where
  "execute_node_silent e fuel node user_input ctx =
     (case get_role (role_id node) of
        None \<Rightarrow> ([], ctx, Returns ())
      | Some r \<Rightarrow>
          (let (evs, out) = execute_role_stream e fuel r user_input ctx;
               ctx' = foldl (store_event (r_id r)) ctx evs;
               before = [ThinkingStep RoleDispatch (Some (r_id r))] @ concat (map (relay_event False) evs)
           in case out of
                Returns _ \<Rightarrow> (before @ [ThinkingStep RoleComplete (Some (r_id r))], ctx', Returns ())
              | Raises x \<Rightarrow> (before @ [ThinkingStep (StepError (exc_str x)) (Some (r_id r))], ctx', Returns ())
              | Unfinished \<Rightarrow> (before, ctx', Unfinished)))"

text \<open>
  \<^verbatim>\<open>_handle_tool_calls\<close> with \<^verbatim>\<open>_process_llm_response_with_events\<close> folded into its
  last step: the one-shot path of a parallel round. It returns the final content and
  the collected events.
\<close>

fun handle_tool_calls ::
  "env \<Rightarrow> nat \<Rightarrow> string \<Rightarrow> tool_call list \<Rightarrow> message list \<Rightarrow> string \<Rightarrow> bool
     \<Rightarrow> (string \<times> event list) outcome" where
  "handle_tool_calls e 0 rid tcs messages thinking_content emit_events = Unfinished"
| "handle_tool_calls e (Suc n) rid tcs messages thinking_content emit_events =
     (let thinking =
            (if thinking_content \<noteq> [] \<and> \<not> blank thinking_content \<and> emit_events
             then [ThinkingStep (Planning thinking_content) (Some rid)] else []);
          (tool_events, messages') =
             run_tool_calls e rid tcs (messages @ [AssistantToolMessage (Some thinking_content) tcs]);
          events = thinking @ (if emit_events then tool_events else [])
      in case llm_chat e messages' of
           Inl err \<Rightarrow> Raises (ExcLLM err)
         | Inr reply \<Rightarrow>
             if snd reply \<noteq> [] then
               (case handle_tool_calls e n rid (snd reply) messages' (fst reply) emit_events of
                  Returns res \<Rightarrow> Returns (fst res, events @ snd res)
                | Raises x \<Rightarrow> Raises x
                | Unfinished \<Rightarrow> Unfinished)
             else Returns (fst reply, events))"

definition process_llm_response_with_events ::
  "env \<Rightarrow> nat \<Rightarrow> string \<Rightarrow> message list \<Rightarrow> string \<times> tool_call list \<Rightarrow> bool
     \<Rightarrow> (string \<times> event list) outcome" where
  "process_llm_response_with_events e fuel rid messages reply emit_events =
     (if snd reply \<noteq> [] then handle_tool_calls e fuel rid (snd reply) messages (fst reply) emit_events
      else Returns (fst reply, []))"

definition execute_role ::
  "env \<Rightarrow> nat \<Rightarrow> role \<Rightarrow> string \<Rightarrow> conversation_context \<Rightarrow> bool \<Rightarrow> (string \<times> event list) outcome" where
  "execute_role e fuel r user_input ctx emit_events =
     (let messages = build_role_messages r user_input ctx
      in case llm_chat e messages of
           Inl err \<Rightarrow> Raises (ExcLLM err)
         | Inr reply \<Rightarrow> process_llm_response_with_events e fuel (r_id r) messages reply emit_events)"

text \<open>\<^verbatim>\<open>RoleResult\<close> without the display name and the icon, and \<^verbatim>\<open>_execute_role_async\<close>.\<close>

record role_result =
  rr_role_id :: string
  rr_content :: string
  rr_success :: bool
  rr_error :: string

definition execute_role_async ::
  "env \<Rightarrow> nat \<Rightarrow> execution_node \<Rightarrow> string \<Rightarrow> conversation_context
     \<Rightarrow> (role_result \<times> event list) outcome" where
  "execute_role_async e fuel node user_input ctx =
     (case get_role (role_id node) of
        None \<Rightarrow>
          Returns (\<lparr>rr_role_id = role_id node, rr_content = msg_role_not_exist, rr_success = False,
                    rr_error = msg_role_not_exist\<rparr>, [])
      | Some r \<Rightarrow>
          (case execute_role e fuel r user_input ctx True of
             Returns res \<Rightarrow>
               Returns (\<lparr>rr_role_id = r_id r, rr_content = fst res, rr_success = True, rr_error = []\<rparr>, snd res)
           | Raises x \<Rightarrow>
               Returns (\<lparr>rr_role_id = r_id r, rr_content = prefix_execution_failed @ exc_str x,
                         rr_success = False, rr_error = exc_str x\<rparr>, [])
           | Unfinished \<Rightarrow> Unfinished))"


subsection \<open>Orchestration engine: scheduling the plan (\<^verbatim>\<open>_process_dag_mode\<close>)\<close>

text \<open>
  A parallel round. The \<^verbatim>\<open>role_start\<close> events come first; \<^verbatim>\<open>asyncio.gather\<close> then
  runs one \<^verbatim>\<open>_execute_role_async\<close> per ready node, each against the context as it is
  at the start of the round (the result map is written only after the join), and
  returns their results in the order of the nodes.
\<close>

definition role_start_events :: "execution_node list \<Rightarrow> event list" where
  "role_start_events ready =
     concat (map (\<lambda>node. case get_role (role_id node) of
                            None \<Rightarrow> []
                          | Some r \<Rightarrow> [RoleStart (r_id r) False, ThinkingStep RoleDispatch (Some (r_id r))])
               ready)"

definition gather ::
  "env \<Rightarrow> nat \<Rightarrow> string \<Rightarrow> conversation_context \<Rightarrow> execution_node list
     \<Rightarrow> (role_result \<times> event list) outcome list" where
  "gather e fuel user_input ctx ready = map (\<lambda>node. execute_role_async e fuel node user_input ctx) ready"

text \<open>
  The loop \<^verbatim>\<open>for node, result in zip(ready_nodes, results)\<close>. The branch for a result
  that is an exception is the source's; \<^verbatim>\<open>_execute_role_async\<close> catches every
  exception, so it returns none. A round is only sent once every task has finished.
\<close>

fun send_results ::
  "conversation_context \<Rightarrow> (execution_node \<times> (role_result \<times> event list) outcome) list
     \<Rightarrow> event list \<times> conversation_context" where
  "send_results ctx [] = ([], ctx)"
| "send_results ctx ((node, Raises x) # rest) =
     (let (evs, ctx') = send_results ctx rest
      in (RoleResult (role_id node) (prefix_execution_failed @ exc_str x) False # evs, ctx'))"
| "send_results ctx ((node, Returns res) # rest) =
     (let ctx1 = ctx\<lparr>role_results := AList.update (role_id node) (rr_content (fst res)) (role_results ctx)\<rparr>;
          (evs, ctx') = send_results ctx1 rest
      in (snd res @ [RoleResult (rr_role_id (fst res)) (rr_content (fst res)) False] @ evs, ctx'))"
| "send_results ctx ((node, Unfinished) # rest) = ([], ctx)"

definition parallel_round ::
  "env \<Rightarrow> nat \<Rightarrow> string \<Rightarrow> conversation_context \<Rightarrow> execution_node list
     \<Rightarrow> event list \<times> conversation_context \<times> unit outcome" where
  "parallel_round e fuel user_input ctx ready =
     (let results = gather e fuel user_input ctx ready
      in if Unfinished \<in> set results then (role_start_events ready, ctx, Unfinished)
         else (let (evs, ctx') = send_results ctx (zip ready results)
               in (role_start_events ready @ evs, ctx', Returns ())))"

text \<open>
  How a round is run: \<open>Live\<close> is \<^verbatim>\<open>_execute_node\<close>, \<open>Silent\<close> is
  \<^verbatim>\<open>_execute_node_silent\<close>, \<open>Parallel\<close> is the branch for more than one ready node.
\<close>

datatype round_mode = Live | Silent | Parallel

definition round_mode_of :: "execution_plan \<Rightarrow> string set \<Rightarrow> execution_node list \<Rightarrow> round_mode" where
  "round_mode_of plan completed ready =
     (let total_nodes = length (nodes plan);
          is_multi_expert = total_nodes > 1;
          is_last_batch = (card completed + length ready = total_nodes)
      in if length ready = 1 then (if is_multi_expert \<and> \<not> is_last_batch then Silent else Live)
         else Parallel)"

definition run_round ::
  "env \<Rightarrow> nat \<Rightarrow> string \<Rightarrow> execution_plan \<Rightarrow> string set \<Rightarrow> conversation_context \<Rightarrow> execution_node list
     \<Rightarrow> event list \<times> conversation_context \<times> unit outcome" where
  "run_round e fuel user_input plan completed ctx ready =
     (case round_mode_of plan completed ready of
        Live \<Rightarrow> execute_node e fuel (hd ready) user_input ctx
      | Silent \<Rightarrow> execute_node_silent e fuel (hd ready) user_input ctx
      | Parallel \<Rightarrow> parallel_round e fuel user_input ctx ready)"

text \<open>
  The loop \<^verbatim>\<open>while True\<close>. Every round completes the role ids of its ready nodes, none
  of which was completed before, so the ids still to complete shrink.
\<close>

function dag_loop ::
  "env \<Rightarrow> nat \<Rightarrow> string \<Rightarrow> execution_plan \<Rightarrow> string set \<Rightarrow> conversation_context
     \<Rightarrow> event list \<times> conversation_context \<times> unit outcome" where
  "dag_loop e fuel user_input plan completed ctx =
     (let ready_nodes = get_ready_nodes plan completed
      in if ready_nodes = [] then ([], ctx, Returns ())
         else
           (case run_round e fuel user_input plan completed ctx ready_nodes of
              (evs, ctx', Returns _) \<Rightarrow>
                (case dag_loop e fuel user_input plan (completed \<union> role_id ` set ready_nodes) ctx' of
                   (evs2, ctx2, out2) \<Rightarrow> (evs @ evs2, ctx2, out2))
            | (evs, ctx', out) \<Rightarrow> (evs, ctx', out)))"
  by pat_completeness auto
termination
proof (relation "measure (\<lambda>(e, fuel, user_input, plan, completed, ctx).
                    card (role_id ` set (nodes plan) - completed))")
  show "wf (measure (\<lambda>(e, fuel, user_input, plan, completed, ctx).
                    card (role_id ` set (nodes plan) - completed)))"
    by simp
next
  fix e :: env and fuel :: nat and user_input :: string and plan :: execution_plan
    and completed :: "string set" and ctx :: conversation_context
    and ready_nodes :: "execution_node list"
  assume r: "ready_nodes = get_ready_nodes plan completed" and ne: "ready_nodes \<noteq> []"
  let ?ids = "role_id ` set (nodes plan)"
  from ne obtain node where node: "node \<in> set ready_nodes" by (cases ready_nodes) auto
  with r have "role_id node \<in> ?ids - completed"
    by (auto simp: get_ready_nodes_def)
  moreover from node have "role_id node \<notin> ?ids - (completed \<union> role_id ` set ready_nodes)" by auto
  ultimately have "?ids - (completed \<union> role_id ` set ready_nodes) \<subset> ?ids - completed" by blast
  then have "card (?ids - (completed \<union> role_id ` set ready_nodes)) < card (?ids - completed)"
    by (intro psubset_card_mono) auto
  then show "((e, fuel, user_input, plan, completed \<union> role_id ` set ready_nodes, ctx'),
              (e, fuel, user_input, plan, completed, ctx))
      \<in> measure (\<lambda>(e, fuel, user_input, plan, completed, ctx).
                    card (role_id ` set (nodes plan) - completed))" for ctx'
    by simp
qed

declare dag_loop.simps [simp del]



definition is_content_delta :: "event \<Rightarrow> bool" where
  "is_content_delta ev = (case ev of ContentDelta _ _ _ \<Rightarrow> True | _ \<Rightarrow> False)"





subsection \<open>Samples for the engine\<close>

text \<open>
  A small environment to run the engine in: one registered tool, \<^verbatim>\<open>calc_loan\<close>, with
  the sample parameter declaration and a fixed result; a decoder that accepts only the
  empty object; Python's \<^verbatim>\<open>repr\<close> for the encoder; and a model that answers every
  list of messages with the text \<^verbatim>\<open>done\<close> and no tool call.
\<close>

definition demo_tool :: tool where
  "demo_tool =
     \<lparr>t_module = ''app.agent.tools.financial'', t_qualname = ''CalcLoanTool.execute'',
      t_parameters = demo_params,
      t_body = (\<lambda>kwargs. Inr (PDict [(''monthly_payment'', PInt 5307)]))\<rparr>"










subsection \<open>Rounds of a run\<close>

text \<open>
  Three plans: two independent specialists; a chain in which the second specialist
  depends on the first; a single specialist. And a context at the start of a turn, the
  user's message already in the history.
\<close>

definition parallel_plan :: execution_plan where
  "parallel_plan =
     \<lparr>nodes = [\<lparr>role_id = ''policy_expert'', depends_on = []\<rparr>,
               \<lparr>role_id = ''financial_advisor'', depends_on = []\<rparr>],
      reason = PStr ''two independent concerns''\<rparr>"

definition chain_plan :: execution_plan where
  "chain_plan =
     \<lparr>nodes = [\<lparr>role_id = ''policy_expert'', depends_on = []\<rparr>,
               \<lparr>role_id = ''financial_advisor'', depends_on = [''policy_expert'']\<rparr>],
      reason = PStr ''rate first''\<rparr>"


definition fresh_context :: conversation_context where
  "fresh_context = \<lparr>history = [(''user'', ''q'')], role_results = []\<rparr>"

text \<open>The \<^verbatim>\<open>tool_call\<close> and \<^verbatim>\<open>tool_result\<close> events.\<close>

definition is_tool_event :: "event \<Rightarrow> bool" where
  "is_tool_event ev = (case ev of ToolCallEvent _ _ _ \<Rightarrow> True | ToolResultEvent _ _ \<Rightarrow> True | _ \<Rightarrow> False)"

text \<open>
  The scheduling rounds of a run of the loop, for the statements about them: the ready
  nodes of the round, how it was run, the context it started from and the events it
  emitted. \<open>dag_rounds\<close> follows the loop round by round and lists them; the loop's
  events are the rounds' events in order (lemma \<open>dag_loop_events_by_round\<close>).
\<close>

record round =
  r_ready :: "execution_node list"
  r_mode :: round_mode
  r_context :: conversation_context
  r_events :: "event list"

function dag_rounds ::
  "env \<Rightarrow> nat \<Rightarrow> string \<Rightarrow> execution_plan \<Rightarrow> string set \<Rightarrow> conversation_context \<Rightarrow> round list" where
  "dag_rounds e fuel user_input plan completed ctx =
     (let ready_nodes = get_ready_nodes plan completed
      in if ready_nodes = [] then []
         else
           (case run_round e fuel user_input plan completed ctx ready_nodes of
              (evs, ctx', out) \<Rightarrow>
                \<lparr>r_ready = ready_nodes, r_mode = round_mode_of plan completed ready_nodes,
                  r_context = ctx, r_events = evs\<rparr>
                # (case out of
                     Returns _ \<Rightarrow> dag_rounds e fuel user_input plan (completed \<union> role_id ` set ready_nodes) ctx'
                   | _ \<Rightarrow> [])))"
  by pat_completeness auto
termination
proof (relation "measure (\<lambda>(e, fuel, user_input, plan, completed, ctx).
                    card (role_id ` set (nodes plan) - completed))")
  show "wf (measure (\<lambda>(e, fuel, user_input, plan, completed, ctx).
                    card (role_id ` set (nodes plan) - completed)))"
    by simp
next
  fix e :: env and fuel :: nat and user_input :: string and plan :: execution_plan
    and completed :: "string set" and ctx :: conversation_context
    and ready_nodes :: "execution_node list"
  assume r: "ready_nodes = get_ready_nodes plan completed" and ne: "ready_nodes \<noteq> []"
  let ?ids = "role_id ` set (nodes plan)"
  from ne obtain node where node: "node \<in> set ready_nodes" by (cases ready_nodes) auto
  with r have "role_id node \<in> ?ids - completed"
    by (auto simp: get_ready_nodes_def)
  moreover from node have "role_id node \<notin> ?ids - (completed \<union> role_id ` set ready_nodes)" by auto
  ultimately have "?ids - (completed \<union> role_id ` set ready_nodes) \<subset> ?ids - completed" by blast
  then have "card (?ids - (completed \<union> role_id ` set ready_nodes)) < card (?ids - completed)"
    by (intro psubset_card_mono) auto
  then show "((e, fuel, user_input, plan, completed \<union> role_id ` set ready_nodes, ctx'),
              (e, fuel, user_input, plan, completed, ctx))
      \<in> measure (\<lambda>(e, fuel, user_input, plan, completed, ctx).
                    card (role_id ` set (nodes plan) - completed))" for ctx'
    by simp
qed

declare dag_rounds.simps [simp del]

text \<open>The round the loop runs from a given set of completed ids and context.\<close>

definition round_of ::
  "env \<Rightarrow> nat \<Rightarrow> string \<Rightarrow> execution_plan \<Rightarrow> string set \<Rightarrow> conversation_context \<Rightarrow> round" where
  "round_of e fuel ui plan completed ctx =
     \<lparr>r_ready = get_ready_nodes plan completed,
      r_mode = round_mode_of plan completed (get_ready_nodes plan completed),
      r_context = ctx,
      r_events = fst (run_round e fuel ui plan completed ctx (get_ready_nodes plan completed))\<rparr>"


subsection \<open>Sample runs of the engine\<close>

text \<open>
  An environment whose model answers each specialist with a text that names it, and
  the synthesis call with \<^verbatim>\<open>summary\<close>; and one in which, besides, every call for
  \<^verbatim>\<open>policy_expert\<close> times out.
\<close>

definition answer_for :: "message list \<Rightarrow> string" where
  "answer_for messages =
     (case messages of
        SystemMessage rid others # rest \<Rightarrow> ''from '' @ rid
      | _ \<Rightarrow> ''summary'')"

definition text_chunk :: "string \<Rightarrow> stream_chunk" where
  "text_chunk s = \<lparr>chunk_content = s, chunk_tool_calls = None, chunk_finish_reason = None\<rparr>"

definition echo_env :: env where
  "echo_env =
     \<lparr>llm_stream = (\<lambda>messages. ([text_chunk (answer_for messages)], None)),
      llm_chat = (\<lambda>messages. Inr (answer_for messages, [])),
      json_loads = (\<lambda>s. if s = ''{}'' then Some (PDict []) else None),
      json_dumps = py_repr,
      registry = (\<lambda>name. if name = ''calc_loan'' then Some demo_tool else None)\<rparr>"

definition failing_env :: env where
  "failing_env =
     \<lparr>llm_stream = (\<lambda>messages. if answer_for messages = ''from policy_expert''
                                 then ([], Some LLMTimeoutError)
                                 else ([text_chunk (answer_for messages)], None)),
      llm_chat = (\<lambda>messages. if answer_for messages = ''from policy_expert''
                               then Inl LLMTimeoutError
                               else Inr (answer_for messages, [])),
      json_loads = (\<lambda>s. if s = ''{}'' then Some (PDict []) else None),
      json_dumps = py_repr,
      registry = (\<lambda>name. if name = ''calc_loan'' then Some demo_tool else None)\<rparr>"


text \<open>The \<^verbatim>\<open>role_start\<close> event that opens the synthesis: the one marked \<^verbatim>\<open>is_summary\<close>.\<close>

definition is_summary_start :: "event \<Rightarrow> bool" where
  "is_summary_start ev = (case ev of RoleStart _ b \<Rightarrow> b | _ \<Rightarrow> False)"

text \<open>The event with which a specialist's stream ends, and which carries its whole text.\<close>

definition is_content_complete :: "event \<Rightarrow> bool" where
  "is_content_complete ev = (case ev of ContentComplete _ _ \<Rightarrow> True | _ \<Rightarrow> False)"


section \<open>Properties\<close>

subsection \<open>Tool parameter validation\<close>

lemma check_type_bool_integer: "check_type (PBool b) ''integer''"
  by (simp add: check_type_def type_mapping_def isinstance_def issubclass_def)

lemma check_type_bool_number: "check_type (PBool b) ''number''"
  by (simp add: check_type_def type_mapping_def isinstance_def issubclass_def)

lemma check_type_unknown:
  "t \<notin> {''string'', ''number'', ''integer'', ''boolean''} \<Longrightarrow> check_type v t"
  by (simp add: check_type_def type_mapping_def)

lemma validate_param_Some: "validate_param p kw = Some e \<longleftrightarrow> param_violation p kw e"
  by (auto simp: validate_param_def param_violation_def split: option.splits if_splits)

lemma validate_param_None: "validate_param p kw = None \<longleftrightarrow> (\<forall>e. \<not> param_violation p kw e)"
  by (metis validate_param_Some option.exhaust option.distinct(1))

lemma validate_params_skip:
  "\<forall>q \<in> set qs. validate_param q kw = None \<Longrightarrow> validate_params (qs @ rs) kw = validate_params rs kw"
  by (induction qs) auto

lemma validate_params_first:
  "validate_params ps kw = Inl e \<Longrightarrow>
     \<exists>qs p rs. ps = qs @ p # rs \<and> (\<forall>q \<in> set qs. validate_param q kw = None) \<and> validate_param p kw = Some e"
proof (induction ps)
  case Nil
  then show ?case by simp
next
  case (Cons a ps)
  show ?case
  proof (cases "validate_param a kw")
    case None
    with Cons.prems have "validate_params ps kw = Inl e" by simp
    from Cons.IH [OF this] obtain qs p rs where
      "ps = qs @ p # rs" "\<forall>q \<in> set qs. validate_param q kw = None" "validate_param p kw = Some e"
      by blast
    with None have "a # ps = (a # qs) @ p # rs \<and> (\<forall>q \<in> set (a # qs). validate_param q kw = None)
        \<and> validate_param p kw = Some e" by simp
    then show ?thesis by blast
  next
    case (Some e')
    with Cons.prems have "e' = e" by simp
    with Some have "a # ps = [] @ a # ps \<and> (\<forall>q \<in> set []. validate_param q kw = None) \<and> validate_param a kw = Some e"
      by simp
    then show ?thesis by blast
  qed
qed

lemma validate_params_ok:
  "validate_params ps kw = Inr () \<longleftrightarrow> (\<forall>p \<in> set ps. validate_param p kw = None)"
  by (induction ps) (auto split: option.splits)

text \<open>
  Claim C10. A Python boolean passes the type check of a parameter declared
  \<^verbatim>\<open>integer\<close> or \<^verbatim>\<open>number\<close>; a declared type outside string, number, integer and
  boolean accepts every value; and \<^verbatim>\<open>validate_params\<close> raises only at the first
  parameter (in declaration order) that is required and missing, or present with a
  value of the wrong type, or present with a value outside a non-empty enum, and
  returns normally exactly when no parameter is in one of these three situations.
\<close>

theorem validate_params_raises_only:
  "check_type (PBool b) ''integer'' \<and> check_type (PBool b) ''number''
   \<and> (t \<notin> {''string'', ''number'', ''integer'', ''boolean''} \<longrightarrow> check_type v t)
   \<and> (validate_params ps kw = Inl e \<longrightarrow>
        (\<exists>qs p rs. ps = qs @ p # rs \<and> (\<forall>q \<in> set qs. \<forall>e'. \<not> param_violation q kw e')
            \<and> param_violation p kw e))
   \<and> (validate_params ps kw = Inr () \<longleftrightarrow> (\<forall>p \<in> set ps. \<forall>e'. \<not> param_violation p kw e'))"
  using check_type_bool_integer check_type_bool_number check_type_unknown [of t v]
    validate_params_first [of ps kw e] validate_params_ok [of ps kw]
  by (simp add: validate_param_None validate_param_Some)

theorem validate_params_raises_only_witness:
  "''array'' \<notin> {''string'', ''number'', ''integer'', ''boolean''}
   \<and> check_type (PList []) ''array''
   \<and> validate_params demo_params [''years'' \<mapsto> PBool True, ''rate'' \<mapsto> PBool False, ''extra'' \<mapsto> PList []] = Inr ()
   \<and> (\<forall>e'. \<not> param_violation \<lparr>pname = ''years'', ptype = ''integer'', required = True, penum = None\<rparr>
          [''years'' \<mapsto> PBool True, ''rate'' \<mapsto> PBool False, ''extra'' \<mapsto> PList []] e')
   \<and> validate_params demo_params [''years'' \<mapsto> PInt 30, ''rate'' \<mapsto> PFloat ''4.9'', ''method'' \<mapsto> PStr ''other'']
        = Inl (EnumViolation ''method'' (PStr ''other'') [''equal'', ''fixed''])
   \<and> (\<exists>qs p rs. demo_params = qs @ p # rs
         \<and> (\<forall>q \<in> set qs. \<forall>e'. \<not> param_violation q
               [''years'' \<mapsto> PInt 30, ''rate'' \<mapsto> PFloat ''4.9'', ''method'' \<mapsto> PStr ''other''] e')
         \<and> param_violation p [''years'' \<mapsto> PInt 30, ''rate'' \<mapsto> PFloat ''4.9'', ''method'' \<mapsto> PStr ''other'']
               (EnumViolation ''method'' (PStr ''other'') [''equal'', ''fixed'']))"
proof -
  let ?k1 = "[''years'' \<mapsto> PBool True, ''rate'' \<mapsto> PBool False, ''extra'' \<mapsto> PList []]"
  let ?k2 = "[''years'' \<mapsto> PInt 30, ''rate'' \<mapsto> PFloat ''4.9'', ''method'' \<mapsto> PStr ''other'']"
  have a: "validate_params demo_params ?k1 = Inr ()"
    by (simp add: demo_params_def validate_param_def check_type_def type_mapping_def isinstance_def issubclass_def)
  have b: "validate_params demo_params ?k2 = Inl (EnumViolation ''method'' (PStr ''other'') [''equal'', ''fixed''])"
    by (simp add: demo_params_def validate_param_def check_type_def type_mapping_def isinstance_def issubclass_def)
  have c: "''array'' \<notin> {''string'', ''number'', ''integer'', ''boolean''}" by simp
  have m: "\<lparr>pname = ''years'', ptype = ''integer'', required = True, penum = None\<rparr> \<in> set demo_params"
    by (simp add: demo_params_def)
  note ok = validate_params_raises_only [of True "''array''" "PList []" demo_params ?k1 undefined,
      THEN conjunct2, THEN conjunct2, THEN conjunct2, THEN conjunct2, THEN iffD1, OF a, THEN bspec, OF m]
  note unk = validate_params_raises_only [of True "''array''" "PList []" demo_params ?k1 undefined,
      THEN conjunct2, THEN conjunct2, THEN conjunct1, THEN mp, OF c]
  note bad = validate_params_raises_only [of True "''array''" "PList []" demo_params ?k2
      "EnumViolation ''method'' (PStr ''other'') [''equal'', ''fixed'']",
      THEN conjunct2, THEN conjunct2, THEN conjunct2, THEN conjunct1, THEN mp, OF b]
  show ?thesis
    by (intro conjI c unk a ok b bad)
qed


subsection \<open>Streamed result accumulator\<close>

lemma add_delta_new:
  "map_of tcs (get_or (d_index tc) 0) = None \<Longrightarrow>
     add_delta tcs tc = tcs @ [(get_or (d_index tc) 0, new_tool_call tc)]"
proof -
  have "\<And>k v. map_of tcs k = None \<Longrightarrow> AList.update k v tcs = tcs @ [(k, v)]"
    by (induction tcs) (auto split: if_splits)
  then show "map_of tcs (get_or (d_index tc) 0) = None \<Longrightarrow> ?thesis"
    by (simp add: add_delta_def Let_def)
qed

lemma add_delta_later:
  assumes "map_of tcs (get_or (d_index tc) 0) = Some r"
  shows "map fst (add_delta tcs tc) = map fst tcs"
    and "map_of (add_delta tcs tc) (get_or (d_index tc) 0)
           = Some (r\<lparr>tc_arguments := tc_arguments r @ get_or (arguments_fragment tc) []\<rparr>)"
    and "k \<noteq> get_or (d_index tc) 0 \<Longrightarrow> map_of (add_delta tcs tc) k = map_of tcs k"
proof -
  have keys: "\<And>k v. map_of tcs k \<noteq> None \<Longrightarrow> map fst (AList.update k v tcs) = map fst tcs"
    by (induction tcs) (auto split: if_splits)
  show "map fst (add_delta tcs tc) = map fst tcs"
    using assms keys by (simp add: add_delta_def Let_def split: option.splits)
  show "map_of (add_delta tcs tc) (get_or (d_index tc) 0)
           = Some (r\<lparr>tc_arguments := tc_arguments r @ get_or (arguments_fragment tc) []\<rparr>)"
    using assms by (simp add: add_delta_def Let_def get_or_def update_conv' split: option.splits)
  show "k \<noteq> get_or (d_index tc) 0 \<Longrightarrow> map_of (add_delta tcs tc) k = map_of tcs k"
    using assms by (simp add: add_delta_def Let_def update_conv' split: option.splits)
qed

lemma example_collect:
  "r_tool_calls (collect example_chunks)
     = [\<lparr>tc_id = [], tc_type = ''function'', tc_name = ''f'',
         tc_arguments = ''{'' @ [CHR 0x22] @ ''a'' @ [CHR 0x22] @ '':1}''\<rparr>]"
  by (simp add: collect_def example_chunks_def example_delta1_def example_delta2_def
      collector_init_def add_chunk_def add_delta_def get_result_def get_or_def
      new_tool_call_def function_field_def arguments_fragment_def)

text \<open>
  Claim C4. The first delta at an index creates the record for that index, appended
  after the records already there, with the delta's id, name and argument string
  (empty strings where the delta has none). A later delta at the same index leaves the
  order and every other record alone and appends its argument fragment (nothing, when
  it carries none) to that record's argument string. The two example deltas, index 0,
  name \<^verbatim>\<open>f\<close> with \<^verbatim>\<open>{"a":\<close>, then \<^verbatim>\<open>1}\<close>, give exactly one tool call, named \<^verbatim>\<open>f\<close>,
  with the argument string \<^verbatim>\<open>{"a":1}\<close>.
\<close>

theorem collector_reassembly:
  "(map_of tcs (get_or (d_index tc) 0) = None \<longrightarrow>
      add_delta tcs tc = tcs @ [(get_or (d_index tc) 0, new_tool_call tc)]
      \<and> tc_id (new_tool_call tc) = get_or (d_id tc) []
      \<and> tc_name (new_tool_call tc) = function_field tc f_name
      \<and> tc_arguments (new_tool_call tc) = function_field tc f_arguments)
   \<and> (\<forall>r. map_of tcs (get_or (d_index tc) 0) = Some r \<longrightarrow>
         map fst (add_delta tcs tc) = map fst tcs
         \<and> map_of (add_delta tcs tc) (get_or (d_index tc) 0)
             = Some (r\<lparr>tc_arguments := tc_arguments r @ get_or (arguments_fragment tc) []\<rparr>)
         \<and> (\<forall>k. k \<noteq> get_or (d_index tc) 0 \<longrightarrow> map_of (add_delta tcs tc) k = map_of tcs k))
   \<and> r_tool_calls (collect example_chunks)
       = [\<lparr>tc_id = [], tc_type = ''function'', tc_name = ''f'',
           tc_arguments = ''{'' @ [CHR 0x22] @ ''a'' @ [CHR 0x22] @ '':1}''\<rparr>]"
proof (intro conjI impI allI)
  assume "map_of tcs (get_or (d_index tc) 0) = None"
  then show "add_delta tcs tc = tcs @ [(get_or (d_index tc) 0, new_tool_call tc)]"
    by (rule add_delta_new)
next
  show "tc_id (new_tool_call tc) = get_or (d_id tc) []"
    and "tc_name (new_tool_call tc) = function_field tc f_name"
    and "tc_arguments (new_tool_call tc) = function_field tc f_arguments"
    by (simp_all add: new_tool_call_def)
next
  fix r assume r: "map_of tcs (get_or (d_index tc) 0) = Some r"
  show "map fst (add_delta tcs tc) = map fst tcs"
    by (rule add_delta_later(1) [OF r])
  show "map_of (add_delta tcs tc) (get_or (d_index tc) 0)
          = Some (r\<lparr>tc_arguments := tc_arguments r @ get_or (arguments_fragment tc) []\<rparr>)"
    by (rule add_delta_later(2) [OF r])
  fix k assume "k \<noteq> get_or (d_index tc) 0"
  then show "map_of (add_delta tcs tc) k = map_of tcs k"
    by (rule add_delta_later(3) [OF r])
next
  show "r_tool_calls (collect example_chunks)
       = [\<lparr>tc_id = [], tc_type = ''function'', tc_name = ''f'',
           tc_arguments = ''{'' @ [CHR 0x22] @ ''a'' @ [CHR 0x22] @ '':1}''\<rparr>]"
    by (rule example_collect)
qed

theorem collector_reassembly_witness:
  "map_of ([] :: (int \<times> tool_call) list) (get_or (d_index example_delta1) 0) = None
   \<and> add_delta [] example_delta1 = [(0, new_tool_call example_delta1)]
   \<and> tc_name (new_tool_call example_delta1) = ''f''
   \<and> map_of [(0, new_tool_call example_delta1)] (get_or (d_index example_delta2) 0)
       = Some (new_tool_call example_delta1)
   \<and> map_of (add_delta [(0, new_tool_call example_delta1)] example_delta2) 0
       = Some \<lparr>tc_id = [], tc_type = ''function'', tc_name = ''f'',
           tc_arguments = ''{'' @ [CHR 0x22] @ ''a'' @ [CHR 0x22] @ '':1}''\<rparr>"
proof -
  have a: "map_of ([] :: (int \<times> tool_call) list) (get_or (d_index example_delta1) 0) = None"
    by simp
  have b: "map_of [(0, new_tool_call example_delta1)] (get_or (d_index example_delta2) 0)
       = Some (new_tool_call example_delta1)"
    by (simp add: example_delta2_def get_or_def)
  note first = collector_reassembly [of "[]" example_delta1, THEN conjunct1, THEN mp, OF a]
  note later = collector_reassembly [of "[(0, new_tool_call example_delta1)]" example_delta2,
      THEN conjunct2, THEN conjunct1, THEN spec, THEN mp, OF b]
  from first have c: "add_delta [] example_delta1 = [(0, new_tool_call example_delta1)]"
    by (simp add: example_delta1_def get_or_def)
  from first have d: "tc_name (new_tool_call example_delta1) = ''f''"
    by (simp add: example_delta1_def function_field_def get_or_def)
  from later have e: "map_of (add_delta [(0, new_tool_call example_delta1)] example_delta2) 0
       = Some \<lparr>tc_id = [], tc_type = ''function'', tc_name = ''f'',
           tc_arguments = ''{'' @ [CHR 0x22] @ ''a'' @ [CHR 0x22] @ '':1}''\<rparr>"
    by (simp add: example_delta1_def example_delta2_def get_or_def new_tool_call_def
        function_field_def arguments_fragment_def)
  show ?thesis by (intro conjI a b c d e)
qed


subsection \<open>Model client: the failure taxonomy\<close>

lemma check_response_status_class:
  "check_response_status r = Some e \<Longrightarrow>
     (err_class e, code e) \<in> {(Auth, 1002), (RateLimit, 1003), (Unknown, 1099)}
     \<and> (err_class e = Auth \<longrightarrow> message e = msg_auth)
     \<and> (err_class e = RateLimit \<longrightarrow> message e = msg_rate_limit)"
  by (auto simp: check_response_status_def LLMAuthError_def LLMRateLimitError_def
      LLMUnknownError_def split: if_splits)

lemma chat_error_class:
  assumes "chat t = Inl e"
  shows "(err_class e, code e) \<in> {(Timeout, 1001), (Auth, 1002), (RateLimit, 1003), (Unknown, 1099)}
     \<and> (err_class e = Timeout \<longrightarrow> message e = msg_timeout)
     \<and> (err_class e = Auth \<longrightarrow> message e = msg_auth)
     \<and> (err_class e = RateLimit \<longrightarrow> message e = msg_rate_limit)"
proof (cases t)
  case (Failed f)
  with assms show ?thesis
    by (cases f) (auto simp: chat_def LLMTimeoutError_def LLMUnknownError_def)
next
  case (Responded r)
  show ?thesis
  proof (cases "check_response_status r")
    case None
    with assms Responded show ?thesis
      by (auto simp: chat_def LLMUnknownError_def split: sum.splits)
  next
    case (Some err)
    with assms Responded have "err = e" by (simp add: chat_def)
    with check_response_status_class [OF Some] show ?thesis by auto
  qed
qed

text \<open>
  Claim C7, as the spec states it, fails in its last part: a status other than 200,
  401, 429 and the 5xx range puts the provider's own error message into the raised
  error's message.
\<close>

theorem chat_message_leaks_counterexample:
  "chat (Responded response_400)
     = Inl \<lparr>err_class = Unknown, code = 1099, message = prefix_api_failed @ provider_text\<rparr>
   \<and> suffix provider_text (prefix_api_failed @ provider_text)
   \<and> chat (Failed (OtherException provider_text))
     = Inl \<lparr>err_class = Unknown, code = 1099, message = prefix_call_error @ provider_text\<rparr>"
  by (simp add: chat_def response_400_def check_response_status_def error_msg_def
      provider_error_message_def get_or_def py_str_def LLMUnknownError_def suffix_def)

lemma read_lines_error_class:
  "snd (read_lines decode ls b) = Some e \<Longrightarrow>
     (err_class e, code e) \<in> {(Timeout, 1001), (Unknown, 1099)}
     \<and> (err_class e = Timeout \<longrightarrow> message e = msg_timeout)"
proof (induction ls)
  case Nil
  then show ?case
    by (cases b)
       (auto simp: chat_stream_failure_def LLMTimeoutError_def LLMUnknownError_def
          split: transport_failure.splits)
next
  case (Cons l ls)
  then show ?case
    by (auto simp: Let_def LLMUnknownError_def split: if_splits frame.splits prod.splits)
qed

lemma chat_stream_error_class:
  assumes "snd (chat_stream decode st) = Some e"
  shows "(err_class e, code e) \<in> {(Timeout, 1001), (Auth, 1002), (RateLimit, 1003), (Unknown, 1099)}
     \<and> (err_class e = Timeout \<longrightarrow> message e = msg_timeout)
     \<and> (err_class e = Auth \<longrightarrow> message e = msg_auth)
     \<and> (err_class e = RateLimit \<longrightarrow> message e = msg_rate_limit)"
proof (cases st)
  case (StreamFailed f)
  with assms show ?thesis
    by (cases f) (auto simp: chat_stream_def chat_stream_failure_def LLMTimeoutError_def LLMUnknownError_def)
next
  case (StreamResponded r)
  show ?thesis
  proof (cases "chat_stream_status (stream_status r)")
    case None
    with assms StreamResponded
    have "snd (read_lines decode (stream_lines r) (stream_broken r)) = Some e"
      by (simp add: chat_stream_def)
    from read_lines_error_class [OF this] show ?thesis by auto
  next
    case (Some err)
    with assms StreamResponded have "err = e" by (simp add: chat_stream_def)
    with Some show ?thesis
      by (auto simp: chat_stream_status_def LLMAuthError_def LLMRateLimitError_def LLMUnknownError_def
          split: if_splits)
  qed
qed

text \<open>
  Claim C7, amended. Every error the client raises, from the one-shot call \<^verbatim>\<open>chat\<close>
  and from the streaming call \<^verbatim>\<open>chat_stream\<close>, has one of the four classes with its
  stable code: timeout 1001, auth 1002, rate limit 1003, unknown 1099. In both calls a
  transport timeout raises the timeout error, a failed connection the unknown error
  with a fixed message, status 401 the auth error, status 429 the rate-limit error, a
  status of 500 or more the unknown error with a fixed message (one text in \<^verbatim>\<open>chat\<close>,
  another in \<^verbatim>\<open>chat_stream\<close>); the timeout, auth and rate-limit errors always carry
  their fixed default message. The message of the unknown error is fixed in these cases
  only. For any other status but 200, \<^verbatim>\<open>chat\<close> puts after a fixed prefix the message
  of the error object in the provider's body; the default text for an unknown error
  when the body is a JSON object without an error object, or with one that has no
  message; and the status, as \<^verbatim>\<open>HTTP <status>\<close>, when the body is not JSON, is no
  object, or its error is no object. \<^verbatim>\<open>chat_stream\<close> never reads the body there: it
  always gives the prefix and \<^verbatim>\<open>HTTP <status>\<close>. For any other exception the message
  is a fixed prefix (one for each call) followed by the exception's text; in \<^verbatim>\<open>chat\<close>
  that includes the malformed payload of a response with status 200, while
  \<^verbatim>\<open>chat_stream\<close> passes over a line whose JSON does not decode and raises only when
  a decoded frame makes the parser raise, or when the transport fails while the lines
  are read, which it treats like a failure of the request.
\<close>

theorem chat_error_taxonomy:
  "chat (Failed TimeoutException) = Inl \<lparr>err_class = Timeout, code = 1001, message = msg_timeout\<rparr>
   \<and> chat (Failed ConnectError) = Inl \<lparr>err_class = Unknown, code = 1099, message = msg_connect\<rparr>
   \<and> chat (Failed (OtherException x))
       = Inl \<lparr>err_class = Unknown, code = 1099, message = prefix_call_error @ x\<rparr>
   \<and> (status_code r = 401 \<longrightarrow>
         chat (Responded r) = Inl \<lparr>err_class = Auth, code = 1002, message = msg_auth\<rparr>)
   \<and> (status_code r = 429 \<longrightarrow>
         chat (Responded r) = Inl \<lparr>err_class = RateLimit, code = 1003, message = msg_rate_limit\<rparr>)
   \<and> (status_code r \<ge> 500 \<longrightarrow>
         chat (Responded r) = Inl \<lparr>err_class = Unknown, code = 1099, message = msg_5xx\<rparr>)
   \<and> (status_code r < 500 \<and> status_code r \<notin> {200, 401, 429} \<longrightarrow>
         chat (Responded r)
           = Inl \<lparr>err_class = Unknown, code = 1099,
                  message = prefix_api_failed @
                    (case json_body r of
                       Inl _ \<Rightarrow> ''HTTP '' @ show_int (status_code r)
                     | Inr (PDict kvs) \<Rightarrow>
                         (case map_of kvs ''error'' of
                            None \<Rightarrow> unknown_error_text
                          | Some (PDict ekvs) \<Rightarrow>
                              (case map_of ekvs ''message'' of
                                 None \<Rightarrow> unknown_error_text
                               | Some m \<Rightarrow> (case m of PStr text \<Rightarrow> text | _ \<Rightarrow> py_repr m))
                          | Some _ \<Rightarrow> ''HTTP '' @ show_int (status_code r))
                     | Inr _ \<Rightarrow> ''HTTP '' @ show_int (status_code r))\<rparr>)
   \<and> (status_code r = 200 \<and> json_body r = Inl x \<longrightarrow>
         chat (Responded r)
           = Inl \<lparr>err_class = Unknown, code = 1099, message = prefix_call_error @ x\<rparr>)
   \<and> chat_stream decode (StreamFailed TimeoutException)
       = ([], Some \<lparr>err_class = Timeout, code = 1001, message = msg_timeout\<rparr>)
   \<and> chat_stream decode (StreamFailed ConnectError)
       = ([], Some \<lparr>err_class = Unknown, code = 1099, message = msg_connect\<rparr>)
   \<and> chat_stream decode (StreamFailed (OtherException x))
       = ([], Some \<lparr>err_class = Unknown, code = 1099, message = prefix_stream_error @ x\<rparr>)
   \<and> (stream_status s = 401 \<longrightarrow>
         chat_stream decode (StreamResponded s)
           = ([], Some \<lparr>err_class = Auth, code = 1002, message = msg_auth\<rparr>))
   \<and> (stream_status s = 429 \<longrightarrow>
         chat_stream decode (StreamResponded s)
           = ([], Some \<lparr>err_class = RateLimit, code = 1003, message = msg_rate_limit\<rparr>))
   \<and> (stream_status s \<ge> 500 \<longrightarrow>
         chat_stream decode (StreamResponded s)
           = ([], Some \<lparr>err_class = Unknown, code = 1099, message = msg_5xx_stream\<rparr>))
   \<and> (stream_status s < 500 \<and> stream_status s \<notin> {200, 401, 429} \<longrightarrow>
         chat_stream decode (StreamResponded s)
           = ([], Some \<lparr>err_class = Unknown, code = 1099,
                         message = prefix_api_failed @ ''HTTP '' @ show_int (stream_status s)\<rparr>))
   \<and> (stream_status s = 200 \<and> stream_lines s = l # ls \<and> prefix ''data: '' l
        \<and> drop 6 l \<noteq> ''[DONE]'' \<and> decode (drop 6 l) = Undecodable \<longrightarrow>
         chat_stream decode (StreamResponded s)
           = chat_stream decode (StreamResponded (s\<lparr>stream_lines := ls\<rparr>)))
   \<and> (stream_status s = 200 \<and> stream_lines s = l # ls \<and> prefix ''data: '' l
        \<and> drop 6 l \<noteq> ''[DONE]'' \<and> decode (drop 6 l) = ParseRaises x \<longrightarrow>
         chat_stream decode (StreamResponded s)
           = ([], Some \<lparr>err_class = Unknown, code = 1099, message = prefix_stream_error @ x\<rparr>))
   \<and> (stream_status s = 200 \<and> stream_lines s = [] \<and> stream_broken s = Some f \<longrightarrow>
         chat_stream decode (StreamResponded s) = chat_stream decode (StreamFailed f))
   \<and> (stream_status s = 200 \<and> stream_lines s = [] \<and> stream_broken s = None \<longrightarrow>
         chat_stream decode (StreamResponded s) = ([], None))
   \<and> (chat t = Inl e \<or> snd (chat_stream decode st) = Some e \<longrightarrow>
         (err_class e, code e) \<in> {(Timeout, 1001), (Auth, 1002), (RateLimit, 1003), (Unknown, 1099)}
         \<and> (err_class e = Timeout \<longrightarrow> message e = msg_timeout)
         \<and> (err_class e = Auth \<longrightarrow> message e = msg_auth)
         \<and> (err_class e = RateLimit \<longrightarrow> message e = msg_rate_limit))"
proof (intro conjI)
  show "chat (Failed TimeoutException) = Inl \<lparr>err_class = Timeout, code = 1001, message = msg_timeout\<rparr>"
    by (simp add: chat_def LLMTimeoutError_def)
  show "chat (Failed ConnectError) = Inl \<lparr>err_class = Unknown, code = 1099, message = msg_connect\<rparr>"
    by (simp add: chat_def LLMUnknownError_def)
  show "chat (Failed (OtherException x))
       = Inl \<lparr>err_class = Unknown, code = 1099, message = prefix_call_error @ x\<rparr>"
    by (simp add: chat_def LLMUnknownError_def)
  show "status_code r = 401 \<longrightarrow>
         chat (Responded r) = Inl \<lparr>err_class = Auth, code = 1002, message = msg_auth\<rparr>"
    by (simp add: chat_def check_response_status_def LLMAuthError_def)
  show "status_code r = 429 \<longrightarrow>
         chat (Responded r) = Inl \<lparr>err_class = RateLimit, code = 1003, message = msg_rate_limit\<rparr>"
    by (simp add: chat_def check_response_status_def LLMRateLimitError_def)
  show "status_code r \<ge> 500 \<longrightarrow>
         chat (Responded r) = Inl \<lparr>err_class = Unknown, code = 1099, message = msg_5xx\<rparr>"
    by (simp add: chat_def check_response_status_def LLMUnknownError_def)
  show "status_code r < 500 \<and> status_code r \<notin> {200, 401, 429} \<longrightarrow>
         chat (Responded r)
           = Inl \<lparr>err_class = Unknown, code = 1099,
                  message = prefix_api_failed @
                    (case json_body r of
                       Inl _ \<Rightarrow> ''HTTP '' @ show_int (status_code r)
                     | Inr (PDict kvs) \<Rightarrow>
                         (case map_of kvs ''error'' of
                            None \<Rightarrow> unknown_error_text
                          | Some (PDict ekvs) \<Rightarrow>
                              (case map_of ekvs ''message'' of
                                 None \<Rightarrow> unknown_error_text
                               | Some m \<Rightarrow> (case m of PStr text \<Rightarrow> text | _ \<Rightarrow> py_repr m))
                          | Some _ \<Rightarrow> ''HTTP '' @ show_int (status_code r))
                     | Inr _ \<Rightarrow> ''HTTP '' @ show_int (status_code r))\<rparr>"
    by (simp add: chat_def check_response_status_def LLMUnknownError_def error_msg_def
        provider_error_message_def get_or_def py_str_def
        split: sum.splits pyval.splits option.splits)
  show "status_code r = 200 \<and> json_body r = Inl x \<longrightarrow>
         chat (Responded r)
           = Inl \<lparr>err_class = Unknown, code = 1099, message = prefix_call_error @ x\<rparr>"
    by (simp add: chat_def check_response_status_def LLMUnknownError_def)
  show "chat_stream decode (StreamFailed TimeoutException)
       = ([], Some \<lparr>err_class = Timeout, code = 1001, message = msg_timeout\<rparr>)"
    by (simp add: chat_stream_def chat_stream_failure_def LLMTimeoutError_def)
  show "chat_stream decode (StreamFailed ConnectError)
       = ([], Some \<lparr>err_class = Unknown, code = 1099, message = msg_connect\<rparr>)"
    by (simp add: chat_stream_def chat_stream_failure_def LLMUnknownError_def)
  show "chat_stream decode (StreamFailed (OtherException x))
       = ([], Some \<lparr>err_class = Unknown, code = 1099, message = prefix_stream_error @ x\<rparr>)"
    by (simp add: chat_stream_def chat_stream_failure_def LLMUnknownError_def)
  show "stream_status s = 401 \<longrightarrow>
         chat_stream decode (StreamResponded s)
           = ([], Some \<lparr>err_class = Auth, code = 1002, message = msg_auth\<rparr>)"
    by (simp add: chat_stream_def chat_stream_status_def LLMAuthError_def)
  show "stream_status s = 429 \<longrightarrow>
         chat_stream decode (StreamResponded s)
           = ([], Some \<lparr>err_class = RateLimit, code = 1003, message = msg_rate_limit\<rparr>)"
    by (simp add: chat_stream_def chat_stream_status_def LLMRateLimitError_def)
  show "stream_status s \<ge> 500 \<longrightarrow>
         chat_stream decode (StreamResponded s)
           = ([], Some \<lparr>err_class = Unknown, code = 1099, message = msg_5xx_stream\<rparr>)"
    by (simp add: chat_stream_def chat_stream_status_def LLMUnknownError_def)
  show "stream_status s < 500 \<and> stream_status s \<notin> {200, 401, 429} \<longrightarrow>
         chat_stream decode (StreamResponded s)
           = ([], Some \<lparr>err_class = Unknown, code = 1099,
                         message = prefix_api_failed @ ''HTTP '' @ show_int (stream_status s)\<rparr>)"
    by (simp add: chat_stream_def chat_stream_status_def LLMUnknownError_def)
  show "stream_status s = 200 \<and> stream_lines s = l # ls \<and> prefix ''data: '' l
        \<and> drop 6 l \<noteq> ''[DONE]'' \<and> decode (drop 6 l) = Undecodable \<longrightarrow>
         chat_stream decode (StreamResponded s)
           = chat_stream decode (StreamResponded (s\<lparr>stream_lines := ls\<rparr>))"
    by (auto simp: chat_stream_def chat_stream_status_def Let_def)
  show "stream_status s = 200 \<and> stream_lines s = l # ls \<and> prefix ''data: '' l
        \<and> drop 6 l \<noteq> ''[DONE]'' \<and> decode (drop 6 l) = ParseRaises x \<longrightarrow>
         chat_stream decode (StreamResponded s)
           = ([], Some \<lparr>err_class = Unknown, code = 1099, message = prefix_stream_error @ x\<rparr>)"
    by (auto simp: chat_stream_def chat_stream_status_def Let_def LLMUnknownError_def)
  show "stream_status s = 200 \<and> stream_lines s = [] \<and> stream_broken s = Some f \<longrightarrow>
         chat_stream decode (StreamResponded s) = chat_stream decode (StreamFailed f)"
    by (simp add: chat_stream_def chat_stream_status_def)
  show "stream_status s = 200 \<and> stream_lines s = [] \<and> stream_broken s = None \<longrightarrow>
         chat_stream decode (StreamResponded s) = ([], None)"
    by (simp add: chat_stream_def chat_stream_status_def)
  show "chat t = Inl e \<or> snd (chat_stream decode st) = Some e \<longrightarrow>
         (err_class e, code e) \<in> {(Timeout, 1001), (Auth, 1002), (RateLimit, 1003), (Unknown, 1099)}
         \<and> (err_class e = Timeout \<longrightarrow> message e = msg_timeout)
         \<and> (err_class e = Auth \<longrightarrow> message e = msg_auth)
         \<and> (err_class e = RateLimit \<longrightarrow> message e = msg_rate_limit)"
    using chat_error_class [of t e] chat_stream_error_class [of decode st e] by blast
qed

lemma show_int_400: "show_int 400 = ''400''"
  by (simp add: show_int_def)

theorem chat_error_taxonomy_witness:
  "chat (Responded \<lparr>status_code = 401, json_body = Inl []\<rparr>) = Inl \<lparr>err_class = Auth, code = 1002, message = msg_auth\<rparr>
   \<and> chat (Responded \<lparr>status_code = 429, json_body = Inl []\<rparr>) = Inl \<lparr>err_class = RateLimit, code = 1003, message = msg_rate_limit\<rparr>
   \<and> chat (Responded \<lparr>status_code = 503, json_body = Inl []\<rparr>) = Inl \<lparr>err_class = Unknown, code = 1099, message = msg_5xx\<rparr>
   \<and> chat (Responded response_400) = Inl \<lparr>err_class = Unknown, code = 1099, message = prefix_api_failed @ provider_text\<rparr>
   \<and> chat (Responded response_400_bare) = Inl \<lparr>err_class = Unknown, code = 1099, message = prefix_api_failed @ unknown_error_text\<rparr>
   \<and> chat (Responded response_400_html) = Inl \<lparr>err_class = Unknown, code = 1099, message = prefix_api_failed @ ''HTTP 400''\<rparr>
   \<and> chat (Responded \<lparr>status_code = 200, json_body = Inl ''Expecting value''\<rparr>) = Inl \<lparr>err_class = Unknown, code = 1099, message = prefix_call_error @ ''Expecting value''\<rparr>
   \<and> chat_stream sample_decode (StreamResponded \<lparr>stream_status = 401, stream_lines = [], stream_broken = None\<rparr>)
       = ([], Some \<lparr>err_class = Auth, code = 1002, message = msg_auth\<rparr>)
   \<and> chat_stream sample_decode (StreamResponded \<lparr>stream_status = 429, stream_lines = [], stream_broken = None\<rparr>)
       = ([], Some \<lparr>err_class = RateLimit, code = 1003, message = msg_rate_limit\<rparr>)
   \<and> chat_stream sample_decode (StreamResponded \<lparr>stream_status = 503, stream_lines = [], stream_broken = None\<rparr>) = ([], Some \<lparr>err_class = Unknown, code = 1099, message = msg_5xx_stream\<rparr>)
   \<and> chat_stream sample_decode (StreamResponded \<lparr>stream_status = 400, stream_lines = [''data: '' @ frame_t], stream_broken = None\<rparr>) = ([], Some \<lparr>err_class = Unknown, code = 1099, message = prefix_api_failed @ ''HTTP 400''\<rparr>)
   \<and> chat_stream sample_decode (StreamResponded \<lparr>stream_status = 200, stream_lines = [''data: {oops'', ''data: '' @ frame_t, [], ''data: [DONE]'', ''data: 1''], stream_broken = None\<rparr>) = ([\<lparr>chunk_content = ''t'', chunk_tool_calls = None, chunk_finish_reason = None\<rparr>], None)
   \<and> chat_stream sample_decode (StreamResponded \<lparr>stream_status = 200, stream_lines = [''data: 1''], stream_broken = None\<rparr>) = ([], Some \<lparr>err_class = Unknown, code = 1099, message = prefix_stream_error @ [CHR 0x27] @ ''int'' @ [CHR 0x27] @ '' object has no attribute '' @ [CHR 0x27] @ ''get'' @ [CHR 0x27]\<rparr>)
   \<and> chat_stream sample_decode (StreamResponded \<lparr>stream_status = 200, stream_lines = [], stream_broken = Some TimeoutException\<rparr>)
       = ([], Some \<lparr>err_class = Timeout, code = 1001, message = msg_timeout\<rparr>)
   \<and> chat_stream sample_decode (StreamResponded \<lparr>stream_status = 200, stream_lines = [], stream_broken = None\<rparr>) = ([], None)
   \<and> (Unknown, 1099) \<in> {(Timeout, 1001), (Auth, 1002), (RateLimit, 1003), (Unknown, 1099 :: int)}"
proof -
  note t = chat_error_taxonomy [where decode = sample_decode]
  have a: "chat (Responded \<lparr>status_code = 401, json_body = Inl []\<rparr>) = Inl \<lparr>err_class = Auth, code = 1002, message = msg_auth\<rparr>"
    using t [where r = "\<lparr>status_code = 401, json_body = Inl []\<rparr>", THEN conjunct2, THEN conjunct2, THEN conjunct2, THEN conjunct1] by simp
  have b: "chat (Responded \<lparr>status_code = 429, json_body = Inl []\<rparr>) = Inl \<lparr>err_class = RateLimit, code = 1003, message = msg_rate_limit\<rparr>"
    using t [where r = "\<lparr>status_code = 429, json_body = Inl []\<rparr>", THEN conjunct2, THEN conjunct2, THEN conjunct2, THEN conjunct2, THEN conjunct1] by simp
  have c: "chat (Responded \<lparr>status_code = 503, json_body = Inl []\<rparr>) = Inl \<lparr>err_class = Unknown, code = 1099, message = msg_5xx\<rparr>"
    using t [where r = "\<lparr>status_code = 503, json_body = Inl []\<rparr>", THEN conjunct2, THEN conjunct2, THEN conjunct2, THEN conjunct2, THEN conjunct2, THEN conjunct1] by simp
  have d: "chat (Responded response_400) = Inl \<lparr>err_class = Unknown, code = 1099, message = prefix_api_failed @ provider_text\<rparr>"
    using t [where r = response_400, THEN conjunct2, THEN conjunct2, THEN conjunct2, THEN conjunct2, THEN conjunct2, THEN conjunct2, THEN conjunct1] by (simp add: response_400_def)
  have e: "chat (Responded response_400_bare) = Inl \<lparr>err_class = Unknown, code = 1099, message = prefix_api_failed @ unknown_error_text\<rparr>"
    using t [where r = response_400_bare, THEN conjunct2, THEN conjunct2, THEN conjunct2, THEN conjunct2, THEN conjunct2, THEN conjunct2, THEN conjunct1] by (simp add: response_400_bare_def)
  have f: "chat (Responded response_400_html) = Inl \<lparr>err_class = Unknown, code = 1099, message = prefix_api_failed @ ''HTTP 400''\<rparr>"
    using t [where r = response_400_html, THEN conjunct2, THEN conjunct2, THEN conjunct2, THEN conjunct2, THEN conjunct2, THEN conjunct2, THEN conjunct1] by (simp add: response_400_html_def show_int_400)
  have g: "chat (Responded \<lparr>status_code = 200, json_body = Inl ''Expecting value''\<rparr>) = Inl \<lparr>err_class = Unknown, code = 1099, message = prefix_call_error @ ''Expecting value''\<rparr>"
    using t [where r = "\<lparr>status_code = 200, json_body = Inl ''Expecting value''\<rparr>" and x = "''Expecting value''", THEN conjunct2, THEN conjunct2, THEN conjunct2, THEN conjunct2, THEN conjunct2, THEN conjunct2, THEN conjunct2, THEN conjunct1] by simp
  have h: "chat_stream sample_decode (StreamResponded \<lparr>stream_status = 401, stream_lines = [], stream_broken = None\<rparr>)
       = ([], Some \<lparr>err_class = Auth, code = 1002, message = msg_auth\<rparr>)"
    using t [where s = "\<lparr>stream_status = 401, stream_lines = [], stream_broken = None\<rparr>", THEN conjunct2, THEN conjunct2, THEN conjunct2, THEN conjunct2, THEN conjunct2, THEN conjunct2, THEN conjunct2, THEN conjunct2, THEN conjunct2, THEN conjunct2, THEN conjunct2, THEN conjunct1] by simp
  have i: "chat_stream sample_decode (StreamResponded \<lparr>stream_status = 429, stream_lines = [], stream_broken = None\<rparr>)
       = ([], Some \<lparr>err_class = RateLimit, code = 1003, message = msg_rate_limit\<rparr>)"
    using t [where s = "\<lparr>stream_status = 429, stream_lines = [], stream_broken = None\<rparr>", THEN conjunct2, THEN conjunct2, THEN conjunct2, THEN conjunct2, THEN conjunct2, THEN conjunct2, THEN conjunct2, THEN conjunct2, THEN conjunct2, THEN conjunct2, THEN conjunct2, THEN conjunct2, THEN conjunct1] by simp
  have j: "chat_stream sample_decode (StreamResponded \<lparr>stream_status = 503, stream_lines = [], stream_broken = None\<rparr>) = ([], Some \<lparr>err_class = Unknown, code = 1099, message = msg_5xx_stream\<rparr>)"
    using t [where s = "\<lparr>stream_status = 503, stream_lines = [], stream_broken = None\<rparr>", THEN conjunct2, THEN conjunct2, THEN conjunct2, THEN conjunct2, THEN conjunct2, THEN conjunct2, THEN conjunct2, THEN conjunct2, THEN conjunct2, THEN conjunct2, THEN conjunct2, THEN conjunct2, THEN conjunct2, THEN conjunct1] by simp
  have k: "chat_stream sample_decode (StreamResponded \<lparr>stream_status = 400, stream_lines = [''data: '' @ frame_t], stream_broken = None\<rparr>) = ([], Some \<lparr>err_class = Unknown, code = 1099, message = prefix_api_failed @ ''HTTP 400''\<rparr>)"
    using t [where s = "\<lparr>stream_status = 400, stream_lines = [''data: '' @ frame_t], stream_broken = None\<rparr>", THEN conjunct2, THEN conjunct2, THEN conjunct2, THEN conjunct2, THEN conjunct2, THEN conjunct2, THEN conjunct2, THEN conjunct2, THEN conjunct2, THEN conjunct2, THEN conjunct2, THEN conjunct2, THEN conjunct2, THEN conjunct2, THEN conjunct1] by (simp add: show_int_400)
  have und: "sample_decode (drop 6 ''data: {oops'') = Undecodable"
    by (simp add: sample_decode_def frame_t_def)
  have rest: "chat_stream sample_decode (StreamResponded \<lparr>stream_status = 200, stream_lines = [''data: '' @ frame_t, [], ''data: [DONE]'', ''data: 1''], stream_broken = None\<rparr>) = ([\<lparr>chunk_content = ''t'', chunk_tool_calls = None, chunk_finish_reason = None\<rparr>], None)"
    by (simp add: chat_stream_def chat_stream_status_def sample_decode_def frame_t_def Let_def)
  have l: "chat_stream sample_decode (StreamResponded \<lparr>stream_status = 200, stream_lines = [''data: {oops'', ''data: '' @ frame_t, [], ''data: [DONE]'', ''data: 1''], stream_broken = None\<rparr>) = ([\<lparr>chunk_content = ''t'', chunk_tool_calls = None, chunk_finish_reason = None\<rparr>], None)"
    using t [where s = "\<lparr>stream_status = 200, stream_lines = [''data: {oops'', ''data: '' @ frame_t, [], ''data: [DONE]'', ''data: 1''], stream_broken = None\<rparr>" and l = "''data: {oops''"
          and ls = "[''data: '' @ frame_t, [], ''data: [DONE]'', ''data: 1'']", THEN conjunct2, THEN conjunct2, THEN conjunct2, THEN conjunct2, THEN conjunct2, THEN conjunct2, THEN conjunct2, THEN conjunct2, THEN conjunct2, THEN conjunct2, THEN conjunct2, THEN conjunct2, THEN conjunct2, THEN conjunct2, THEN conjunct2, THEN conjunct1] und rest
    by simp
  have m: "chat_stream sample_decode (StreamResponded \<lparr>stream_status = 200, stream_lines = [''data: 1''], stream_broken = None\<rparr>) = ([], Some \<lparr>err_class = Unknown, code = 1099, message = prefix_stream_error @ [CHR 0x27] @ ''int'' @ [CHR 0x27] @ '' object has no attribute '' @ [CHR 0x27] @ ''get'' @ [CHR 0x27]\<rparr>)"
    using t [where s = "\<lparr>stream_status = 200, stream_lines = [''data: 1''], stream_broken = None\<rparr>" and l = "''data: 1''" and ls = "[]"
          and x = "[CHR 0x27] @ ''int'' @ [CHR 0x27] @ '' object has no attribute '' @ [CHR 0x27] @ ''get'' @ [CHR 0x27]", THEN conjunct2, THEN conjunct2, THEN conjunct2, THEN conjunct2, THEN conjunct2, THEN conjunct2, THEN conjunct2, THEN conjunct2, THEN conjunct2, THEN conjunct2, THEN conjunct2, THEN conjunct2, THEN conjunct2, THEN conjunct2, THEN conjunct2, THEN conjunct2, THEN conjunct1]
    by (simp add: sample_decode_def frame_t_def)
  have n: "chat_stream sample_decode (StreamResponded \<lparr>stream_status = 200, stream_lines = [], stream_broken = Some TimeoutException\<rparr>)
       = ([], Some \<lparr>err_class = Timeout, code = 1001, message = msg_timeout\<rparr>)"
    using t [where s = "\<lparr>stream_status = 200, stream_lines = [], stream_broken = Some TimeoutException\<rparr>" and f = TimeoutException, THEN conjunct2, THEN conjunct2, THEN conjunct2, THEN conjunct2, THEN conjunct2, THEN conjunct2, THEN conjunct2, THEN conjunct2, THEN conjunct2, THEN conjunct2, THEN conjunct2, THEN conjunct2, THEN conjunct2, THEN conjunct2, THEN conjunct2, THEN conjunct2, THEN conjunct2, THEN conjunct1] t [THEN conjunct2, THEN conjunct2, THEN conjunct2, THEN conjunct2, THEN conjunct2, THEN conjunct2, THEN conjunct2, THEN conjunct2, THEN conjunct1] by simp
  have o: "chat_stream sample_decode (StreamResponded \<lparr>stream_status = 200, stream_lines = [], stream_broken = None\<rparr>) = ([], None)"
    using t [where s = "\<lparr>stream_status = 200, stream_lines = [], stream_broken = None\<rparr>", THEN conjunct2, THEN conjunct2, THEN conjunct2, THEN conjunct2, THEN conjunct2, THEN conjunct2, THEN conjunct2, THEN conjunct2, THEN conjunct2, THEN conjunct2, THEN conjunct2, THEN conjunct2, THEN conjunct2, THEN conjunct2, THEN conjunct2, THEN conjunct2, THEN conjunct2, THEN conjunct2, THEN conjunct1] by simp
  have p: "(Unknown, 1099) \<in> {(Timeout, 1001), (Auth, 1002), (RateLimit, 1003), (Unknown, 1099 :: int)}"
    using t [where t = "Responded response_400" and e = "\<lparr>err_class = Unknown, code = 1099, message = prefix_api_failed @ provider_text\<rparr>", THEN conjunct2, THEN conjunct2, THEN conjunct2, THEN conjunct2, THEN conjunct2, THEN conjunct2, THEN conjunct2, THEN conjunct2, THEN conjunct2, THEN conjunct2, THEN conjunct2, THEN conjunct2, THEN conjunct2, THEN conjunct2, THEN conjunct2, THEN conjunct2, THEN conjunct2, THEN conjunct2, THEN conjunct2] d by simp
  show ?thesis by (intro conjI a b c d e f g h i j k l m n o p)
qed

subsection \<open>Planner: the cycle check\<close>

lemma out_edges_update:
  "out_edges (AList.update k v g) x = (if x = k then v else out_edges g x)"
  by (simp add: out_edges_def update_conv')

lemma degree_update:
  "degree (AList.update k v d) x = (if x = k then v else degree d x)"
  by (simp add: degree_def update_conv')

lemma dict_get_in_dom:
  "k \<in> fst ` set d \<Longrightarrow> \<exists>v. dict_get d k = Inr v \<and> map_of d k = Some v"
  by (cases "map_of d k") (auto simp: dict_get_def map_of_eq_None_iff)

lemma pending_update:
  assumes "finite A" "dep \<in> A"
  shows "pending (AList.update dep (out_edges g dep @ [rid]) g) A r
           = pending g A r + (if r = rid then 1 else 0)"
proof -
  let ?g' = "AList.update dep (out_edges g dep @ [rid]) g"
  have "pending ?g' A r = int (count_list (out_edges ?g' dep) r) + pending ?g' (A - {dep}) r"
    unfolding pending_def using assms by (simp add: sum.remove)
  also have "pending ?g' (A - {dep}) r = pending g (A - {dep}) r"
    unfolding pending_def by (rule sum.cong) (auto simp: out_edges_update)
  also have "int (count_list (out_edges ?g' dep) r)
      = int (count_list (out_edges g dep) r) + (if r = rid then 1 else 0)"
    by (simp add: out_edges_update)
  also have "int (count_list (out_edges g dep) r) + (if r = rid then 1 else 0) + pending g (A - {dep}) r
      = pending g A r + (if r = rid then 1 else 0)"
    unfolding pending_def using assms by (simp add: sum.remove)
  finally show ?thesis .
qed

lemma init_dict_map_of:
  "map_of (foldl (\<lambda>d node. AList.update (role_id node) c d) d0 ns) k
     = (if k \<in> role_id ` set ns then Some c else map_of d0 k)"
  by (induction ns arbitrary: d0) (auto simp: update_conv')

lemma init_dict_distinct:
  "distinct (map fst d0) \<Longrightarrow> distinct (map fst (foldl (\<lambda>d node. AList.update (role_id node) c d) d0 ns))"
  by (induction ns arbitrary: d0) (auto simp: distinct_update)

lemma init_dict_dom:
  "fst ` set (foldl (\<lambda>d node. AList.update (role_id node) c d) d0 ns) = fst ` set d0 \<union> role_id ` set ns"
  by (induction ns arbitrary: d0) (auto simp: dom_update)

lemma wf_build_init: "wf_build (role_ids_of ns) (init_graph ns, init_in_degree ns)"
proof -
  have "out_edges (init_graph ns) k = []" for k
    by (simp add: out_edges_def init_graph_def init_dict_map_of)
  moreover have "degree (init_in_degree ns) r = 0" for r
    by (simp add: degree_def init_in_degree_def init_dict_map_of)
  ultimately show ?thesis
    by (simp add: wf_build_def role_ids_of_def pending_def init_graph_def init_in_degree_def
        init_dict_dom init_dict_distinct)
qed

lemma add_deps_wf:
  assumes "wf_build ids st" "rid \<in> ids"
  shows "\<exists>st'. add_deps ids rid st deps = Inr st' \<and> wf_build ids st'
           \<and> (\<forall>k. set (out_edges (fst st) k) \<subseteq> set (out_edges (fst st') k))
           \<and> (\<forall>dep\<in>set deps. dep \<in> ids \<longrightarrow> rid \<in> set (out_edges (fst st') dep))
           \<and> (\<forall>k x. x \<in> set (out_edges (fst st') k) \<longrightarrow>
                 x \<in> set (out_edges (fst st) k) \<or> (x = rid \<and> k \<in> set deps \<and> k \<in> ids))"
  using assms(1)
proof (induction deps arbitrary: st)
  case Nil
  then show ?case by (cases st) simp
next
  case (Cons dep deps)
  obtain g ind where st: "st = (g, ind)" by (cases st)
  show ?case
  proof (cases "dep \<in> ids")
    case False
    from Cons.IH [OF Cons.prems] obtain st' where st':
      "add_deps ids rid st deps = Inr st'" "wf_build ids st'"
      "\<And>k. set (out_edges (fst st) k) \<subseteq> set (out_edges (fst st') k)"
      "\<And>d. d \<in> set deps \<Longrightarrow> d \<in> ids \<Longrightarrow> rid \<in> set (out_edges (fst st') d)"
      "\<And>k x. x \<in> set (out_edges (fst st') k) \<Longrightarrow>
                 x \<in> set (out_edges (fst st) k) \<or> (x = rid \<and> k \<in> set deps \<and> k \<in> ids)"
      by auto
    show ?thesis
    proof (intro exI conjI allI ballI impI)
      show "add_deps ids rid st (dep # deps) = Inr st'" using False st'(1) st by simp
      show "wf_build ids st'" by fact
      show "set (out_edges (fst st) k) \<subseteq> set (out_edges (fst st') k)" for k by (rule st'(3))
      show "rid \<in> set (out_edges (fst st') d)" if "d \<in> set (dep # deps)" "d \<in> ids" for d
        using that st'(4) [of d] False by auto
      show "x \<in> set (out_edges (fst st) k) \<or> (x = rid \<and> k \<in> set (dep # deps) \<and> k \<in> ids)"
        if "x \<in> set (out_edges (fst st') k)" for k x
        using st'(5) [OF that] by auto
    qed
  next
    case True
    from Cons.prems st have W: "finite ids" "fst ` set g = ids" "fst ` set ind = ids"
        "distinct (map fst ind)" "\<And>k. set (out_edges g k) \<subseteq> ids"
        "\<And>r. r \<in> ids \<Longrightarrow> degree ind r = pending g ids r"
      by (auto simp: wf_build_def)
    from True W(2) obtain out where out: "dict_get g dep = Inr out" "map_of g dep = Some out"
      using dict_get_in_dom [of dep g] by auto
    from assms(2) W(3) obtain dg where dg: "dict_get ind rid = Inr dg" "map_of ind rid = Some dg"
      using dict_get_in_dom [of rid ind] by auto
    have out': "out = out_edges g dep" using out(2) by (simp add: out_edges_def)
    have dg': "dg = degree ind rid" using dg(2) by (simp add: degree_def)
    let ?g' = "AList.update dep (out @ [rid]) g"
    let ?ind' = "AList.update rid (dg + 1) ind"
    have step: "add_deps ids rid st (dep # deps) = add_deps ids rid (?g', ?ind') deps"
      using True out dg st by simp
    have W': "wf_build ids (?g', ?ind')"
      unfolding wf_build_def
    proof (intro conjI allI ballI)
      show "finite ids" by fact
      show "fst ` set (fst (?g', ?ind')) = ids" using W(2) True by (auto simp: dom_update)
      show "fst ` set (snd (?g', ?ind')) = ids" using W(3) assms(2) by (auto simp: dom_update)
      show "distinct (map fst (snd (?g', ?ind')))" using W(4) by (simp add: distinct_update)
      show "set (out_edges (fst (?g', ?ind')) k) \<subseteq> ids" for k
        using W(5) [of k] W(5) [of dep] assms(2) by (auto simp: out_edges_update out')
      show "degree (snd (?g', ?ind')) r = pending (fst (?g', ?ind')) ids r" if "r \<in> ids" for r
        using pending_update [OF W(1) True, of g rid r] W(6) [OF that] W(6) [OF assms(2)]
        by (simp add: degree_update out' dg')
    qed
    from Cons.IH [OF W'] obtain st' where st':
      "add_deps ids rid (?g', ?ind') deps = Inr st'" "wf_build ids st'"
      "\<And>k. set (out_edges ?g' k) \<subseteq> set (out_edges (fst st') k)"
      "\<And>d. d \<in> set deps \<Longrightarrow> d \<in> ids \<Longrightarrow> rid \<in> set (out_edges (fst st') d)"
      "\<And>k x. x \<in> set (out_edges (fst st') k) \<Longrightarrow>
                 x \<in> set (out_edges ?g' k) \<or> (x = rid \<and> k \<in> set deps \<and> k \<in> ids)"
      by auto
    have mono: "set (out_edges g k) \<subseteq> set (out_edges ?g' k)" for k
      by (auto simp: out_edges_update out')
    have new: "rid \<in> set (out_edges ?g' dep)" by (simp add: out_edges_update)
    have orig: "x \<in> set (out_edges ?g' k) \<Longrightarrow> x \<in> set (out_edges g k) \<or> (x = rid \<and> k = dep)" for x k
      by (auto simp: out_edges_update out' split: if_splits)
    show ?thesis
    proof (intro exI conjI allI ballI impI)
      show "add_deps ids rid st (dep # deps) = Inr st'" using step st'(1) by simp
      show "wf_build ids st'" by fact
      show "set (out_edges (fst st) k) \<subseteq> set (out_edges (fst st') k)" for k
        using mono [of k] st'(3) [of k] st by auto
      show "rid \<in> set (out_edges (fst st') d)" if "d \<in> set (dep # deps)" "d \<in> ids" for d
        using that st'(4) [of d] st'(3) [of dep] new by auto
      show "x \<in> set (out_edges (fst st) k) \<or> (x = rid \<and> k \<in> set (dep # deps) \<and> k \<in> ids)"
        if "x \<in> set (out_edges (fst st') k)" for k x
        using st'(5) [OF that] orig [of x k] True st by auto
    qed
  qed
qed

lemma build_edges_wf:
  assumes "wf_build ids st" "role_id ` set ns \<subseteq> ids"
  shows "\<exists>st'. build_edges ids st ns = Inr st' \<and> wf_build ids st'
           \<and> (\<forall>k. set (out_edges (fst st) k) \<subseteq> set (out_edges (fst st') k))
           \<and> (\<forall>node\<in>set ns. \<forall>dep\<in>set (depends_on node). dep \<in> ids \<longrightarrow>
                 role_id node \<in> set (out_edges (fst st') dep))
           \<and> (\<forall>k x. x \<in> set (out_edges (fst st') k) \<longrightarrow>
                 x \<in> set (out_edges (fst st) k)
                 \<or> (\<exists>node\<in>set ns. x = role_id node \<and> k \<in> set (depends_on node) \<and> k \<in> ids))"
  using assms
proof (induction ns arbitrary: st)
  case Nil
  then show ?case by simp
next
  case (Cons node ns)
  from Cons.prems have rid: "role_id node \<in> ids" and rest: "role_id ` set ns \<subseteq> ids" by auto
  from add_deps_wf [OF Cons.prems(1) rid, of "depends_on node"] obtain st1 where st1:
    "add_deps ids (role_id node) st (depends_on node) = Inr st1" "wf_build ids st1"
    "\<And>k. set (out_edges (fst st) k) \<subseteq> set (out_edges (fst st1) k)"
    "\<And>d. d \<in> set (depends_on node) \<Longrightarrow> d \<in> ids \<Longrightarrow> role_id node \<in> set (out_edges (fst st1) d)"
    "\<And>k x. x \<in> set (out_edges (fst st1) k) \<Longrightarrow>
       x \<in> set (out_edges (fst st) k) \<or> (x = role_id node \<and> k \<in> set (depends_on node) \<and> k \<in> ids)"
    by auto
  from Cons.IH [OF st1(2) rest] obtain st' where st':
    "build_edges ids st1 ns = Inr st'" "wf_build ids st'"
    "\<And>k. set (out_edges (fst st1) k) \<subseteq> set (out_edges (fst st') k)"
    "\<And>n d. n \<in> set ns \<Longrightarrow> d \<in> set (depends_on n) \<Longrightarrow> d \<in> ids \<Longrightarrow> role_id n \<in> set (out_edges (fst st') d)"
    "\<And>k x. x \<in> set (out_edges (fst st') k) \<Longrightarrow>
       x \<in> set (out_edges (fst st1) k)
       \<or> (\<exists>n\<in>set ns. x = role_id n \<and> k \<in> set (depends_on n) \<and> k \<in> ids)"
    by auto
  show ?case
  proof (intro exI conjI allI ballI impI)
    show "build_edges ids st (node # ns) = Inr st'" using st1(1) st'(1) by simp
    show "wf_build ids st'" by fact
    show "set (out_edges (fst st) k) \<subseteq> set (out_edges (fst st') k)" for k
      using st1(3) [of k] st'(3) [of k] by auto
    show "role_id n \<in> set (out_edges (fst st') d)"
      if "n \<in> set (node # ns)" "d \<in> set (depends_on n)" "d \<in> ids" for n d
      using that st'(4) [of n d] st1(4) [of d] st'(3) [of d] by auto
    show "x \<in> set (out_edges (fst st) k)
        \<or> (\<exists>n\<in>set (node # ns). x = role_id n \<and> k \<in> set (depends_on n) \<and> k \<in> ids)"
      if "x \<in> set (out_edges (fst st') k)" for k x
      using st'(5) [OF that] st1(5) [of x k] by auto
  qed
qed

lemma build_result:
  "\<exists>g ind. build_edges (role_ids_of ns) (init_graph ns, init_in_degree ns) ns = Inr (g, ind)
      \<and> wf_build (role_ids_of ns) (g, ind)
      \<and> (\<forall>r d. r \<in> set (out_edges g d) \<longleftrightarrow> (r, d) \<in> dep_edge ns)"
proof -
  have sub: "role_id ` set ns \<subseteq> role_ids_of ns" by (simp add: role_ids_of_def)
  have empty: "out_edges (init_graph ns) k = []" for k
    by (simp add: out_edges_def init_graph_def init_dict_map_of)
  from build_edges_wf [OF wf_build_init sub] obtain st' where st':
    "build_edges (role_ids_of ns) (init_graph ns, init_in_degree ns) ns = Inr st'"
    "wf_build (role_ids_of ns) st'"
    "\<And>n d. n \<in> set ns \<Longrightarrow> d \<in> set (depends_on n) \<Longrightarrow> d \<in> role_ids_of ns
        \<Longrightarrow> role_id n \<in> set (out_edges (fst st') d)"
    "\<And>k x. x \<in> set (out_edges (fst st') k) \<Longrightarrow>
       x \<in> set (out_edges (fst (init_graph ns, init_in_degree ns)) k)
       \<or> (\<exists>n\<in>set ns. x = role_id n \<and> k \<in> set (depends_on n) \<and> k \<in> role_ids_of ns)"
    by auto
  have "r \<in> set (out_edges (fst st') d) \<longleftrightarrow> (r, d) \<in> dep_edge ns" for r d
    using st'(3) [of _ d] st'(4) [of r d] empty by (auto simp: dep_edge_def)
  with st'(1,2) show ?thesis by (cases st') auto
qed

lemma pending_nonneg: "0 \<le> pending g A r"
  by (simp add: pending_def sum_nonneg)

lemma pending_member:
  "finite A \<Longrightarrow> d \<in> A \<Longrightarrow> x \<in> set (out_edges g d) \<Longrightarrow> 1 \<le> pending g A x"
proof -
  assume a: "finite A" "d \<in> A" "x \<in> set (out_edges g d)"
  from a(3) have "count_list (out_edges g d) x \<noteq> 0" by (simp add: count_list_0_iff)
  then have "1 \<le> int (count_list (out_edges g d) x)" by simp
  also have "\<dots> \<le> pending g A x"
    unfolding pending_def using a(1,2)
    by (intro member_le_sum) auto
  finally show ?thesis .
qed

lemma pending_positive:
  assumes "finite A" "0 < pending g A x"
  shows "\<exists>d\<in>A. x \<in> set (out_edges g d)"
proof (rule ccontr)
  assume "\<not> ?thesis"
  then have "\<forall>d\<in>A. count_list (out_edges g d) x = 0" by (simp add: count_list_0_iff)
  then have "pending g A x = 0" by (simp add: pending_def)
  with assms(2) show False by simp
qed

lemma pending_remove:
  "finite A \<Longrightarrow> c \<in> A \<Longrightarrow>
     pending g A r = pending g (A - {c}) r + int (count_list (out_edges g c) r)"
  by (simp add: pending_def sum.remove)

lemma relax_keeps_inv:
  assumes fin: "finite ids"
    and cyc: "\<forall>s\<in>S. \<exists>d\<in>S. s \<in> set (out_edges g d)" "S \<subseteq> ids"
  shows "kahn_inv g ids S ind queue P rest \<Longrightarrow>
     \<exists>ind' queue'. relax (ind, queue) rest = Inr (ind', queue') \<and> kahn_inv g ids S ind' queue' P []"
proof (induction rest arbitrary: ind queue)
  case Nil
  then show ?case by simp
next
  case (Cons nb rest)
  from Cons.prems have I: "fst ` set ind = ids" "nb \<in> ids" "set rest \<subseteq> ids"
      "distinct (P @ queue)" "set (P @ queue) \<subseteq> ids" "set (P @ queue) \<inter> S = {}"
      "\<And>r. r \<in> ids \<Longrightarrow> degree ind r = pending g (ids - set P) r + int (count_list (nb # rest) r)"
      "\<And>r. r \<in> ids \<Longrightarrow> r \<in> set (P @ queue) \<longleftrightarrow> degree ind r = 0"
    by (auto simp: kahn_inv_def)
  from I(1,2) obtain v where v: "dict_get ind nb = Inr v" "map_of ind nb = Some v"
    using dict_get_in_dom [of nb ind] by auto
  have v': "v = degree ind nb" using v(2) by (simp add: degree_def)
  have vpos: "1 \<le> v"
    using I(7) [OF I(2)] pending_nonneg [of g "ids - set P" nb] by (simp add: v')
  have fresh: "nb \<notin> set (P @ queue)"
    using I(8) [OF I(2)] vpos v' by auto
  let ?ind' = "AList.update nb (v - 1) ind"
  let ?queue' = "if v - 1 = 0 then queue @ [nb] else queue"
  have notS: "nb \<notin> S" if "v - 1 = 0"
  proof
    assume "nb \<in> S"
    with cyc(1) obtain d where d: "d \<in> S" "nb \<in> set (out_edges g d)" by blast
    from d(1) cyc(2) I(6) have "d \<in> ids - set P" by auto
    with fin d(2) have "1 \<le> pending g (ids - set P) nb"
      by (intro pending_member [of _ d]) auto
    with I(7) [OF I(2)] have "2 \<le> v" by (simp add: v')
    with that show False by simp
  qed
  have inv': "kahn_inv g ids S ?ind' ?queue' P rest"
    unfolding kahn_inv_def
  proof (intro conjI ballI)
    show "fst ` set ?ind' = ids" using I(1,2) by (auto simp: dom_update)
    show "set rest \<subseteq> ids" by fact
    show "distinct (P @ ?queue')" using I(4) fresh by auto
    show "set (P @ ?queue') \<subseteq> ids" using I(5) I(2) by auto
    show "set (P @ ?queue') \<inter> S = {}" using I(6) notS by auto
    show "degree ?ind' r = pending g (ids - set P) r + int (count_list rest r)" if "r \<in> ids" for r
      using I(7) [OF that] by (auto simp: degree_update v')
    show "r \<in> set (P @ ?queue') \<longleftrightarrow> degree ?ind' r = 0" if "r \<in> ids" for r
      using I(8) [OF that] fresh by (auto simp: degree_update)
  qed
  from Cons.IH [OF inv'] obtain ind'' queue'' where
    "relax (?ind', ?queue') rest = Inr (ind'', queue'')" "kahn_inv g ids S ind'' queue'' P []"
    by blast
  moreover have "relax (ind, queue) (nb # rest) = relax (?ind', ?queue') rest"
    using v(1) by simp
  ultimately show ?case by auto
qed

lemma topo_loop_inv:
  assumes fin: "finite ids"
    and g: "fst ` set g = ids" "\<forall>k. set (out_edges g k) \<subseteq> ids"
    and cyc: "\<forall>s\<in>S. \<exists>d\<in>S. s \<in> set (out_edges g d)" "S \<subseteq> ids"
  shows "kahn_inv g ids S ind queue P [] \<Longrightarrow>
     \<exists>v' ind' P'. topo_loop g ind queue v = Inr v' \<and> v' + length P = v + length P'
        \<and> kahn_inv g ids S ind' [] P' []"
  using g cyc
proof (induction g ind queue v arbitrary: P rule: topo_loop.induct)
  case (1 graph in_degree visited)
  then show ?case by auto
next
  case (2 graph in_degree current queue visited)
  note g2 = "2.prems"(2,3)
  note cyc2 = "2.prems"(4,5)
  from "2.prems"(1) have I: "fst ` set in_degree = ids"
      "distinct (P @ current # queue)" "set (P @ current # queue) \<subseteq> ids"
      "set (P @ current # queue) \<inter> S = {}"
      "\<And>r. r \<in> ids \<Longrightarrow> degree in_degree r = pending graph (ids - set P) r"
      "\<And>r. r \<in> ids \<Longrightarrow> r \<in> set (P @ current # queue) \<longleftrightarrow> degree in_degree r = 0"
    by (auto simp: kahn_inv_def)
  from I(3) have cin: "current \<in> ids" by simp
  with g2(1) obtain out where out: "dict_get graph current = Inr out" "map_of graph current = Some out"
    using dict_get_in_dom [of current graph] by auto
  have out': "out = out_edges graph current" using out(2) by (simp add: out_edges_def)
  have cP: "current \<in> ids - set P" using cin I(2) by auto
  have split: "pending graph (ids - set P) r
      = pending graph (ids - set (P @ [current])) r + int (count_list out r)" for r
  proof -
    have "ids - set P - {current} = ids - set (P @ [current])" by auto
    with pending_remove [of "ids - set P" current graph r] fin cP show ?thesis
      by (simp add: out')
  qed
  have inv1: "kahn_inv graph ids S in_degree queue (P @ [current]) out"
    unfolding kahn_inv_def
  proof (intro conjI ballI)
    show "fst ` set in_degree = ids" by fact
    show "set out \<subseteq> ids" using g2(2) by (simp add: out')
    show "distinct ((P @ [current]) @ queue)" using I(2) by simp
    show "set ((P @ [current]) @ queue) \<subseteq> ids" using I(3) by simp
    show "set ((P @ [current]) @ queue) \<inter> S = {}" using I(4) by simp
    show "degree in_degree r = pending graph (ids - set (P @ [current])) r + int (count_list out r)"
      if "r \<in> ids" for r using I(5) [OF that] split [of r] by simp
    show "r \<in> set ((P @ [current]) @ queue) \<longleftrightarrow> degree in_degree r = 0" if "r \<in> ids" for r
      using I(6) [OF that] by simp
  qed
  from relax_keeps_inv [OF fin cyc2 inv1] obtain ind' queue' where
    rel: "relax (in_degree, queue) out = Inr (ind', queue')"
    and inv2: "kahn_inv graph ids S ind' queue' (P @ [current]) []"
    by blast
  from "2.IH" [OF out(1) rel _ g2 cyc2, of "P @ [current]"] inv2
  obtain v' ind'' P' where
    "topo_loop graph ind' queue' (visited + 1) = Inr v'"
    "v' + length (P @ [current]) = visited + 1 + length P'"
    "kahn_inv graph ids S ind'' [] P' []"
    by auto
  moreover have "topo_loop graph in_degree (current # queue) visited
      = topo_loop graph ind' queue' (visited + 1)"
    using out(1) rel by simp
  ultimately show ?case by auto
qed

lemma zero_in_degree_set:
  assumes "distinct (map fst ind)"
  shows "r \<in> set (zero_in_degree ind) \<longleftrightarrow> r \<in> fst ` set ind \<and> degree ind r = 0"
proof -
  have m: "(r, v) \<in> set ind \<longleftrightarrow> map_of ind r = Some v" for v
    using assms by auto
  have "r \<in> set (zero_in_degree ind) \<longleftrightarrow> (r, 0) \<in> set ind"
    by (force simp: zero_in_degree_def)
  also have "\<dots> \<longleftrightarrow> map_of ind r = Some 0" by (rule m)
  also have "\<dots> \<longleftrightarrow> r \<in> fst ` set ind \<and> degree ind r = 0"
  proof (cases "map_of ind r")
    case None
    then have "r \<notin> fst ` set ind" by (simp add: map_of_eq_None_iff)
    with None show ?thesis by simp
  next
    case (Some v)
    with m [of v] have "(r, v) \<in> set ind" by simp
    then have "r \<in> fst ` set ind" by force
    with Some show ?thesis by (simp add: degree_def)
  qed
  finally show ?thesis .
qed

lemma zero_in_degree_distinct:
  "distinct (map fst ind) \<Longrightarrow> distinct (zero_in_degree ind)"
  by (simp add: zero_in_degree_def distinct_map_filter)

lemma on_cycle_successor:
  assumes "(s, s) \<in> E\<^sup>+"
  shows "\<exists>d. (s, d) \<in> E \<and> (d, d) \<in> E\<^sup>+"
proof -
  from assms obtain d where d: "(s, d) \<in> E" "(d, s) \<in> E\<^sup>*" by (auto dest: tranclD)
  then have "(d, d) \<in> E\<^sup>+" by (rule_tac rtrancl_into_trancl1)
  with d(1) show ?thesis by blast
qed

lemma closed_set_has_cycle:
  assumes "finite U" "U \<noteq> {}" "\<forall>u\<in>U. \<exists>k\<in>U. (u, k) \<in> E"
  shows "\<exists>x. (x, x) \<in> E\<^sup>+"
proof (rule ccontr)
  assume "\<not> ?thesis"
  then have ac: "acyclic E" by (simp add: acyclic_def)
  let ?r = "E \<inter> U \<times> U"
  have "finite ?r" using assms(1) by simp
  moreover have "acyclic ?r" using ac by (rule acyclic_subset) simp
  ultimately have "wf (?r\<inverse>)" by (rule finite_acyclic_wf_converse)
  moreover from assms(2) obtain u where "u \<in> U" by blast
  ultimately obtain z where z: "z \<in> U" "\<And>y. (y, z) \<in> ?r\<inverse> \<Longrightarrow> y \<notin> U"
    by (rule wfE_min) blast
  from assms(3) z(1) obtain k where "k \<in> U" "(z, k) \<in> E" by blast
  with z show False by blast
qed

lemma visited_count_characterisation:
  "\<exists>v. visited_count ns = Inr v \<and> v \<le> card (role_ids_of ns)
      \<and> (has_cycle ns \<longleftrightarrow> v < card (role_ids_of ns))"
proof -
  let ?ids = "role_ids_of ns"
  let ?E = "dep_edge ns"
  let ?S = "{x. (x, x) \<in> ?E\<^sup>+}"
  from build_result [of ns] obtain g ind where
    build: "build_edges ?ids (init_graph ns, init_in_degree ns) ns = Inr (g, ind)"
    and wf: "wf_build ?ids (g, ind)"
    and edges: "\<And>r d. r \<in> set (out_edges g d) \<longleftrightarrow> (r, d) \<in> ?E"
    by blast
  from wf have W: "finite ?ids" "fst ` set g = ?ids" "fst ` set ind = ?ids"
      "distinct (map fst ind)" "\<forall>k. set (out_edges g k) \<subseteq> ?ids"
      "\<And>r. r \<in> ?ids \<Longrightarrow> degree ind r = pending g ?ids r"
    by (auto simp: wf_build_def)
  have Ssub: "?S \<subseteq> ?ids"
  proof
    fix x assume "x \<in> ?S"
    then obtain d where "(x, d) \<in> ?E" by (auto dest: tranclD)
    then show "x \<in> ?ids" by (auto simp: dep_edge_def role_ids_of_def)
  qed
  have Scl: "\<forall>s\<in>?S. \<exists>d\<in>?S. s \<in> set (out_edges g d)"
  proof
    fix s assume "s \<in> ?S"
    then have "(s, s) \<in> ?E\<^sup>+" by simp
    from on_cycle_successor [OF this] obtain d where "(s, d) \<in> ?E" "(d, d) \<in> ?E\<^sup>+" by blast
    with edges [of s d] show "\<exists>d\<in>?S. s \<in> set (out_edges g d)" by blast
  qed
  have init: "kahn_inv g ?ids ?S ind (zero_in_degree ind) [] []"
    unfolding kahn_inv_def
  proof (intro conjI ballI)
    show "fst ` set ind = ?ids" by fact
    show "set [] \<subseteq> ?ids" by simp
    show "distinct ([] @ zero_in_degree ind)" using W(4) by (simp add: zero_in_degree_distinct)
    show "set ([] @ zero_in_degree ind) \<subseteq> ?ids"
      using W(3,4) by (auto simp: zero_in_degree_set)
    show "set ([] @ zero_in_degree ind) \<inter> ?S = {}"
    proof -
      have "degree ind s \<noteq> 0" if "s \<in> ?S" for s
      proof -
        from Scl that obtain d where d: "d \<in> ?S" "s \<in> set (out_edges g d)" by blast
        with Ssub have "d \<in> ?ids" by blast
        from pending_member [OF W(1) this d(2)] W(6) [of s] Ssub that show ?thesis by auto
      qed
      then show ?thesis using W(4) by (auto simp: zero_in_degree_set)
    qed
    show "degree ind r = pending g (?ids - set []) r + int (count_list [] r)" if "r \<in> ?ids" for r
      using W(6) [OF that] by simp
    show "r \<in> set ([] @ zero_in_degree ind) \<longleftrightarrow> degree ind r = 0" if "r \<in> ?ids" for r
      using W(3,4) that by (simp add: zero_in_degree_set)
  qed
  from topo_loop_inv [OF W(1,2,5) Scl Ssub init, of 0] obtain v indf Pf where
    res: "topo_loop g ind (zero_in_degree ind) 0 = Inr v" "v = length Pf"
    and fin: "kahn_inv g ?ids ?S indf [] Pf []"
    by auto
  from fin have F: "distinct Pf" "set Pf \<subseteq> ?ids" "set Pf \<inter> ?S = {}"
      "\<And>r. r \<in> ?ids \<Longrightarrow> degree indf r = pending g (?ids - set Pf) r"
      "\<And>r. r \<in> ?ids \<Longrightarrow> r \<in> set Pf \<longleftrightarrow> degree indf r = 0"
    by (auto simp: kahn_inv_def)
  have vc: "visited_count ns = Inr v"
    using build res(1) by (simp add: visited_count_def)
  have vcard: "v = card (set Pf)" using res(2) F(1) by (simp add: distinct_card)
  have le: "v \<le> card ?ids" using vcard F(2) W(1) by (simp add: card_mono)
  have cyc_lt: "v < card ?ids" if "has_cycle ns"
  proof -
    from that obtain x where "x \<in> ?S" by (auto simp: has_cycle_def)
    with Ssub F(3) have "x \<in> ?ids" "x \<notin> set Pf" by auto
    with F(2) have "set Pf \<subset> ?ids" by blast
    with W(1) vcard show ?thesis by (simp add: psubset_card_mono)
  qed
  have acyc_eq: "v = card ?ids" if nc: "\<not> has_cycle ns"
  proof -
    let ?U = "?ids - set Pf"
    have "\<exists>k\<in>?U. (u, k) \<in> ?E" if "u \<in> ?U" for u
    proof -
      from that F(5) [of u] have "degree indf u \<noteq> 0" by auto
      with F(4) [of u] that pending_nonneg [of g ?U u] have "0 < pending g ?U u" by auto
      with pending_positive [of ?U g u] W(1) obtain d where "d \<in> ?U" "u \<in> set (out_edges g d)"
        by auto
      with edges show ?thesis by blast
    qed
    then have "?U = {}"
      using closed_set_has_cycle [of ?U ?E] W(1) nc by (auto simp: has_cycle_def)
    with F(2) have "set Pf = ?ids" by auto
    with vcard show ?thesis by simp
  qed
  have "has_cycle ns \<longleftrightarrow> v < card ?ids"
    using cyc_lt acyc_eq by auto
  with vc le show ?thesis by blast
qed


lemma validate_dag_characterisation:
  "validate_dag ns = Inr (\<not> has_cycle ns \<and> distinct (map role_id ns))"
proof -
  from visited_count_characterisation [of ns] obtain v where
    v: "visited_count ns = Inr v" "v \<le> card (role_ids_of ns)"
       "has_cycle ns \<longleftrightarrow> v < card (role_ids_of ns)"
    by blast
  have c: "card (role_ids_of ns) \<le> length ns"
    unfolding role_ids_of_def using card_length [of "map role_id ns"] by simp
  have d: "card (role_ids_of ns) = length ns \<longleftrightarrow> distinct (map role_id ns)"
    unfolding role_ids_of_def using card_distinct [of "map role_id ns"] distinct_card [of "map role_id ns"]
    by auto
  have "v = length ns \<longleftrightarrow> \<not> has_cycle ns \<and> distinct (map role_id ns)"
    using v(2,3) c d by auto
  with v(1) show ?thesis by (simp add: validate_dag_def)
qed

lemma has_cycle_nonempty: "has_cycle ns \<Longrightarrow> ns \<noteq> []"
  by (auto simp: has_cycle_def dep_edge_def dest: tranclD)

lemma parsed_nodes_is_dict: "parsed_nodes data = Inr ns \<Longrightarrow> \<exists>kvs. data = PDict kvs"
  by (cases data) (auto simp: parsed_nodes_def py_get_def)

text \<open>
  The part of the check that is sound. Whenever the nodes parsed from a reply have a
  cycle in their dependency graph, the count of nodes removed at in-degree zero stays
  below the number of nodes, \<^verbatim>\<open>_validate_dag\<close> returns \<^verbatim>\<open>False\<close> (it neither raises
  nor runs forever: the loop is a total function), and the parser returns a plan with
  the same nodes in the same order, each with an empty \<^verbatim>\<open>depends_on\<close>, so that no
  edge is left.
\<close>

theorem cycle_is_neutralised:
  assumes "parsed_nodes data = Inr ns" and "has_cycle ns"
  shows "(\<exists>v. visited_count ns = Inr v \<and> v < length ns)
       \<and> validate_dag ns = Inr False
       \<and> (\<exists>why. parse_plan_response (Json data) = Inr \<lparr>nodes = clear_depends ns, reason = why\<rparr>)
       \<and> map role_id (clear_depends ns) = map role_id ns
       \<and> concat (map depends_on (clear_depends ns)) = []"
proof (intro conjI)
  from visited_count_characterisation [of ns] assms(2) obtain v where
    v: "visited_count ns = Inr v" "v < card (role_ids_of ns)" by blast
  have "card (role_ids_of ns) \<le> length ns"
    unfolding role_ids_of_def using card_length [of "map role_id ns"] by simp
  with v show "\<exists>v. visited_count ns = Inr v \<and> v < length ns" by auto
  show vd: "validate_dag ns = Inr False"
    using assms(2) by (simp add: validate_dag_characterisation)
  from parsed_nodes_is_dict [OF assms(1)] obtain kvs where kvs: "data = PDict kvs" by blast
  have "parse_plan_body (Json data)
      = Inr \<lparr>nodes = clear_depends ns, reason = get_or (map_of kvs ''reason'') (PStr [])\<rparr>"
    using assms(1) has_cycle_nonempty [OF assms(2)] vd kvs
    by (simp add: parse_plan_body_def py_get_def)
  then show "\<exists>why. parse_plan_response (Json data) = Inr \<lparr>nodes = clear_depends ns, reason = why\<rparr>"
    by (simp add: parse_plan_response_def)
  show "map role_id (clear_depends ns) = map role_id ns"
    by (simp add: clear_depends_def)
  show "concat (map depends_on (clear_depends ns)) = []"
    by (simp add: clear_depends_def)
qed

lemma cyclic_reply_nodes: "parsed_nodes cyclic_reply = Inr cyclic_nodes"
  by (simp add: parsed_nodes_def cyclic_reply_def cyclic_nodes_def py_get_def py_iter_def get_or_def
      parse_node_def known_role_def get_role_def ROLE_MAP_def)

lemma cyclic_nodes_cycle: "has_cycle cyclic_nodes"
proof -
  have a: "(''policy_expert'', ''financial_advisor'') \<in> dep_edge cyclic_nodes"
    by (simp add: dep_edge_def cyclic_nodes_def role_ids_of_def)
  have b: "(''financial_advisor'', ''policy_expert'') \<in> dep_edge cyclic_nodes"
    by (simp add: dep_edge_def cyclic_nodes_def role_ids_of_def)
  from a b have "(''policy_expert'', ''policy_expert'') \<in> (dep_edge cyclic_nodes)\<^sup>+"
    by (rule trancl_into_trancl [OF r_into_trancl])
  then show ?thesis unfolding has_cycle_def by (rule exI)
qed

theorem cycle_is_neutralised_witness:
  "parsed_nodes cyclic_reply = Inr cyclic_nodes
   \<and> has_cycle cyclic_nodes
   \<and> validate_dag cyclic_nodes = Inr False
   \<and> (\<exists>why. parse_plan_response (Json cyclic_reply)
         = Inr \<lparr>nodes = [\<lparr>role_id = ''policy_expert'', depends_on = []\<rparr>,
                         \<lparr>role_id = ''financial_advisor'', depends_on = []\<rparr>], reason = why\<rparr>)"
proof -
  note t = cycle_is_neutralised [OF cyclic_reply_nodes cyclic_nodes_cycle]
  have c: "clear_depends cyclic_nodes
      = [\<lparr>role_id = ''policy_expert'', depends_on = []\<rparr>, \<lparr>role_id = ''financial_advisor'', depends_on = []\<rparr>]"
    by (simp add: clear_depends_def cyclic_nodes_def)
  from t have "validate_dag cyclic_nodes = Inr False" by (rule conjunct2 [THEN conjunct1])
  moreover from t have "\<exists>why. parse_plan_response (Json cyclic_reply)
         = Inr \<lparr>nodes = clear_depends cyclic_nodes, reason = why\<rparr>"
    by (rule conjunct2 [THEN conjunct2, THEN conjunct1])
  ultimately show ?thesis using cyclic_reply_nodes cyclic_nodes_cycle c by simp
qed


lemma duplicate_reply_nodes: "parsed_nodes duplicate_reply = Inr duplicate_nodes"
  by (simp add: parsed_nodes_def duplicate_reply_def duplicate_nodes_def py_get_def py_iter_def
      get_or_def parse_node_def known_role_def get_role_def ROLE_MAP_def)

lemma duplicate_nodes_acyclic: "\<not> has_cycle duplicate_nodes"
proof -
  have "dep_edge duplicate_nodes = {(''financial_advisor'', ''policy_expert'')}"
    by (auto simp: dep_edge_def duplicate_nodes_def role_ids_of_def)
  then show ?thesis by (simp add: has_cycle_def trancl_insert)
qed

text \<open>
  Claim C1. The claim holds of every plan with a cycle (lemma \<open>cycle_is_neutralised\<close>
  above), but the count does not fall short only then. \<^verbatim>\<open>in_degree\<close> and \<open>graph\<close>
  are dictionaries keyed by role id, so the loop removes each role id once, and the
  count is compared with the number of nodes: it falls short exactly when there is a
  cycle or two nodes share a role id (lemma \<open>validate_dag_characterisation\<close>). The
  parser keeps nodes that repeat a role id, so for a reply without any cycle in which a
  role id occurs twice the check returns \<^verbatim>\<open>False\<close> and the parser strips every
  dependency of a plan that had no cycle.
\<close>

theorem repeated_role_id_is_taken_for_a_cycle:
  assumes "parsed_nodes (PDict kvs) = Inr ns"
    and "\<not> has_cycle ns"
    and "\<not> distinct (map role_id ns)"
  shows "(\<exists>v. visited_count ns = Inr v \<and> v < length ns)
       \<and> validate_dag ns = Inr False
       \<and> parse_plan_response (Json (PDict kvs))
           = Inr \<lparr>nodes = map (\<lambda>node. node\<lparr>depends_on := []\<rparr>) ns,
                  reason = (case map_of kvs ''reason'' of None \<Rightarrow> PStr [] | Some why \<Rightarrow> why)\<rparr>"
proof (intro conjI)
  from visited_count_characterisation [of ns] assms(2) obtain v where
    v: "visited_count ns = Inr v" "v \<le> card (role_ids_of ns)" by blast
  have "card (role_ids_of ns) < length ns"
    unfolding role_ids_of_def
    using card_length [of "map role_id ns"] card_distinct [of "map role_id ns"] assms(3)
    by (cases "card (set (map role_id ns)) = length (map role_id ns)") auto
  with v show "\<exists>v. visited_count ns = Inr v \<and> v < length ns" by auto
  show vd: "validate_dag ns = Inr False"
    using assms(3) by (simp add: validate_dag_characterisation)
  from assms(3) have ne: "ns \<noteq> []" by auto
  show "parse_plan_response (Json (PDict kvs))
           = Inr \<lparr>nodes = map (\<lambda>node. node\<lparr>depends_on := []\<rparr>) ns,
                  reason = (case map_of kvs ''reason'' of None \<Rightarrow> PStr [] | Some why \<Rightarrow> why)\<rparr>"
    using assms(1) ne vd
    by (simp add: parse_plan_response_def parse_plan_body_def py_get_def get_or_def clear_depends_def
        split: option.splits)
qed

theorem repeated_role_id_is_taken_for_a_cycle_witness:
  "parsed_nodes duplicate_reply
     = Inr [\<lparr>role_id = ''policy_expert'', depends_on = []\<rparr>,
            \<lparr>role_id = ''financial_advisor'', depends_on = [''policy_expert'']\<rparr>,
            \<lparr>role_id = ''policy_expert'', depends_on = []\<rparr>]
   \<and> validate_dag duplicate_nodes = Inr False
   \<and> parse_plan_response (Json duplicate_reply)
       = Inr \<lparr>nodes = [\<lparr>role_id = ''policy_expert'', depends_on = []\<rparr>,
                       \<lparr>role_id = ''financial_advisor'', depends_on = []\<rparr>,
                       \<lparr>role_id = ''policy_expert'', depends_on = []\<rparr>],
              reason = PStr ''twice''\<rparr>"
proof -
  have d: "\<not> distinct (map role_id duplicate_nodes)" by (simp add: duplicate_nodes_def)
  note t = repeated_role_id_is_taken_for_a_cycle
    [OF duplicate_reply_nodes [unfolded duplicate_reply_def] duplicate_nodes_acyclic d]
  from duplicate_reply_nodes
  have a: "parsed_nodes duplicate_reply
     = Inr [\<lparr>role_id = ''policy_expert'', depends_on = []\<rparr>,
            \<lparr>role_id = ''financial_advisor'', depends_on = [''policy_expert'']\<rparr>,
            \<lparr>role_id = ''policy_expert'', depends_on = []\<rparr>]"
    by (simp add: duplicate_nodes_def)
  note b = t [THEN conjunct2, THEN conjunct1]
  from t [THEN conjunct2, THEN conjunct2]
  have c: "parse_plan_response (Json duplicate_reply)
       = Inr \<lparr>nodes = [\<lparr>role_id = ''policy_expert'', depends_on = []\<rparr>,
                       \<lparr>role_id = ''financial_advisor'', depends_on = []\<rparr>,
                       \<lparr>role_id = ''policy_expert'', depends_on = []\<rparr>],
              reason = PStr ''twice''\<rparr>"
    by (simp add: duplicate_reply_def duplicate_nodes_def)
  show ?thesis by (intro conjI a b c)
qed

subsection \<open>Planner: parsing the reply and planning\<close>

lemma known_role_exception: "known_role x = Inl e \<Longrightarrow> \<exists>m. e = ExcType m"
  by (cases x) (auto simp: known_role_def)

lemma py_get_exception: "py_get obj k d = Inl e \<Longrightarrow> \<exists>m. e = ExcAttribute m"
  by (cases obj) (auto simp: py_get_def)

lemma py_iter_exception: "py_iter obj = Inl e \<Longrightarrow> \<exists>m. e = ExcType m"
  by (cases obj) (auto simp: py_iter_def)

lemma valid_depends_exception: "valid_depends ds = Inl e \<Longrightarrow> \<exists>m. e = ExcType m"
  by (induction ds) (auto split: sum.splits dest: known_role_exception)

lemma valid_depends_known:
  "valid_depends ds = Inr vs \<Longrightarrow> \<forall>d\<in>set vs. get_role d \<noteq> None \<and> PStr d \<in> set ds"
proof (induction ds arbitrary: vs)
  case Nil
  then show ?case by simp
next
  case (Cons d ds)
  then show ?case
    by (cases d) (auto simp: known_role_def split: sum.splits if_splits)
qed

lemma parse_node_exception:
  "parse_node nd = Inl e \<Longrightarrow> \<exists>m. e = ExcType m \<or> e = ExcAttribute m"
  unfolding parse_node_def
  by (auto split: sum.splits pyval.splits if_splits
      dest: known_role_exception py_get_exception py_iter_exception valid_depends_exception)

lemma parse_node_known:
  "parse_node nd = Inr (Some n) \<Longrightarrow>
     get_role (role_id n) \<noteq> None \<and> (\<forall>d\<in>set (depends_on n). get_role d \<noteq> None)"
  unfolding parse_node_def
  by (auto split: sum.splits pyval.splits if_splits simp: known_role_def dest: valid_depends_known)

lemma parse_nodes_exception:
  "parse_nodes nds = Inl e \<Longrightarrow> \<exists>m. e = ExcType m \<or> e = ExcAttribute m"
  by (induction nds) (auto split: sum.splits dest: parse_node_exception)

lemma parse_nodes_known:
  "parse_nodes nds = Inr ns \<Longrightarrow>
     \<forall>n\<in>set ns. get_role (role_id n) \<noteq> None \<and> (\<forall>d\<in>set (depends_on n). get_role d \<noteq> None)"
proof (induction nds arbitrary: ns)
  case Nil
  then show ?case by simp
next
  case (Cons nd nds)
  from Cons.prems obtain parsed rest where
    p: "parse_node nd = Inr parsed" "parse_nodes nds = Inr rest"
       "ns = (case parsed of None \<Rightarrow> rest | Some node \<Rightarrow> node # rest)"
    by (auto split: sum.splits)
  note ih = Cons.IH [OF p(2)]
  show ?case
  proof (cases parsed)
    case None
    with p(3) ih show ?thesis by simp
  next
    case (Some node)
    with p(1) parse_node_known [of nd node] p(3) ih show ?thesis by simp
  qed
qed

lemma parsed_nodes_exception:
  "parsed_nodes data = Inl e \<Longrightarrow> \<exists>m. e = ExcType m \<or> e = ExcAttribute m"
  unfolding parsed_nodes_def
  by (auto split: sum.splits dest: py_get_exception py_iter_exception parse_nodes_exception)

lemma parsed_nodes_known:
  "parsed_nodes data = Inr ns \<Longrightarrow>
     \<forall>n\<in>set ns. get_role (role_id n) \<noteq> None \<and> (\<forall>d\<in>set (depends_on n). get_role d \<noteq> None)"
  unfolding parsed_nodes_def
  by (auto split: sum.splits dest: parse_nodes_known)

lemma parse_plan_body_exception:
  "parse_plan_body outcome = Inl e \<Longrightarrow>
     (outcome = NoJson \<and> e = ExcValue ''No JSON found in response'')
     \<or> (\<exists>m. outcome = BadJson m \<and> e = ExcJSONDecode m)
     \<or> (\<exists>m. e = ExcType m \<or> e = ExcAttribute m)"
  unfolding parse_plan_body_def
  by (auto split: json_outcome.splits sum.splits if_splits
      simp: validate_dag_characterisation
      dest: parsed_nodes_exception py_get_exception)

lemma parse_plan_response_exception:
  "parse_plan_response outcome = Inl e \<Longrightarrow> \<exists>m. e = ExcType m \<or> e = ExcAttribute m"
  unfolding parse_plan_response_def
  by (auto split: sum.splits py_exception.splits dest: parse_plan_body_exception)

lemma parse_dangling_reply:
  "parse_plan_response (Json dangling_reply)
     = Inr \<lparr>nodes = [\<lparr>role_id = ''financial_advisor'', depends_on = [''policy_expert'']\<rparr>],
            reason = PStr ''loan''\<rparr>"
proof -
  have n: "parsed_nodes dangling_reply
      = Inr [\<lparr>role_id = ''financial_advisor'', depends_on = [''policy_expert'']\<rparr>]"
    by (simp add: parsed_nodes_def dangling_reply_def py_get_def py_iter_def get_or_def
        parse_node_def known_role_def get_role_def ROLE_MAP_def)
  have c: "\<not> has_cycle [\<lparr>role_id = ''financial_advisor'', depends_on = [''policy_expert'']\<rparr>]"
    by (auto simp: has_cycle_def dep_edge_def role_ids_of_def dest: tranclD)
  have r: "py_get dangling_reply ''reason'' (PStr []) = Inr (PStr ''loan'')"
    by (simp add: dangling_reply_def py_get_def get_or_def)
  show ?thesis
    using n c r
    by (simp add: parse_plan_response_def parse_plan_body_def validate_dag_characterisation)
qed

text \<open>
  Claim C6. The parser drops every node whose role id is not a specialist's (lemma
  \<open>parsed_nodes_known\<close>), but it filters a node's dependencies by the same test,
  \<^verbatim>\<open>get_role(d)\<close>, not by membership in the plan: a dependency on a specialist that
  has no node in the plan is kept. On the reply below the resulting plan has one node,
  \<^verbatim>\<open>financial_advisor\<close>, that depends on \<^verbatim>\<open>policy_expert\<close>, which is no node of the
  plan; no set of completed nodes that a run can reach makes it ready.
\<close>

theorem parse_keeps_edge_to_absent_node:
  "parse_plan_response (Json dangling_reply)
     = Inr \<lparr>nodes = [\<lparr>role_id = ''financial_advisor'', depends_on = [''policy_expert'']\<rparr>],
            reason = PStr ''loan''\<rparr>
   \<and> ''policy_expert'' \<notin> set (map role_id [\<lparr>role_id = ''financial_advisor'', depends_on = [''policy_expert'']\<rparr>])
   \<and> get_ready_nodes
        \<lparr>nodes = [\<lparr>role_id = ''financial_advisor'', depends_on = [''policy_expert'']\<rparr>],
          reason = PStr ''loan''\<rparr> {} = []"
  using parse_dangling_reply by (simp add: get_ready_nodes_def)

text \<open>
  Claim C5. \<^verbatim>\<open>plan_execution\<close> returns a plan on every input. For an input that is
  empty after stripping white space it is the plan whose only node is the synthesizer,
  \<^verbatim>\<open>purchase_consultant\<close>, with no dependencies, and the rationale says that the input
  was empty. After a failed model call the plan has the same single node and its
  rationale is a fixed prefix followed by the error's message; after any other
  exception on the way to the parser, and after one the parser lets through, the
  rationale is the planning prefix followed by the exception's text; for a reply
  without JSON and a reply whose JSON does not decode it is the parsing prefix followed
  by the exception's text; for a reply that decodes to no node of a known specialist it
  says that the result was empty.
\<close>

theorem plan_execution_never_raises:
  "(\<exists>plan. plan_execution ui reply = Inr plan)
   \<and> (py_strip ui = [] \<longrightarrow>
         plan_execution ui reply
           = Inr \<lparr>nodes = [\<lparr>role_id = ''purchase_consultant'', depends_on = []\<rparr>],
                  reason = PStr reason_empty_input\<rparr>)
   \<and> (py_strip ui \<noteq> [] \<longrightarrow>
         plan_execution ui (CallFailed err)
           = Inr \<lparr>nodes = [\<lparr>role_id = ''purchase_consultant'', depends_on = []\<rparr>],
                  reason = PStr (prefix_llm_failed @ message err)\<rparr>
       \<and> plan_execution ui (CallRaised m)
           = Inr \<lparr>nodes = [\<lparr>role_id = ''purchase_consultant'', depends_on = []\<rparr>],
                  reason = PStr (prefix_planning_failed @ m)\<rparr>
       \<and> plan_execution ui (Content NoJson)
           = Inr \<lparr>nodes = [\<lparr>role_id = ''purchase_consultant'', depends_on = []\<rparr>],
                  reason = PStr (prefix_parse_failed @ ''No JSON found in response'')\<rparr>
       \<and> plan_execution ui (Content (BadJson m))
           = Inr \<lparr>nodes = [\<lparr>role_id = ''purchase_consultant'', depends_on = []\<rparr>],
                  reason = PStr (prefix_parse_failed @ m)\<rparr>
       \<and> (parsed_nodes data = Inr [] \<longrightarrow>
             plan_execution ui (Content (Json data))
               = Inr \<lparr>nodes = [\<lparr>role_id = ''purchase_consultant'', depends_on = []\<rparr>],
                      reason = PStr reason_empty_result\<rparr>)
       \<and> (\<forall>e. parse_plan_response outcome = Inl e \<longrightarrow>
             plan_execution ui (Content outcome)
               = Inr \<lparr>nodes = [\<lparr>role_id = ''purchase_consultant'', depends_on = []\<rparr>],
                      reason = PStr (prefix_planning_failed @ exc_str e)\<rparr>))"
proof (intro conjI impI allI)
  show "\<exists>plan. plan_execution ui reply = Inr plan"
    by (auto simp: plan_execution_def split: sum.splits py_exception.splits)
  show "plan_execution ui reply
           = Inr \<lparr>nodes = [\<lparr>role_id = ''purchase_consultant'', depends_on = []\<rparr>],
                  reason = PStr reason_empty_input\<rparr>" if "py_strip ui = []"
    using that by (simp add: plan_execution_def default_plan_def)
next
  assume ne: "py_strip ui \<noteq> []"
  show "plan_execution ui (CallFailed err)
           = Inr \<lparr>nodes = [\<lparr>role_id = ''purchase_consultant'', depends_on = []\<rparr>],
                  reason = PStr (prefix_llm_failed @ message err)\<rparr>"
    using ne by (simp add: plan_execution_def plan_with_llm_def default_plan_def)
  show "plan_execution ui (CallRaised m)
           = Inr \<lparr>nodes = [\<lparr>role_id = ''purchase_consultant'', depends_on = []\<rparr>],
                  reason = PStr (prefix_planning_failed @ m)\<rparr>"
    using ne by (simp add: plan_execution_def plan_with_llm_def default_plan_def)
  show "plan_execution ui (Content NoJson)
           = Inr \<lparr>nodes = [\<lparr>role_id = ''purchase_consultant'', depends_on = []\<rparr>],
                  reason = PStr (prefix_parse_failed @ ''No JSON found in response'')\<rparr>"
    using ne
    by (simp add: plan_execution_def plan_with_llm_def parse_plan_response_def parse_plan_body_def
        default_plan_def)
  show "plan_execution ui (Content (BadJson m))
           = Inr \<lparr>nodes = [\<lparr>role_id = ''purchase_consultant'', depends_on = []\<rparr>],
                  reason = PStr (prefix_parse_failed @ m)\<rparr>"
    using ne
    by (simp add: plan_execution_def plan_with_llm_def parse_plan_response_def parse_plan_body_def
        default_plan_def)
  show "plan_execution ui (Content (Json data))
               = Inr \<lparr>nodes = [\<lparr>role_id = ''purchase_consultant'', depends_on = []\<rparr>],
                      reason = PStr reason_empty_result\<rparr>" if "parsed_nodes data = Inr []"
    using ne that
    by (simp add: plan_execution_def plan_with_llm_def parse_plan_response_def parse_plan_body_def
        default_plan_def)
  fix e assume e: "parse_plan_response outcome = Inl e"
  from parse_plan_response_exception [OF e] obtain x where "e = ExcType x \<or> e = ExcAttribute x"
    by blast
  then show "plan_execution ui (Content outcome)
               = Inr \<lparr>nodes = [\<lparr>role_id = ''purchase_consultant'', depends_on = []\<rparr>],
                      reason = PStr (prefix_planning_failed @ exc_str e)\<rparr>"
    using ne e by (auto simp: plan_execution_def plan_with_llm_def default_plan_def)
qed

lemma parse_ill_shaped_reply:
  "parse_plan_response (Json ill_shaped_reply)
       = Inl (ExcType ([CHR 0x27] @ ''int'' @ [CHR 0x27] @ '' object is not iterable''))"
  by (simp add: parse_plan_response_def parse_plan_body_def parsed_nodes_def ill_shaped_reply_def
      py_get_def py_iter_def get_or_def)

lemma parse_unknown_only_reply: "parsed_nodes unknown_only_reply = Inr []"
  by (simp add: parsed_nodes_def unknown_only_reply_def py_get_def py_iter_def get_or_def
      parse_node_def known_role_def get_role_def ROLE_MAP_def)

theorem plan_execution_never_raises_witness:
  "plan_execution [32, 12288, 10] (CallRaised ''boom'')
       = Inr \<lparr>nodes = [\<lparr>role_id = ''purchase_consultant'', depends_on = []\<rparr>],
              reason = PStr reason_empty_input\<rparr>
   \<and> plan_execution [32, 65, 32] (CallFailed LLMTimeoutError)
       = Inr \<lparr>nodes = [\<lparr>role_id = ''purchase_consultant'', depends_on = []\<rparr>],
              reason = PStr (prefix_llm_failed @ msg_timeout)\<rparr>
   \<and> plan_execution [32, 65, 32] (CallRaised ''boom'')
       = Inr \<lparr>nodes = [\<lparr>role_id = ''purchase_consultant'', depends_on = []\<rparr>],
              reason = PStr (prefix_planning_failed @ ''boom'')\<rparr>
   \<and> plan_execution [32, 65, 32] (Content NoJson)
       = Inr \<lparr>nodes = [\<lparr>role_id = ''purchase_consultant'', depends_on = []\<rparr>],
              reason = PStr (prefix_parse_failed @ ''No JSON found in response'')\<rparr>
   \<and> plan_execution [32, 65, 32] (Content (BadJson ''Expecting value''))
       = Inr \<lparr>nodes = [\<lparr>role_id = ''purchase_consultant'', depends_on = []\<rparr>],
              reason = PStr (prefix_parse_failed @ ''Expecting value'')\<rparr>
   \<and> plan_execution [32, 65, 32] (Content (Json unknown_only_reply))
       = Inr \<lparr>nodes = [\<lparr>role_id = ''purchase_consultant'', depends_on = []\<rparr>],
              reason = PStr reason_empty_result\<rparr>
   \<and> plan_execution [32, 65, 32] (Content (Json ill_shaped_reply))
       = Inr \<lparr>nodes = [\<lparr>role_id = ''purchase_consultant'', depends_on = []\<rparr>],
              reason = PStr (prefix_planning_failed @ [CHR 0x27] @ ''int'' @ [CHR 0x27]
                               @ '' object is not iterable'')\<rparr>"
proof -
  have a: "py_strip [32, 12288, 10] = []" by (simp add: py_strip_def py_isspace_def)
  have b: "py_strip [32, 65, 32] \<noteq> []" by (simp add: py_strip_def py_isspace_def)
  note e = plan_execution_never_raises [of "[32, 12288, 10]" "CallRaised ''boom''" LLMTimeoutError
      "''boom''" unknown_only_reply "Json ill_shaped_reply",
      THEN conjunct2, THEN conjunct1, THEN mp, OF a]
  note n = plan_execution_never_raises [of "[32, 65, 32]" "CallRaised ''boom''" LLMTimeoutError
      "''boom''" unknown_only_reply "Json ill_shaped_reply",
      THEN conjunct2, THEN conjunct2, THEN mp, OF b]
  note n' = plan_execution_never_raises [of "[32, 65, 32]" "CallRaised ''boom''" LLMTimeoutError
      "''Expecting value''" unknown_only_reply "Json ill_shaped_reply",
      THEN conjunct2, THEN conjunct2, THEN mp, OF b]
  from n have f: "plan_execution [32, 65, 32] (CallFailed LLMTimeoutError)
       = Inr \<lparr>nodes = [\<lparr>role_id = ''purchase_consultant'', depends_on = []\<rparr>],
              reason = PStr (prefix_llm_failed @ msg_timeout)\<rparr>"
    by (simp add: LLMTimeoutError_def)
  note g = n [THEN conjunct2, THEN conjunct1]
  note h = n [THEN conjunct2, THEN conjunct2, THEN conjunct1]
  note i = n' [THEN conjunct2, THEN conjunct2, THEN conjunct2, THEN conjunct1]
  note j = n [THEN conjunct2, THEN conjunct2, THEN conjunct2, THEN conjunct2, THEN conjunct1,
      THEN mp, OF parse_unknown_only_reply]
  from n [THEN conjunct2, THEN conjunct2, THEN conjunct2, THEN conjunct2, THEN conjunct2,
      THEN spec, THEN mp, OF parse_ill_shaped_reply]
  have k: "plan_execution [32, 65, 32] (Content (Json ill_shaped_reply))
       = Inr \<lparr>nodes = [\<lparr>role_id = ''purchase_consultant'', depends_on = []\<rparr>],
              reason = PStr (prefix_planning_failed @ [CHR 0x27] @ ''int'' @ [CHR 0x27]
                               @ '' object is not iterable'')\<rparr>"
    by simp
  show ?thesis by (intro conjI e f g h i j k)
qed

subsection \<open>Tool calls of a node\<close>

lemma run_tool_calls_eq:
  "run_tool_calls e rid tcs messages
     = (concat (map (\<lambda>tc. fst (run_tool_call e rid tc)) tcs),
        messages @ map (\<lambda>tc. snd (run_tool_call e rid tc)) tcs)"
  by (induction tcs arbitrary: messages) (auto split: prod.splits)









subsection \<open>Scheduling: which rounds stream\<close>

lemma is_content_delta_simps [simp]:
  "is_content_delta (ContentDelta rid d a) = True"
  "is_content_delta (RoleStart rid b) = False"
  "is_content_delta (ThinkingStep st ro) = False"
  "is_content_delta (ContentComplete rid c) = False"
  "is_content_delta (ToolCallEvent tn ta rid) = False"
  "is_content_delta (ToolResultEvent tn rid) = False"
  "is_content_delta (ToolContentComplete rid c) = False"
  "is_content_delta (RoleResult rid c b) = False"
  by (simp_all add: is_content_delta_def)

lemma is_tool_event_simps [simp]:
  "is_tool_event (ContentDelta rid d a) = False"
  "is_tool_event (RoleStart rid b) = False"
  "is_tool_event (ThinkingStep st ro) = False"
  "is_tool_event (ContentComplete rid c) = False"
  "is_tool_event (ToolCallEvent tn ta rid) = True"
  "is_tool_event (ToolResultEvent tn rid) = True"
  "is_tool_event (ToolContentComplete rid c) = False"
  "is_tool_event (RoleResult rid c b) = False"
  by (simp_all add: is_tool_event_def)





















lemma dag_rounds_unfold:
  "dag_rounds e fuel ui plan completed ctx =
     (if get_ready_nodes plan completed = [] then []
      else round_of e fuel ui plan completed ctx
           # (case run_round e fuel ui plan completed ctx (get_ready_nodes plan completed) of
                (evs, ctx', Returns u) \<Rightarrow>
                   dag_rounds e fuel ui plan (completed \<union> role_id ` set (get_ready_nodes plan completed)) ctx'
              | (evs, ctx', out) \<Rightarrow> []))"
  by (subst dag_rounds.simps)
     (auto simp: Let_def round_of_def split: prod.splits outcome.splits)




lemma get_role_known:
  "get_role ''policy_expert'' = Some \<lparr>r_id = ''policy_expert'', r_name = name_policy_expert\<rparr>"
  "get_role ''financial_advisor'' = Some \<lparr>r_id = ''financial_advisor'', r_name = name_financial_advisor\<rparr>"
  "get_role ''market_analyst'' = Some \<lparr>r_id = ''market_analyst'', r_name = name_market_analyst\<rparr>"
  "get_role ''purchase_consultant'' = Some \<lparr>r_id = ''purchase_consultant'', r_name = name_purchase_consultant\<rparr>"
  by (simp_all add: get_role_def ROLE_MAP_def)

lemmas engine_defs =
  get_ready_nodes_def run_round_def round_mode_of_def round_of_def parallel_round_def gather_def
  execute_role_async_def execute_role_def process_llm_response_with_events_def role_start_events_def
  execute_node_def execute_node_silent_def execute_role_stream_def build_role_messages_def
  get_recent_history_def rendered_results_def delta_events_def text_of_def collect_def
  collector_init_def add_chunk_def get_result_def relay_event_def store_event_def full_content_of_def
  List.map_filter_def Let_def







subsection \<open>The synthesis and the persisted answer; failing nodes\<close>

lemma is_summary_start_simps [simp]:
  "is_summary_start (ContentDelta rid d a) = False"
  "is_summary_start (RoleStart rid b) = b"
  "is_summary_start (ThinkingStep st ro) = False"
  "is_summary_start (ContentComplete rid c) = False"
  "is_summary_start (ToolCallEvent tn ta rid) = False"
  "is_summary_start (ToolResultEvent tn rid) = False"
  "is_summary_start (ToolContentComplete rid c) = False"
  "is_summary_start (RoleResult rid c b) = False"
  by (simp_all add: is_summary_start_def)













lemma delta_events_no_summary: "filter is_summary_start (delta_events rid a chunks) = []"
  by (simp add: delta_events_def filter_map comp_def)

lemma dag_loop_unfold:
  "dag_loop e fuel ui plan completed ctx =
     (if get_ready_nodes plan completed = [] then ([], ctx, Returns ())
      else (case run_round e fuel ui plan completed ctx (get_ready_nodes plan completed) of
              (evs, ctx', Returns u) \<Rightarrow>
                (case dag_loop e fuel ui plan (completed \<union> role_id ` set (get_ready_nodes plan completed)) ctx' of
                   (evs2, ctx2, out2) \<Rightarrow> (evs @ evs2, ctx2, out2))
            | (evs, ctx', out) \<Rightarrow> (evs, ctx', out)))"
  by (subst dag_loop.simps) (simp add: Let_def)

lemmas sample_env_defs = echo_env_def failing_env_def answer_for_def text_chunk_def




lemma is_content_complete_simps [simp]:
  "is_content_complete (ContentDelta rid d a) = False"
  "is_content_complete (RoleStart rid b) = False"
  "is_content_complete (ThinkingStep st ro) = False"
  "is_content_complete (ContentComplete rid c) = True"
  "is_content_complete (ToolCallEvent tn ta rid) = False"
  "is_content_complete (ToolResultEvent tn rid) = False"
  "is_content_complete (ToolContentComplete rid c) = False"
  "is_content_complete (RoleResult rid c b) = False"
  by (simp_all add: is_content_complete_def)

lemma store_nothing:
  "filter is_content_complete evs = [] \<Longrightarrow> foldl (store_event rid) ctx evs = ctx"
  by (induction evs arbitrary: ctx)
     (auto simp: store_event_def is_content_complete_def split: event.splits if_splits)

lemma delta_events_incomplete: "filter is_content_complete (delta_events rid a chunks) = []"
  by (simp add: delta_events_def filter_map comp_def)

lemma planning_notice_incomplete: "filter is_content_complete (planning_notice rid sent) = []"
  by (simp add: planning_notice_def)

lemma run_tool_calls_incomplete:
  "filter is_content_complete (fst (run_tool_calls e rid tcs messages)) = []"
proof -
  have "filter is_content_complete (fst (run_tool_call e rid tc)) = []" for tc
    by (auto simp: run_tool_call_def Let_def split: option.splits sum.splits)
  then show ?thesis by (simp add: run_tool_calls_eq filter_concat)
qed

lemma handle_tool_calls_stream_incomplete:
  "filter is_content_complete (fst (handle_tool_calls_stream e fuel rid tcs messages c)) = []"
proof (induction fuel arbitrary: tcs messages c)
  case 0
  let ?am = "AssistantToolMessage (if c = [] then None else Some c) tcs"
  show ?case
    using run_tool_calls_incomplete [of e rid tcs "messages @ [?am]"]
    by (cases "run_tool_calls e rid tcs (messages @ [?am])") (simp add: Let_def)
next
  case (Suc n)
  let ?am = "AssistantToolMessage (if c = [] then None else Some c) tcs"
  obtain tev msgs where rt: "run_tool_calls e rid tcs (messages @ [?am]) = (tev, msgs)"
    by (cases "run_tool_calls e rid tcs (messages @ [?am])") auto
  have q: "filter is_content_complete tev = []"
    using run_tool_calls_incomplete [of e rid tcs "messages @ [?am]"] rt by simp
  obtain chunks failure where st: "llm_stream e msgs = (chunks, failure)"
    by (cases "llm_stream e msgs") auto
  show ?case
  proof (cases "failure = None \<and> r_tool_calls (collect chunks) \<noteq> []")
    case True
    obtain evs out where h: "handle_tool_calls_stream e n rid (r_tool_calls (collect chunks)) msgs
        (r_content (collect chunks)) = (evs, out)"
      by (cases "handle_tool_calls_stream e n rid (r_tool_calls (collect chunks)) msgs
        (r_content (collect chunks))") auto
    from Suc.IH [of "r_tool_calls (collect chunks)" msgs "r_content (collect chunks)"] h
    have "filter is_content_complete evs = []" by simp
    with True rt q st h show ?thesis
      by (simp add: Let_def delta_events_incomplete planning_notice_incomplete)
  next
    case False
    with rt q st show ?thesis
      by (auto simp: Let_def delta_events_incomplete split: option.splits)
  qed
qed

lemma failed_stream_incomplete:
  assumes "execute_role_stream e fuel r ui ctx = (evs, Raises x)"
  shows "filter is_content_complete evs = []"
proof -
  let ?ms = "build_role_messages r ui ctx"
  obtain chunks failure where st: "llm_stream e ?ms = (chunks, failure)"
    by (cases "llm_stream e ?ms") auto
  show ?thesis
  proof (cases "failure = None \<and> r_tool_calls (collect chunks) \<noteq> []")
    case True
    obtain hevs out where h: "handle_tool_calls_stream e fuel (r_id r) (r_tool_calls (collect chunks)) ?ms
        (r_content (collect chunks)) = (hevs, out)"
      by (cases "handle_tool_calls_stream e fuel (r_id r) (r_tool_calls (collect chunks)) ?ms
        (r_content (collect chunks))") auto
    from handle_tool_calls_stream_incomplete
      [of e fuel "r_id r" "r_tool_calls (collect chunks)" ?ms "r_content (collect chunks)"] h
    have "filter is_content_complete hevs = []" by simp
    then have "filter is_content_complete (filter (\<lambda>ev. \<not> is_tool_content_complete ev) hevs) = []"
      by (induction hevs) (auto split: if_splits)
    with assms st True h show ?thesis
      by (auto simp: execute_role_stream_def Let_def delta_events_incomplete planning_notice_incomplete
          split: outcome.splits)
  next
    case False
    with assms st show ?thesis
      by (auto simp: execute_role_stream_def Let_def delta_events_incomplete split: option.splits)
  qed
qed

text \<open>
  The parallel round, for comparison: \<^verbatim>\<open>_execute_role_async\<close> returns no exception,
  and after a round that has been sent, a node whose call failed has its rendered
  failure in the result map, whatever its siblings did.
\<close>

lemma execute_role_async_never_raises: "execute_role_async e fuel node ui ctx \<noteq> Raises x"
  by (simp add: execute_role_async_def split: option.splits outcome.splits)

lemma send_results_other:
  "k \<notin> role_id ` fst ` set rs \<Longrightarrow>
   map_of (role_results (snd (send_results ctx rs))) k = map_of (role_results ctx) k"
  by (induction ctx rs rule: send_results.induct)
     (auto simp: Let_def update_conv' split: prod.splits)

lemma send_results_entry:
  assumes "Unfinished \<notin> snd ` set rs"
    and "\<forall>p\<in>set rs. role_id (fst p) = k \<longrightarrow> snd p = Returns res"
    and "k \<in> role_id ` fst ` set rs"
  shows "map_of (role_results (snd (send_results ctx rs))) k = Some (rr_content (fst res))"
  using assms
proof (induction ctx rs rule: send_results.induct)
  case (1 ctx)
  then show ?case by simp
next
  case (2 ctx node x rest)
  from "2.prems"(2) have ne: "role_id node \<noteq> k" by auto
  with "2.prems"(3) have "k \<in> role_id ` fst ` set rest" by auto
  with 2 have "map_of (role_results (snd (send_results ctx rest))) k = Some (rr_content (fst res))"
    by simp
  then show ?case by (auto simp: Let_def split: prod.splits)
next
  case (3 ctx node r rest)
  let ?ctx1 = "ctx\<lparr>role_results := AList.update (role_id node) (rr_content (fst r)) (role_results ctx)\<rparr>"
  show ?case
  proof (cases "k \<in> role_id ` fst ` set rest")
    case True
    with 3 have "map_of (role_results (snd (send_results ?ctx1 rest))) k = Some (rr_content (fst res))"
      by simp
    then show ?thesis by (auto simp: Let_def split: prod.splits)
  next
    case False
    with "3.prems" have k: "role_id node = k" and r: "r = res" by auto
    from send_results_other [OF False, of ?ctx1]
    have "map_of (role_results (snd (send_results ?ctx1 rest))) k = Some (rr_content (fst res))"
      using k r by (simp add: update_conv')
    then show ?thesis by (auto simp: Let_def split: prod.splits)
  qed
next
  case (4 ctx node rest)
  then show ?case by simp
qed

lemma parallel_round_failed_entry:
  assumes ret: "parallel_round e fuel ui ctx ready = (evs, ctx', Returns ())"
    and node: "node \<in> set ready"
    and role: "get_role (role_id node) = Some r"
    and fails: "execute_role e fuel r ui ctx True = Raises x"
  shows "map_of (role_results ctx') (role_id node) = Some (prefix_execution_failed @ exc_str x)"
proof -
  let ?rs = "zip ready (gather e fuel ui ctx ready)"
  let ?res = "(\<lparr>rr_role_id = r_id r, rr_content = prefix_execution_failed @ exc_str x,
                 rr_success = False, rr_error = exc_str x\<rparr>, [] :: event list)"
  have z: "?rs = map (\<lambda>n. (n, execute_role_async e fuel n ui ctx)) ready"
    by (induction ready) (simp_all add: gather_def)
  from ret have fin: "Unfinished \<notin> set (gather e fuel ui ctx ready)"
    by (auto simp: parallel_round_def Let_def split: if_splits)
  then have 1: "Unfinished \<notin> snd ` set ?rs"
    unfolding z by (auto simp: gather_def)
  have 2: "\<forall>p\<in>set ?rs. role_id (fst p) = role_id node \<longrightarrow> snd p = Returns ?res"
    unfolding z using role fails by (auto simp: execute_role_async_def)
  have 3: "role_id node \<in> role_id ` fst ` set ?rs"
    unfolding z using node by force
  from send_results_entry [OF 1 2 3, of ctx]
  have "map_of (role_results (snd (send_results ctx ?rs))) (role_id node)
          = Some (prefix_execution_failed @ exc_str x)" by simp
  moreover from ret fin have "ctx' = snd (send_results ctx ?rs)"
    by (auto simp: parallel_round_def Let_def split: if_splits prod.splits)
  ultimately show ?thesis by simp
qed

text \<open>
  Claim C9 holds of the parallel round (lemma \<open>parallel_round_failed_entry\<close>). It
  does not hold of a round with a single ready node: when the specialist's stream raises,
  \<^verbatim>\<open>_execute_node_silent\<close> and \<^verbatim>\<open>_execute_node\<close> catch the exception, report it in
  an event and return normally, and the context, so the result map, is as it was before
  the round: the failed node has no entry, and a node that depends on it finds none.
\<close>

theorem failed_single_node_writes_no_entry:
  assumes "get_role (role_id node) = Some r"
    and "snd (execute_role_stream e fuel r ui ctx) = Raises x"
  shows "snd (execute_node_silent e fuel node ui ctx) = (ctx, Returns ())
       \<and> snd (execute_node e fuel node ui ctx) = (ctx, Returns ())"
proof -
  obtain evs where st: "execute_role_stream e fuel r ui ctx = (evs, Raises x)"
    using assms(2) by (cases "execute_role_stream e fuel r ui ctx") auto
  from store_nothing [OF failed_stream_incomplete [OF st]]
  have "foldl (store_event (r_id r)) ctx evs = ctx" .
  with assms(1) st show ?thesis
    by (simp add: execute_node_silent_def execute_node_def Let_def)
qed

theorem failed_single_node_writes_no_entry_witness:
  "snd (execute_node_silent failing_env 1 \<lparr>role_id = ''policy_expert'', depends_on = []\<rparr> ''q'' fresh_context)
     = (fresh_context, Returns ())
   \<and> snd (execute_node failing_env 1 \<lparr>role_id = ''policy_expert'', depends_on = []\<rparr> ''q'' fresh_context)
     = (fresh_context, Returns ())"
proof -
  have "snd (execute_role_stream failing_env 1
               \<lparr>r_id = ''policy_expert'', r_name = name_policy_expert\<rparr> ''q'' fresh_context)
          = Raises (ExcLLM LLMTimeoutError)"
    by (simp add: execute_role_stream_def build_role_messages_def sample_env_defs Let_def)
  from failed_single_node_writes_no_entry [of "\<lparr>role_id = ''policy_expert'', depends_on = []\<rparr>",
      OF _ this]
  show ?thesis by (simp add: get_role_known)
qed

text \<open>
  The run of the chain in which the first specialist times out: it is run alone and
  silently, the second specialist starts from an empty result map, and the turn ends
  with no entry for the first; run side by side, the same failure is in the map.
\<close>

lemma failed_dependency_run:
  "map (\<lambda>x. (map role_id (r_ready x), r_mode x, role_results (r_context x)))
       (dag_rounds failing_env 1 ''q'' chain_plan {} fresh_context)
     = [([''policy_expert''], Silent, []), ([''financial_advisor''], Live, [])]
   \<and> snd (dag_loop failing_env 1 ''q'' chain_plan {} fresh_context)
     = (\<lparr>history = [(''user'', ''q'')],
         role_results = [(''financial_advisor'', ''from financial_advisor'')]\<rparr>, Returns ())
   \<and> snd (dag_loop failing_env 1 ''q'' parallel_plan {} fresh_context)
     = (\<lparr>history = [(''user'', ''q'')],
         role_results = [(''policy_expert'', prefix_execution_failed @ msg_timeout),
                         (''financial_advisor'', ''from financial_advisor'')]\<rparr>, Returns ())"
  by (simp add: dag_rounds_unfold dag_loop_unfold chain_plan_def parallel_plan_def fresh_context_def
        sample_env_defs get_role_known engine_defs LLMTimeoutError_def)


end
